(* ===== verification/Prelude.thy ===== *)
theory Prelude
  imports Complex_Main "HOL-Library.Word" "HOL-Library.Multiset"
begin

text \<open>
  Shared vocabulary of the render-engine development. The C++ \<open>float\<close> is idealised
  as a HOL \<open>real\<close>: the model computes exactly where the program rounds, and a
  division by zero gives 0 where IEEE arithmetic gives an infinity or NaN. The 8-bit
  colour channels of \<open>sf::Color\<close> are \<open>8 word\<close>. This theory holds the
  collection \<open>geom_simps\<close> of component equations that the geometric proofs
  share, the conversion of a \<open>float\<close> to an 8-bit channel, and generic lemmas on
  reals and lists used by several components.
\<close>

named_theorems geom_simps "component equations of the geometric operations"

type_synonym float = real
type_synonym u8 = "8 word"

text \<open>
  C++ conversion of a floating value to an unsigned integer type truncates towards zero;
  a value outside the target range is undefined behaviour, which the model represents by
  wrapping modulo \<open>2^8\<close>.
\<close>

definition trunc_float :: "float \<Rightarrow> int" where
  "trunc_float v = (if 0 \<le> v then \<lfloor>v\<rfloor> else \<lceil>v\<rceil>)"

definition u8_of_float :: "float \<Rightarrow> u8" where
  "u8_of_float v = word_of_int (trunc_float v)"

lemma trunc_float_nonneg [simp]: "0 \<le> v \<Longrightarrow> trunc_float v = \<lfloor>v\<rfloor>"
  by (simp add: trunc_float_def)

lemma unat_u8_of_float:
  assumes "0 \<le> v" "v < 256"
  shows "unat (u8_of_float v) = nat \<lfloor>v\<rfloor>"
proof -
  have lo: "0 \<le> \<lfloor>v\<rfloor>" using assms(1) by simp
  have hi: "\<lfloor>v\<rfloor> < 256" using assms(2) by (simp add: floor_less_iff)
  have "uint (word_of_int \<lfloor>v\<rfloor> :: u8) = \<lfloor>v\<rfloor>"
    using lo hi by (simp add: uint_word_of_int take_bit_int_eq_self)
  then show ?thesis
    using assms(1) by (simp add: u8_of_float_def unat_eq_nat_uint)
qed

subsection \<open>Reals\<close>

lemma sum_sq_nonneg [simp]: "0 \<le> (a::real) * a + b * b + c * c"
  by (intro add_nonneg_nonneg) simp_all

lemma sum_sq_eq_0_iff: "((a::real) * a + b * b + c * c = 0) \<longleftrightarrow> a = 0 \<and> b = 0 \<and> c = 0"
proof -
  have "0 \<le> a * a" "0 \<le> b * b" "0 \<le> c * c" by simp_all
  then show ?thesis by (auto simp: add_nonneg_eq_0_iff)
qed

lemma sqrt_sq_div_self:
  assumes "0 < (s::real)"
  shows "s / sqrt s * (s / sqrt s) = s"
proof -
  have "sqrt s * sqrt s = s" using assms by simp
  moreover have "sqrt s \<noteq> 0" using assms by simp
  ultimately show ?thesis by (simp add: field_simps)
qed

end
