(* ===== verification/Vector.thy ===== *)
theory Vector
  imports Prelude
begin

text \<open>
  The homogeneous vector \<open>vector3D\<close> of \<open>src/VectorMatrix.h\<close> (lines 3--16) and its
  operators (lines 31--107, less the matrix product, which is in theory \<open>Matrix\<close>).
  Every operator keeps the \<open>w\<close> of its left operand, as the C++ does; \<open>w\<close> takes no
  part in the dot product, the cross product or the length. Lemmas: the cross product is
  orthogonal to both operands, normalisation yields unit length for a non-zero vector and
  is idempotent, and the Cauchy--Schwarz bound on the dot product.
\<close>

record vector3D =
  x :: float
  y :: float
  z :: float
  w :: float

text \<open>\<open>vector3D v = {a, b, c}\<close>: brace initialisation leaves \<open>w\<close> at its default 1.\<close>

definition vec3 :: "float \<Rightarrow> float \<Rightarrow> float \<Rightarrow> vector3D" where
  "vec3 a b c = \<lparr>x = a, y = b, z = c, w = 1\<rparr>"

definition vAdd :: "vector3D \<Rightarrow> vector3D \<Rightarrow> vector3D" where
  "vAdd u v = \<lparr>x = x u + x v, y = y u + y v, z = z u + z v, w = w u\<rparr>"

definition vSub :: "vector3D \<Rightarrow> vector3D \<Rightarrow> vector3D" where
  "vSub u v = \<lparr>x = x u - x v, y = y u - y v, z = z u - z v, w = w u\<rparr>"

definition vMul :: "vector3D \<Rightarrow> float \<Rightarrow> vector3D" where
  "vMul u k = \<lparr>x = x u * k, y = y u * k, z = z u * k, w = w u\<rparr>"

definition vDiv :: "vector3D \<Rightarrow> float \<Rightarrow> vector3D" where
  "vDiv u k = \<lparr>x = x u / k, y = y u / k, z = z u / k, w = w u\<rparr>"

definition vDotProduct :: "vector3D \<Rightarrow> vector3D \<Rightarrow> float" where
  "vDotProduct u v = x u * x v + y u * y v + z u * z v"

definition vCrossProduct :: "vector3D \<Rightarrow> vector3D \<Rightarrow> vector3D" where
  "vCrossProduct u v =
     \<lparr>x = y u * z v - z u * y v,
      y = z u * x v - x u * z v,
      z = x u * y v - y u * x v,
      w = w u\<rparr>"

definition vLength :: "vector3D \<Rightarrow> float" where
  "vLength u = sqrt (vDotProduct u u)"

definition vNormalise :: "vector3D \<Rightarrow> vector3D" where
  "vNormalise u = (let l = vLength u in vDiv u l)"

declare vec3_def [geom_simps] vAdd_def [geom_simps] vSub_def [geom_simps]
  vMul_def [geom_simps] vDiv_def [geom_simps] vDotProduct_def [geom_simps]
  vCrossProduct_def [geom_simps]

subsection \<open>Length and normalisation\<close>

lemma vNormalise_eq: "vNormalise u = vDiv u (vLength u)"
  by (simp add: vNormalise_def Let_def)

lemma vDotProduct_self_nonneg [simp]: "0 \<le> vDotProduct u u"
  by (simp add: vDotProduct_def)

lemma vLength_sq: "vLength u * vLength u = vDotProduct u u"
  by (simp add: vLength_def)

lemma vLength_nonneg [simp]: "0 \<le> vLength u"
  by (simp add: vLength_def)

lemma vLength_eq_0_iff: "vLength u = 0 \<longleftrightarrow> x u = 0 \<and> y u = 0 \<and> z u = 0"
  by (simp add: vLength_def vDotProduct_def sum_sq_eq_0_iff)

lemma vDotProduct_vDiv_left: "vDotProduct (vDiv u k) v = vDotProduct u v / k"
  by (simp add: geom_simps add_divide_distrib)

lemma vDotProduct_vNormalise_self:
  assumes "vLength u \<noteq> 0"
  shows "vDotProduct (vNormalise u) (vNormalise u) = 1"
proof -
  let ?l = "vLength u"
  have "vDotProduct (vNormalise u) (vNormalise u) = vDotProduct u u / (?l * ?l)"
    by (simp add: vNormalise_eq vDotProduct_def vDiv_def add_divide_distrib)
  also have "\<dots> = 1" using assms by (simp add: vLength_sq [symmetric])
  finally show ?thesis .
qed

lemma vLength_vNormalise_cases: "vLength (vNormalise u) = (if vLength u = 0 then 0 else 1)"
proof (cases "vLength u = 0")
  case True
  then have "x u = 0" "y u = 0" "z u = 0" by (simp_all add: vLength_eq_0_iff)
  with True show ?thesis
    by (simp add: vNormalise_eq vDiv_def vLength_def vDotProduct_def)
next
  case False
  then show ?thesis by (simp add: vLength_def vDotProduct_vNormalise_self)
qed

lemma vNormalise_w [simp]: "w (vNormalise u) = w u"
  by (simp add: vNormalise_eq vDiv_def)

lemma vNormalise_idem: "vNormalise (vNormalise u) = vNormalise u"
proof (cases "vLength u = 0")
  case True
  then have "vLength (vNormalise u) = 0" by (simp add: vLength_vNormalise_cases)
  with True show ?thesis
    by (simp add: vNormalise_eq vDiv_def vLength_eq_0_iff)
next
  case False
  then have "vLength (vNormalise u) = 1" by (simp add: vLength_vNormalise_cases)
  then show ?thesis by (simp add: vNormalise_eq [of "vNormalise u"] vDiv_def)
qed

lemma vNormalise_unit:
  assumes "vDotProduct u u = 1"
  shows "vNormalise u = u"
  using assms by (simp add: vNormalise_eq vLength_def vDiv_def)

lemma vLength_vMul: "vLength (vMul u k) = \<bar>k\<bar> * vLength u"
proof -
  have "vDotProduct (vMul u k) (vMul u k) = k\<^sup>2 * vDotProduct u u"
    by (simp add: geom_simps power2_eq_square algebra_simps)
  then show ?thesis by (simp add: vLength_def real_sqrt_mult)
qed

lemma vLength_vSub_vAdd: "vLength (vSub (vAdd c u) c) = vLength u"
  by (simp add: vLength_def geom_simps)

lemma vLength_xyz_cong: "x u = x v \<Longrightarrow> y u = y v \<Longrightarrow> z u = z v \<Longrightarrow> vLength u = vLength v"
  by (simp add: vLength_def vDotProduct_def)

lemma vDotProduct_commute: "vDotProduct u v = vDotProduct v u"
  by (simp add: vDotProduct_def algebra_simps)

lemma vDotProduct_vec3_xyz_left [simp]:
  "vDotProduct (vec3 (x u) (y u) (z u)) v = vDotProduct u v"
  by (simp add: geom_simps)

lemma vDotProduct_vec3_xyz_right [simp]:
  "vDotProduct u (vec3 (x v) (y v) (z v)) = vDotProduct u v"
  by (simp add: geom_simps)

subsection \<open>Cross product and Cauchy--Schwarz\<close>

lemma cross_dot_left: "vDotProduct (vCrossProduct u v) u = 0"
  by (simp add: geom_simps algebra_simps)

lemma cross_dot_right: "vDotProduct (vCrossProduct u v) v = 0"
  by (simp add: geom_simps algebra_simps)

lemma lagrange_identity:
  "vDotProduct u u * vDotProduct v v - vDotProduct u v * vDotProduct u v
     = vDotProduct (vCrossProduct u v) (vCrossProduct u v)"
  by (simp add: geom_simps algebra_simps)

lemma cauchy_schwarz:
  "vDotProduct u v * vDotProduct u v \<le> vDotProduct u u * vDotProduct v v"
proof -
  have "0 \<le> vDotProduct (vCrossProduct u v) (vCrossProduct u v)" by simp
  then show ?thesis unfolding lagrange_identity [symmetric] by simp
qed

lemma dot_unit_bound:
  assumes "vDotProduct u u \<le> 1" "vDotProduct v v \<le> 1"
  shows "\<bar>vDotProduct u v\<bar> \<le> 1"
proof -
  have "vDotProduct u u * vDotProduct v v \<le> 1"
    using assms by (simp add: mult_le_one)
  with cauchy_schwarz [of u v] have "(vDotProduct u v)\<^sup>2 \<le> 1"
    by (simp add: power2_eq_square)
  then show ?thesis by (simp add: abs_square_le_1)
qed

lemma vNormalise_dot_self_le_1: "vDotProduct (vNormalise u) (vNormalise u) \<le> 1"
  using vLength_vNormalise_cases [of u]
  by (cases "vLength u = 0") (auto simp: vLength_def)

subsection \<open>Properties\<close>

text \<open>C24: normalising a vector of non-zero length yields a vector of length 1.\<close>

theorem normalise_unit_length:
  assumes "vLength u \<noteq> 0"
  shows "vLength (vNormalise u) = 1"
  using assms by (simp add: vLength_vNormalise_cases)

text \<open>The cross product is orthogonal to both of its operands.\<close>

lemma cross_orthogonal:
  "vDotProduct (vCrossProduct a b) a = 0 \<and> vDotProduct (vCrossProduct a b) b = 0"
  by (simp add: cross_dot_left cross_dot_right)

subsection \<open>Witnesses\<close>

theorem normalise_unit_length_witness:
  "vLength (vec3 3 4 0) \<noteq> 0 \<and> vLength (vNormalise (vec3 3 4 0)) = 1"
proof -
  have h: "vLength (vec3 3 4 0) \<noteq> 0" by (simp add: vLength_def geom_simps)
  show ?thesis using h normalise_unit_length [OF h] by blast
qed

end
