(* ===== verification/Matrix.thy ===== *)
theory Matrix
  imports Vector
begin

text \<open>
  The matrix type \<open>mat4x4\<close> of \<open>src/VectorMatrix.h\<close> (lines 18--29), the
  vector--matrix product (lines 86--94) and the matrix operations (lines 150--286).
  \<open>float m[4][4] = { 0 }\<close> is a function from a pair of indices of the four-element
  type \<open>idx\<close> to \<open>float\<close>, zero everywhere at construction; each builder of the
  source assigns entries of the zero matrix, which is function update here. Vectors are
  rows and are multiplied on the left (\<open>v' = v \<cdot> M\<close>).
\<close>

datatype idx = I0 | I1 | I2 | I3

type_synonym mat4x4 = "idx \<times> idx \<Rightarrow> float"

definition mzero :: mat4x4 where
  "mzero = (\<lambda>_. 0)"

definition vectorMatrixProduct :: "vector3D \<Rightarrow> mat4x4 \<Rightarrow> vector3D" where
  "vectorMatrixProduct a m =
     \<lparr>x = x a * m (I0, I0) + y a * m (I1, I0) + z a * m (I2, I0) + w a * m (I3, I0),
      y = x a * m (I0, I1) + y a * m (I1, I1) + z a * m (I2, I1) + w a * m (I3, I1),
      z = x a * m (I0, I2) + y a * m (I1, I2) + z a * m (I2, I2) + w a * m (I3, I2),
      w = x a * m (I0, I3) + y a * m (I1, I3) + z a * m (I2, I3) + w a * m (I3, I3)\<rparr>"

text \<open>\<open>operator*\<close>: entry \<open>(r, c)\<close> of the product is row \<open>r\<close> of the left operand
  times column \<open>c\<close> of the right one.\<close>

definition mat_mul :: "mat4x4 \<Rightarrow> mat4x4 \<Rightarrow> mat4x4" where
  "mat_mul a b = (\<lambda>(r, c).
     a (r, I0) * b (I0, c) + a (r, I1) * b (I1, c) + a (r, I2) * b (I2, c) + a (r, I3) * b (I3, c))"

definition mIdentity :: mat4x4 where
  "mIdentity = mzero((I0, I0) := 1, (I1, I1) := 1, (I2, I2) := 1, (I3, I3) := 1)"

definition mRotateX :: "float \<Rightarrow> mat4x4" where
  "mRotateX fAngleRad = mzero(
     (I0, I0) := 1,
     (I1, I1) := cos fAngleRad,
     (I1, I2) := sin fAngleRad,
     (I2, I1) := - sin fAngleRad,
     (I2, I2) := cos fAngleRad,
     (I3, I3) := 1)"

definition mRotateY :: "float \<Rightarrow> mat4x4" where
  "mRotateY fAngleRad = mzero(
     (I0, I0) := cos fAngleRad,
     (I0, I2) := sin fAngleRad,
     (I2, I0) := - sin fAngleRad,
     (I1, I1) := 1,
     (I2, I2) := cos fAngleRad,
     (I3, I3) := 1)"

definition mRotateZ :: "float \<Rightarrow> mat4x4" where
  "mRotateZ fAngleRad = mzero(
     (I0, I0) := cos fAngleRad,
     (I0, I1) := sin fAngleRad,
     (I1, I0) := - sin fAngleRad,
     (I1, I1) := cos fAngleRad,
     (I2, I2) := 1,
     (I3, I3) := 1)"

text \<open>The source converts degrees to radians with the constant \<open>3.14159\<close>, not with
  \<open>\<pi>\<close>; the model keeps that constant.\<close>

definition mProject :: "float \<Rightarrow> float \<Rightarrow> float \<Rightarrow> float \<Rightarrow> mat4x4" where
  "mProject fFovDegrees fAspectRatio fNear fFar =
     (let fFovRad = 1 / tan (fFovDegrees * 0.5 / 180 * 3.14159)
      in mzero(
        (I0, I0) := fAspectRatio * fFovRad,
        (I1, I1) := fFovRad,
        (I2, I2) := fFar / (fFar - fNear),
        (I3, I2) := (- fFar * fNear) / (fFar - fNear),
        (I2, I3) := 1,
        (I3, I3) := 0))"

definition mTranslate :: "float \<Rightarrow> float \<Rightarrow> float \<Rightarrow> mat4x4" where
  "mTranslate tx ty tz = mzero(
     (I0, I0) := 1, (I1, I1) := 1, (I2, I2) := 1, (I3, I3) := 1,
     (I3, I0) := tx, (I3, I1) := ty, (I3, I2) := tz)"

text \<open>\<open>mPointAt\<close>: note that the corrected up vector is \<open>a - up\<close>, the negation of the
  component of \<open>up\<close> orthogonal to the forward direction.\<close>

definition mPointAt :: "vector3D \<Rightarrow> vector3D \<Rightarrow> vector3D \<Rightarrow> mat4x4" where
  "mPointAt pos target up =
     (let newForward = vNormalise (vSub target pos);
          a = vMul newForward (vDotProduct up newForward);
          newUp = vNormalise (vSub a up);
          newRight = vCrossProduct newUp newForward
      in mzero(
        (I0, I0) := x newRight, (I0, I1) := y newRight, (I0, I2) := z newRight, (I0, I3) := 0,
        (I1, I0) := x newUp, (I1, I1) := y newUp, (I1, I2) := z newUp, (I1, I3) := 0,
        (I2, I0) := x newForward, (I2, I1) := y newForward, (I2, I2) := z newForward,
        (I2, I3) := 0,
        (I3, I0) := x pos, (I3, I1) := y pos, (I3, I2) := z pos, (I3, I3) := 1))"

text \<open>\<open>mQuickInverse\<close>: the translation row is computed from the already transposed
  entries of the result, as in the source.\<close>

definition mQuickInverse :: "mat4x4 \<Rightarrow> mat4x4" where
  "mQuickInverse m =
     (let r = mzero(
        (I0, I0) := m (I0, I0), (I0, I1) := m (I1, I0), (I0, I2) := m (I2, I0), (I0, I3) := 0,
        (I1, I0) := m (I0, I1), (I1, I1) := m (I1, I1), (I1, I2) := m (I2, I1), (I1, I3) := 0,
        (I2, I0) := m (I0, I2), (I2, I1) := m (I1, I2), (I2, I2) := m (I2, I2), (I2, I3) := 0)
      in r(
        (I3, I0) := - (m (I3, I0) * r (I0, I0) + m (I3, I1) * r (I1, I0) + m (I3, I2) * r (I2, I0)),
        (I3, I1) := - (m (I3, I0) * r (I0, I1) + m (I3, I1) * r (I1, I1) + m (I3, I2) * r (I2, I1)),
        (I3, I2) := - (m (I3, I0) * r (I0, I2) + m (I3, I1) * r (I1, I2) + m (I3, I2) * r (I2, I2)),
        (I3, I3) := 1))"

subsection \<open>Rigid transforms\<close>

text \<open>Row \<open>i\<close> of the rotation block, and the precondition of \<open>mQuickInverse\<close>: the
  rotation rows are orthonormal and the last column is \<open>(0, 0, 0, 1)\<close>.\<close>

definition row3 :: "mat4x4 \<Rightarrow> idx \<Rightarrow> vector3D" where
  "row3 m i = vec3 (m (i, I0)) (m (i, I1)) (m (i, I2))"

definition rigid :: "mat4x4 \<Rightarrow> bool" where
  "rigid m \<longleftrightarrow>
     m (I0, I3) = 0 \<and> m (I1, I3) = 0 \<and> m (I2, I3) = 0 \<and> m (I3, I3) = 1 \<and>
     vDotProduct (row3 m I0) (row3 m I0) = 1 \<and> vDotProduct (row3 m I1) (row3 m I1) = 1 \<and>
     vDotProduct (row3 m I2) (row3 m I2) = 1 \<and> vDotProduct (row3 m I0) (row3 m I1) = 0 \<and>
     vDotProduct (row3 m I0) (row3 m I2) = 0 \<and> vDotProduct (row3 m I1) (row3 m I2) = 0"

text \<open>The inputs for which \<open>mPointAt\<close> builds a basis: the target differs from the
  position, and \<open>up\<close> is not parallel to the forward direction.\<close>

definition pointAt_nondegenerate :: "vector3D \<Rightarrow> vector3D \<Rightarrow> vector3D \<Rightarrow> bool" where
  "pointAt_nondegenerate pos target up \<longleftrightarrow>
     (let f = vNormalise (vSub target pos)
      in vLength (vSub target pos) \<noteq> 0 \<and> vLength (vSub (vMul f (vDotProduct up f)) up) \<noteq> 0)"

subsection \<open>Generic lemmas\<close>

lemma mat_eqI: "(\<And>r c. a (r, c) = b (r, c)) \<Longrightarrow> a = b"
  by (auto simp: fun_eq_iff)

lemma mzero_apply [simp]: "mzero rc = 0"
  by (simp add: mzero_def)

lemma mat_mul_apply: "mat_mul a b (r, c) =
     a (r, I0) * b (I0, c) + a (r, I1) * b (I1, c) + a (r, I2) * b (I2, c) + a (r, I3) * b (I3, c)"
  by (simp add: mat_mul_def)

lemma vector3D_eqI:
  "x u = x v \<Longrightarrow> y u = y v \<Longrightarrow> z u = z v \<Longrightarrow> w u = w v \<Longrightarrow> u = (v :: vector3D)"
  by (cases u, cases v) simp


lemma vectorMatrixProduct_mat_mul:
  "vectorMatrixProduct (vectorMatrixProduct v a) b = vectorMatrixProduct v (mat_mul a b)"
  by (simp add: vectorMatrixProduct_def mat_mul_apply algebra_simps)

lemma vectorMatrixProduct_mIdentity: "vectorMatrixProduct v mIdentity = v"
  by (rule vector3D_eqI) (simp_all add: vectorMatrixProduct_def mIdentity_def)

lemma rigid_quickInverse:
  assumes "rigid m"
  shows "mat_mul m (mQuickInverse m) = mIdentity"
proof (rule mat_eqI)
  fix r c
  from assms show "mat_mul m (mQuickInverse m) (r, c) = mIdentity (r, c)"
    by (cases r; cases c)
       (simp_all add: rigid_def row3_def geom_simps mat_mul_apply mQuickInverse_def Let_def
          mIdentity_def algebra_simps)
qed


lemma mPointAt_basis:
  assumes "pointAt_nondegenerate pos target up"
  defines "f \<equiv> vNormalise (vSub target pos)"
  defines "d \<equiv> vSub (vMul f (vDotProduct up f)) up"
  defines "nu \<equiv> vNormalise d"
  shows "vDotProduct f f = 1" and "vDotProduct nu nu = 1" and "vDotProduct nu f = 0"
    and "vDotProduct d up = - vDotProduct d d"
proof -
  from assms(1) have nz1: "vLength (vSub target pos) \<noteq> 0" and nz2: "vLength d \<noteq> 0"
    by (simp_all add: pointAt_nondegenerate_def Let_def f_def d_def)
  show ff: "vDotProduct f f = 1"
    using nz1 by (simp add: f_def vDotProduct_vNormalise_self)
  show "vDotProduct nu nu = 1"
    using nz2 by (simp add: nu_def vDotProduct_vNormalise_self)
  have "vDotProduct d f = vDotProduct up f * vDotProduct f f - vDotProduct up f"
    by (simp add: d_def geom_simps algebra_simps)
  with ff have "vDotProduct d f = 0" by simp
  then show "vDotProduct nu f = 0"
    by (simp add: nu_def vNormalise_eq vDotProduct_vDiv_left)
  have "vDotProduct d d = vDotProduct up up
          + vDotProduct up f * vDotProduct up f * (vDotProduct f f - 2)"
    by (simp add: d_def geom_simps algebra_simps)
  moreover have "vDotProduct d up = vDotProduct up f * vDotProduct up f - vDotProduct up up"
    by (simp add: d_def geom_simps algebra_simps)
  ultimately show "vDotProduct d up = - vDotProduct d d"
    using ff by simp
qed

lemma mPointAt_rows:
  fixes pos target up :: vector3D
  defines "f \<equiv> vNormalise (vSub target pos)"
  defines "nu \<equiv> vNormalise (vSub (vMul f (vDotProduct up f)) up)"
  shows "row3 (mPointAt pos target up) I0 = vec3 (x (vCrossProduct nu f)) (y (vCrossProduct nu f)) (z (vCrossProduct nu f))"
    and "row3 (mPointAt pos target up) I1 = vec3 (x nu) (y nu) (z nu)"
    and "row3 (mPointAt pos target up) I2 = vec3 (x f) (y f) (z f)"
  by (simp_all add: mPointAt_def Let_def row3_def f_def nu_def)

lemma mPointAt_rigid:
  assumes "pointAt_nondegenerate pos target up"
  shows "rigid (mPointAt pos target up)"
proof -
  define f where "f = vNormalise (vSub target pos)"
  define nu where "nu = vNormalise (vSub (vMul f (vDotProduct up f)) up)"
  have ff: "vDotProduct f f = 1" and uu: "vDotProduct nu nu = 1" and uf: "vDotProduct nu f = 0"
    using mPointAt_basis [OF assms] by (simp_all add: f_def nu_def)
  have rr: "vDotProduct (vCrossProduct nu f) (vCrossProduct nu f) = 1"
    using lagrange_identity [of nu f] ff uu uf by simp
  show ?thesis
    unfolding rigid_def mPointAt_rows f_def [symmetric] nu_def [symmetric]
    using ff uu uf rr cross_dot_left [of nu f] cross_dot_right [of nu f]
    by (simp add: mPointAt_def Let_def vDotProduct_commute)
qed


lemma rigid_vectorMatrixProduct_inverse:
  assumes "rigid m"
  shows "vectorMatrixProduct (vectorMatrixProduct v m) (mQuickInverse m) = v"
  by (simp add: vectorMatrixProduct_mat_mul rigid_quickInverse [OF assms]
      vectorMatrixProduct_mIdentity)

lemma view_of_camera_inverse:
  assumes "pointAt_nondegenerate pos target up"
  shows "vectorMatrixProduct (vectorMatrixProduct v (mPointAt pos target up))
           (mQuickInverse (mPointAt pos target up)) = v"
  using rigid_vectorMatrixProduct_inverse [OF mPointAt_rigid [OF assms]] .

lemma mPointAt_origin:
  assumes "w pos = 1"
  shows "vectorMatrixProduct (vec3 0 0 0) (mPointAt pos target up) = pos"
  using assms
  by (intro vector3D_eqI) (simp_all add: vectorMatrixProduct_def mPointAt_def Let_def vec3_def)

lemma mPointAt_forward:
  assumes "w pos = 1" "w target = 1" "vLength (vSub target pos) \<noteq> 0"
  shows "vectorMatrixProduct (vec3 0 0 (vLength (vSub target pos))) (mPointAt pos target up)
           = target"
proof -
  let ?l = "vLength (vSub target pos)"
  have "?l * (t / ?l) = t" for t using assms(3) by simp
  then show ?thesis
    using assms
    by (intro vector3D_eqI)
       (simp_all add: vectorMatrixProduct_def mPointAt_def Let_def vec3_def vNormalise_eq
          vDiv_def vSub_def)
qed

lemma sin_cos_sq: "sin t * sin t + cos t * cos (t::real) = 1"
  using sin_cos_squared_add [of t] by (simp add: power2_eq_square)

lemma mRotateX_length: "vLength (vectorMatrixProduct v (mRotateX t)) = vLength v"
proof -
  have "vDotProduct (vectorMatrixProduct v (mRotateX t)) (vectorMatrixProduct v (mRotateX t))
        = x v * x v + (y v * y v + z v * z v) * (sin t * sin t + cos t * cos t)"
    by (simp add: vectorMatrixProduct_def mRotateX_def vDotProduct_def algebra_simps
        del: sin_cos_squared_add3)
  then show ?thesis by (simp add: sin_cos_sq vLength_def vDotProduct_def)
qed

lemma mRotateY_length: "vLength (vectorMatrixProduct v (mRotateY t)) = vLength v"
proof -
  have "vDotProduct (vectorMatrixProduct v (mRotateY t)) (vectorMatrixProduct v (mRotateY t))
        = y v * y v + (x v * x v + z v * z v) * (sin t * sin t + cos t * cos t)"
    by (simp add: vectorMatrixProduct_def mRotateY_def vDotProduct_def algebra_simps
        del: sin_cos_squared_add3)
  then show ?thesis by (simp add: sin_cos_sq vLength_def vDotProduct_def)
qed

lemma mRotateZ_length: "vLength (vectorMatrixProduct v (mRotateZ t)) = vLength v"
proof -
  have "vDotProduct (vectorMatrixProduct v (mRotateZ t)) (vectorMatrixProduct v (mRotateZ t))
        = z v * z v + (x v * x v + y v * y v) * (sin t * sin t + cos t * cos t)"
    by (simp add: vectorMatrixProduct_def mRotateZ_def vDotProduct_def algebra_simps
        del: sin_cos_squared_add3)
  then show ?thesis by (simp add: sin_cos_sq vLength_def vDotProduct_def)
qed

lemma mProject_w: "w (vectorMatrixProduct v (mProject fov asp n f)) = z v"
  by (simp add: vectorMatrixProduct_def mProject_def Let_def)

lemma foldl_vectorMatrixProduct:
  "foldl vectorMatrixProduct (vectorMatrixProduct v a) ms = vectorMatrixProduct v (foldl mat_mul a ms)"
  by (induction ms arbitrary: a) (simp_all add: vectorMatrixProduct_mat_mul)

subsection \<open>Properties\<close>

text \<open>C17: \<open>mQuickInverse\<close> inverts a rigid transform: the product of a rigid matrix
  with its quick inverse is the identity, so the quick inverse undoes the transform on
  every vector.\<close>

theorem quickInverse_rigid:
  assumes "rigid m"
  shows "mat_mul m (mQuickInverse m) = mIdentity \<and>
         (\<forall>v. vectorMatrixProduct (vectorMatrixProduct v m) (mQuickInverse m) = v)"
  using rigid_quickInverse [OF assms] rigid_vectorMatrixProduct_inverse [OF assms] by simp

text \<open>C18: for a position, a target and an up vector in general position, the camera
  matrix \<open>mPointAt\<close> is rigid, and the view matrix \<open>mQuickInverse (mPointAt \<dots>)\<close>
  maps the camera position to the origin and the target onto the positive \<open>z\<close> axis at
  its distance from the camera.\<close>

theorem pointAt_view_camera:
  assumes "pointAt_nondegenerate pos target up" "w pos = 1" "w target = 1"
  shows "rigid (mPointAt pos target up) \<and>
         vectorMatrixProduct pos (mQuickInverse (mPointAt pos target up)) = vec3 0 0 0 \<and>
         vectorMatrixProduct target (mQuickInverse (mPointAt pos target up))
           = vec3 0 0 (vLength (vSub target pos))"
proof -
  have nz: "vLength (vSub target pos) \<noteq> 0"
    using assms(1) by (simp add: pointAt_nondegenerate_def Let_def)
  have "vectorMatrixProduct pos (mQuickInverse (mPointAt pos target up)) = vec3 0 0 0"
    using view_of_camera_inverse [OF assms(1), of "vec3 0 0 0"] mPointAt_origin [OF assms(2)]
    by simp
  moreover have "vectorMatrixProduct target (mQuickInverse (mPointAt pos target up))
      = vec3 0 0 (vLength (vSub target pos))"
    using view_of_camera_inverse [OF assms(1), of "vec3 0 0 (vLength (vSub target pos))"]
      mPointAt_forward [OF assms(2,3) nz]
    by simp
  ultimately show ?thesis using mPointAt_rigid [OF assms(1)] by simp
qed

text \<open>C19: the up row of the camera matrix built by \<open>mPointAt\<close> points against the
  given up vector: the source computes the corrected up vector as \<open>a - up\<close>, the
  negation of the component of \<open>up\<close> orthogonal to the forward direction.\<close>

theorem pointAt_up_reversed:
  assumes "pointAt_nondegenerate pos target up"
  shows "vDotProduct (row3 (mPointAt pos target up) I1) up < 0"
proof -
  define f where "f = vNormalise (vSub target pos)"
  define d where "d = vSub (vMul f (vDotProduct up f)) up"
  have du: "vDotProduct d up = - vDotProduct d d"
    using mPointAt_basis (4) [OF assms] by (simp add: f_def d_def)
  from assms have "vLength d \<noteq> 0"
    by (simp add: pointAt_nondegenerate_def Let_def f_def d_def)
  then have pos_l: "0 < vLength d" using vLength_nonneg [of d] by linarith
  then have "0 < vDotProduct d d" by (metis vLength_sq mult_pos_pos)
  with du pos_l have "vDotProduct d up / vLength d < 0"
    by (simp add: divide_neg_pos)
  moreover have "row3 (mPointAt pos target up) I1 = vec3 (x (vNormalise d)) (y (vNormalise d)) (z (vNormalise d))"
    by (simp add: mPointAt_rows f_def d_def)
  ultimately show ?thesis
    by (simp add: vNormalise_eq vDotProduct_vDiv_left)
qed

text \<open>C20: with row vectors, transforming by a sequence of matrices one after another
  equals transforming once by their product taken left to right.\<close>

theorem row_vector_fold:
  "foldl vectorMatrixProduct v ms = vectorMatrixProduct v (foldl mat_mul mIdentity ms)"
  using foldl_vectorMatrixProduct [of v mIdentity ms] by (simp add: vectorMatrixProduct_mIdentity)

lemma mIdentity_neutral: "mat_mul mIdentity m = m \<and> mat_mul m mIdentity = m"
proof
  show "mat_mul mIdentity m = m"
  proof (rule mat_eqI)
    fix r c
    show "mat_mul mIdentity m (r, c) = m (r, c)"
      by (cases r) (simp_all add: mat_mul_apply mIdentity_def)
  qed
  show "mat_mul m mIdentity = m"
  proof (rule mat_eqI)
    fix r c
    show "mat_mul m mIdentity (r, c) = m (r, c)"
      by (cases c) (simp_all add: mat_mul_apply mIdentity_def)
  qed
qed

lemma mat_mul_assoc: "mat_mul (mat_mul a b) c = mat_mul a (mat_mul b c)"
  by (rule mat_eqI) (simp add: mat_mul_apply algebra_simps)

text \<open>C21: 4x4 matrices form a monoid under \<open>Matrix_MultiplyMatrix\<close>: the product is
  associative and \<open>Matrix_MakeIdentity\<close> is neutral on both sides, so the world matrix
  and the chained transforms of the loop may be grouped freely.\<close>

theorem mat_mul_monoid:
  "mat_mul (mat_mul a b) c = mat_mul a (mat_mul b c) \<and> mat_mul mIdentity m = m \<and>
   mat_mul m mIdentity = m"
  by (simp add: mat_mul_assoc mIdentity_neutral)

text \<open>The three axis rotations preserve the length of every vector.\<close>

lemma rotations_preserve_length:
  "vLength (vectorMatrixProduct v (mRotateX t)) = vLength v \<and>
   vLength (vectorMatrixProduct v (mRotateY t)) = vLength v \<and>
   vLength (vectorMatrixProduct v (mRotateZ t)) = vLength v"
  by (simp add: mRotateX_length mRotateY_length mRotateZ_length)

text \<open>C23: after the perspective divide, a point between the near and the far plane has a
  depth between 0 and 1.\<close>

theorem mProject_depth_range:
  fixes fov asp :: float
  assumes "0 < n" "n < f" "n \<le> z v" "z v \<le> f" "w v = 1"
  defines "q \<equiv> vectorMatrixProduct v (mProject fov asp n f)"
  shows "0 \<le> z q / w q \<and> z q / w q \<le> 1"
proof -
  have zq: "z q = (z v * f - f * n) / (f - n)"
    using assms(5) by (simp add: q_def vectorMatrixProduct_def mProject_def Let_def
        diff_divide_distrib)
  have wq: "w q = z v" by (simp add: q_def mProject_w)
  have zpos: "0 < z v" using assms(1,3) by simp
  have den: "0 < (f - n) * z v" using assms(2) zpos by simp
  have num: "0 \<le> z v * f - f * n"
    using assms(1-3) by (simp add: mult_left_mono algebra_simps)
  have le: "z v * f - f * n \<le> (f - n) * z v"
    using assms(1,4) by (simp add: mult_left_mono algebra_simps)
  have ratio: "z q / w q = (z v * f - f * n) / ((f - n) * z v)"
    by (simp add: zq wq)
  show ?thesis
    unfolding ratio using num le den by simp
qed

text \<open>The translation matrix adds its offset to every point (\<open>w = 1\<close>).\<close>

lemma mTranslate_point:
  assumes "w v = 1"
  shows "vectorMatrixProduct v (mTranslate tx ty tz) = vAdd v (vec3 tx ty tz)"
  using assms
  by (intro vector3D_eqI) (simp_all add: vectorMatrixProduct_def mTranslate_def geom_simps)

subsection \<open>Witnesses\<close>

theorem quickInverse_rigid_witness:
  "rigid (mTranslate 1 2 3) \<and>
   mat_mul (mTranslate 1 2 3) (mQuickInverse (mTranslate 1 2 3)) = mIdentity \<and>
   (\<forall>v. vectorMatrixProduct (vectorMatrixProduct v (mTranslate 1 2 3))
          (mQuickInverse (mTranslate 1 2 3)) = v)"
proof -
  have h: "rigid (mTranslate 1 2 3)"
    by (simp add: rigid_def row3_def mTranslate_def geom_simps)
  show ?thesis using h quickInverse_rigid [OF h] by blast
qed

theorem pointAt_view_camera_witness:
  "pointAt_nondegenerate (vec3 0 0 0) (vec3 0 0 2) (vec3 0 1 0) \<and>
   rigid (mPointAt (vec3 0 0 0) (vec3 0 0 2) (vec3 0 1 0)) \<and>
   vectorMatrixProduct (vec3 0 0 0) (mQuickInverse (mPointAt (vec3 0 0 0) (vec3 0 0 2) (vec3 0 1 0)))
     = vec3 0 0 0 \<and>
   vectorMatrixProduct (vec3 0 0 2) (mQuickInverse (mPointAt (vec3 0 0 0) (vec3 0 0 2) (vec3 0 1 0)))
     = vec3 0 0 (vLength (vSub (vec3 0 0 2) (vec3 0 0 0)))"
proof -
  have h: "pointAt_nondegenerate (vec3 0 0 0) (vec3 0 0 2) (vec3 0 1 0)"
    by (simp add: pointAt_nondegenerate_def vNormalise_eq vLength_def geom_simps Let_def)
  have w: "w (vec3 0 0 0) = 1" "w (vec3 0 0 2) = 1" by (simp_all add: vec3_def)
  show ?thesis using h pointAt_view_camera [OF h w] by blast
qed

theorem pointAt_up_reversed_witness:
  "pointAt_nondegenerate (vec3 0 0 0) (vec3 0 0 2) (vec3 0 1 0) \<and>
   vDotProduct (row3 (mPointAt (vec3 0 0 0) (vec3 0 0 2) (vec3 0 1 0)) I1) (vec3 0 1 0) < 0"
proof -
  have h: "pointAt_nondegenerate (vec3 0 0 0) (vec3 0 0 2) (vec3 0 1 0)"
    by (simp add: pointAt_nondegenerate_def vNormalise_eq vLength_def geom_simps Let_def)
  show ?thesis using h pointAt_up_reversed [OF h] by blast
qed

theorem mProject_depth_range_witness:
  "0 < (0.1::float) \<and> (0.1::float) < 1000 \<and> 0.1 \<le> z (vec3 0 0 8) \<and> z (vec3 0 0 8) \<le> 1000 \<and>
   w (vec3 0 0 8) = 1 \<and>
   0 \<le> z (vectorMatrixProduct (vec3 0 0 8) (mProject 90 (3 / 4) 0.1 1000)) /
          w (vectorMatrixProduct (vec3 0 0 8) (mProject 90 (3 / 4) 0.1 1000)) \<and>
   z (vectorMatrixProduct (vec3 0 0 8) (mProject 90 (3 / 4) 0.1 1000)) /
     w (vectorMatrixProduct (vec3 0 0 8) (mProject 90 (3 / 4) 0.1 1000)) \<le> 1"
proof -
  have h: "0 < (0.1::float)" "(0.1::float) < 1000" "0.1 \<le> z (vec3 0 0 8)" "z (vec3 0 0 8) \<le> 1000"
    "w (vec3 0 0 8) = 1" by (simp_all add: vec3_def)
  show ?thesis using h mProject_depth_range [OF h, of 90 "3 / 4"] by blast
qed

end
