(* ===== verification/Stream.thy ===== *)
theory Stream
  imports Prelude
begin

text \<open>
  The formatted input the OBJ loader uses (\<open>src/VectorMatrix.h\<close>, lines 129--142):
  \<open>std::strstream s; s << line; s >> identifier >> v.x >> v.y >> v.z\<close> and
  \<open>s >> identifier >> f[0] >> f[1] >> f[2]\<close>. The stream is library code; it is
  modelled after the C++ standard and the libstdc++ implementation of
  \<open>basic_istream::sentry\<close>, \<open>operator>>(char&)\<close>, \<open>operator>>(int&)\<close> and
  \<open>num_get\<close>:
  \<^item> the sentry fails (and sets \<open>failbit\<close>) when the stream is not good, and otherwise
    skips white space, failing with \<open>eofbit | failbit\<close> at the end of the buffer;
  \<^item> \<open>num_get\<close> accumulates the longest prefix of the number syntax, sets \<open>eofbit\<close>
    when it reaches the end, and converts the accumulated text; when the text is not a
    complete number it stores 0 and sets \<open>failbit\<close>;
  \<^item> \<open>operator>>(int&)\<close> clamps a value outside the range of \<open>int\<close> to the nearest
    bound and sets \<open>failbit\<close>.
  The result of an extraction is \<open>None\<close> when the target variable is left untouched
  (the sentry failed), and \<open>Some v\<close> with the value stored otherwise. Floats are reals,
  so the rounding of \<open>strtof\<close> and its overflow to \<open>FLT_MAX\<close> are not modelled.
\<close>

record istream =
  sbuf :: string
  sfail :: bool
  seof :: bool

definition stream_of :: "string \<Rightarrow> istream" where
  "stream_of s = \<lparr>sbuf = s, sfail = False, seof = False\<rparr>"

definition is_space :: "char \<Rightarrow> bool" where
  "is_space c \<longleftrightarrow> (of_char c :: nat) \<in> {9, 10, 11, 12, 13, 32}"

definition is_digit :: "char \<Rightarrow> bool" where
  "is_digit c \<longleftrightarrow> 48 \<le> (of_char c :: nat) \<and> (of_char c :: nat) \<le> 57"

definition digit_val :: "char \<Rightarrow> nat" where
  "digit_val c = of_char c - 48"

definition nat_of_digits :: "string \<Rightarrow> nat" where
  "nat_of_digits ds = foldl (\<lambda>n c. 10 * n + digit_val c) 0 ds"

definition int_min :: int where "int_min = - 2147483648"

definition int_max :: int where "int_max = 2147483647"

text \<open>\<open>basic_istream::sentry\<close> with white-space skipping.\<close>

definition sentry :: "istream \<Rightarrow> istream" where
  "sentry s =
     (if sfail s \<or> seof s then s\<lparr>sfail := True\<rparr>
      else (let b = dropWhile is_space (sbuf s)
            in if b = [] then \<lparr>sbuf = [], sfail = True, seof = True\<rparr> else s\<lparr>sbuf := b\<rparr>))"

definition extract_char :: "istream \<Rightarrow> istream \<times> char option" where
  "extract_char s =
     (let s = sentry s
      in if sfail s then (s, None) else (s\<lparr>sbuf := tl (sbuf s)\<rparr>, Some (hd (sbuf s))))"

text \<open>\<open>num_get\<close> for integers in base 10: an optional sign, then digits.\<close>

definition scan_int :: "string \<Rightarrow> int option \<times> string" where
  "scan_int cs =
     (let (neg, cs1) = (if cs \<noteq> [] \<and> (hd cs = CHR ''-'' \<or> hd cs = CHR ''+'')
                        then (hd cs = CHR ''-'', tl cs) else (False, cs));
          ds = takeWhile is_digit cs1
      in (if ds = [] then None
          else Some ((if neg then -1 else 1) * int (nat_of_digits ds)),
          dropWhile is_digit cs1))"

definition extract_int :: "istream \<Rightarrow> istream \<times> int option" where
  "extract_int s =
     (let s = sentry s
      in if sfail s then (s, None)
         else (let (r, rest) = scan_int (sbuf s); e = (rest = [])
               in case r of
                    None \<Rightarrow> (\<lparr>sbuf = rest, sfail = True, seof = e\<rparr>, Some 0)
                  | Some n \<Rightarrow>
                      if n < int_min then (\<lparr>sbuf = rest, sfail = True, seof = e\<rparr>, Some int_min)
                      else if int_max < n then (\<lparr>sbuf = rest, sfail = True, seof = e\<rparr>, Some int_max)
                      else (\<lparr>sbuf = rest, sfail = False, seof = e\<rparr>, Some n)))"

text \<open>\<open>num_get::_M_extract_float\<close> after the optional sign: digits, at most one
  decimal point before the exponent, and one \<open>e\<close> or \<open>E\<close> (only after a mantissa
  digit) followed by an optional sign. The flags are: decimal point found, exponent
  found, mantissa digit found. The leading-zero collapsing of libstdc++ does not change
  the accumulated number and is not modelled.\<close>

fun scan_float_body :: "bool \<Rightarrow> bool \<Rightarrow> bool \<Rightarrow> string \<Rightarrow> string \<times> string" where
  "scan_float_body fd fs fm [] = ([], [])"
| "scan_float_body fd fs fm (c # cs) =
     (if c = CHR ''.'' \<and> \<not> fd \<and> \<not> fs then apfst (Cons c) (scan_float_body True fs fm cs)
      else if is_digit c then apfst (Cons c) (scan_float_body fd fs True cs)
      else if (c = CHR ''e'' \<or> c = CHR ''E'') \<and> \<not> fs \<and> fm then
        (case cs of
           [] \<Rightarrow> ([CHR ''e''], [])
         | d # ds \<Rightarrow>
             if d = CHR ''+'' \<or> d = CHR ''-'' then apfst (\<lambda>r. CHR ''e'' # d # r) (scan_float_body fd True fm ds)
             else apfst (Cons (CHR ''e'')) (scan_float_body fd True fm cs))
      else ([], c # cs))"

definition scan_float :: "string \<Rightarrow> string \<times> string" where
  "scan_float cs =
     (if cs \<noteq> [] \<and> (hd cs = CHR ''-'' \<or> hd cs = CHR ''+'')
      then apfst (Cons (hd cs)) (scan_float_body False False False (tl cs))
      else scan_float_body False False False cs)"

text \<open>\<open>strtod\<close> on the accumulated text, required to consume all of it (the sanity
  check of \<open>__convert_to_v\<close>): \<open>[sign] digits [. digits] [e [sign] digits]\<close> with at
  least one mantissa digit and, when there is an exponent, at least one exponent digit.\<close>

definition sign_of :: "string \<Rightarrow> int \<times> string" where
  "sign_of cs = (if cs \<noteq> [] \<and> hd cs = CHR ''-'' then (-1, tl cs)
                 else if cs \<noteq> [] \<and> hd cs = CHR ''+'' then (1, tl cs) else (1, cs))"

definition strtod_full :: "string \<Rightarrow> float option" where
  "strtod_full cs =
     (let (sg, r1) = sign_of cs;
          d1 = takeWhile is_digit r1; r2 = dropWhile is_digit r1;
          (d2, r3) = (if r2 \<noteq> [] \<and> hd r2 = CHR ''.''
                      then (takeWhile is_digit (tl r2), dropWhile is_digit (tl r2)) else ([], r2));
          mant = of_int sg * of_nat (nat_of_digits (d1 @ d2)) / 10 ^ length d2
      in if d1 @ d2 = [] then None
         else if r3 = [] then Some mant
         else if hd r3 = CHR ''e'' then
           (let (esg, r4) = sign_of (tl r3); d3 = takeWhile is_digit r4
            in if d3 = [] \<or> dropWhile is_digit r4 \<noteq> [] then None
               else Some (mant * 10 powi (esg * int (nat_of_digits d3))))
         else None)"

definition extract_float :: "istream \<Rightarrow> istream \<times> float option" where
  "extract_float s =
     (let s = sentry s
      in if sfail s then (s, None)
         else (let (acc, rest) = scan_float (sbuf s); e = (rest = [])
               in case strtod_full acc of
                    None \<Rightarrow> (\<lparr>sbuf = rest, sfail = True, seof = e\<rparr>, Some 0)
                  | Some v \<Rightarrow> (\<lparr>sbuf = rest, sfail = False, seof = e\<rparr>, Some v)))"

subsection \<open>Printing numbers\<close>

text \<open>A reference printer for the numbers of an OBJ file: decimal digits, a minus sign
  for negative integers, and a decimal \<open>m \<cdot> 10^e\<close> written \<open>m\<close>, \<open>e\<close>, exponent.\<close>

definition digit_char :: "nat \<Rightarrow> char" where
  "digit_char d = char_of (48 + d)"

fun show_nat :: "nat \<Rightarrow> string" where
  "show_nat n = (if n < 10 then [digit_char n] else show_nat (n div 10) @ [digit_char (n mod 10)])"

definition show_int :: "int \<Rightarrow> string" where
  "show_int i = (if i < 0 then CHR ''-'' # show_nat (nat (- i)) else show_nat (nat i))"

type_synonym decimal = "int \<times> int"

definition dec_val :: "decimal \<Rightarrow> float" where
  "dec_val d = of_int (fst d) * 10 powi snd d"

definition show_decimal :: "decimal \<Rightarrow> string" where
  "show_decimal d = show_int (fst d) @ CHR ''e'' # show_int (snd d)"

text \<open>The definitions that evaluate an extraction on a concrete line.\<close>

lemmas stream_eval = stream_of_def sentry_def extract_char_def extract_int_def extract_float_def
  scan_int_def scan_float_def strtod_full_def sign_of_def is_digit_def is_space_def
  nat_of_digits_def digit_val_def int_min_def int_max_def

declare show_nat.simps [simp del]

subsection \<open>Digits\<close>

lemma digit_char_digit: "d < 10 \<Longrightarrow> is_digit (digit_char d) \<and> digit_val (digit_char d) = d"
  by (simp add: digit_char_def is_digit_def digit_val_def)

lemma show_nat_digits: "show_nat n \<noteq> [] \<and> (\<forall>c \<in> set (show_nat n). is_digit c)"
proof (induction n rule: show_nat.induct)
  case (1 n)
  then show ?case unfolding show_nat.simps [of n] by (auto simp: digit_char_digit)
qed

lemma nat_of_digits_snoc: "nat_of_digits (ds @ [c]) = 10 * nat_of_digits ds + digit_val c"
  by (simp add: nat_of_digits_def)

lemma nat_of_digits_show_nat: "nat_of_digits (show_nat n) = n"
proof (induction n rule: show_nat.induct)
  case (1 n)
  show ?case
  proof (cases "n < 10")
    case True
    then show ?thesis
      by (subst show_nat.simps) (simp add: nat_of_digits_def digit_char_digit)
  next
    case False
    then show ?thesis using 1
      by (subst show_nat.simps) (simp add: nat_of_digits_snoc digit_char_digit)
  qed
qed

lemma show_nat_hd: "\<not> is_space (hd (show_nat n)) \<and> hd (show_nat n) \<noteq> CHR ''-'' \<and>
    hd (show_nat n) \<noteq> CHR ''+'' \<and> hd (show_nat n) \<noteq> CHR ''.''"
proof -
  have "is_digit (hd (show_nat n))" using show_nat_digits [of n] by (simp add: hd_in_set)
  then show ?thesis by (auto simp: is_digit_def is_space_def)
qed

lemma show_int_hd: "show_int i \<noteq> [] \<and> \<not> is_space (hd (show_int i))"
  using show_nat_digits show_nat_hd by (simp add: show_int_def is_space_def)

lemma takeWhile_digits:
  "\<forall>c \<in> set ds. is_digit c \<Longrightarrow> rest = [] \<or> \<not> is_digit (hd rest) \<Longrightarrow>
     takeWhile is_digit (ds @ rest) = ds \<and> dropWhile is_digit (ds @ rest) = rest"
  by (cases rest) (simp_all add: takeWhile_append2 dropWhile_append2 takeWhile_tail
      dropWhile_append3)

lemma space_not_digit: "is_space c \<Longrightarrow> \<not> is_digit c"
  by (auto simp: is_space_def is_digit_def)

lemma sentry_spaces:
  assumes "\<not> sfail s" "\<not> seof s" "sbuf s = ws @ t" "\<forall>c \<in> set ws. is_space c"
    "t \<noteq> []" "\<not> is_space (hd t)"
  shows "sentry s = s\<lparr>sbuf := t\<rparr>"
proof -
  obtain c t' where t: "t = c # t'" using assms(5) by (cases t) auto
  have "dropWhile is_space (ws @ t) = t"
    using assms(4,6) t by (simp add: dropWhile_append2)
  then show ?thesis using assms(1-3) t by (simp add: sentry_def)
qed

lemma sign_of_show_int:
  "sign_of (show_int i @ r) = ((if i < 0 then -1 else 1), show_nat (nat \<bar>i\<bar>) @ r)"
proof (cases "i < 0")
  case True
  then show ?thesis by (simp add: show_int_def sign_of_def)
next
  case False
  obtain c cs where "show_nat (nat i) = c # cs" using show_nat_digits [of "nat i"]
    by (cases "show_nat (nat i)") auto
  with False show ?thesis using show_nat_hd [of "nat i"]
    by (simp add: show_int_def sign_of_def)
qed

subsection \<open>Integers: print, then extract\<close>

lemma scan_int_show_int:
  assumes "rest = [] \<or> \<not> is_digit (hd rest)"
  shows "scan_int (show_int i @ rest) = (Some i, rest)"
proof -
  have d: "takeWhile is_digit (show_nat (nat \<bar>i\<bar>) @ rest) = show_nat (nat \<bar>i\<bar>) \<and>
           dropWhile is_digit (show_nat (nat \<bar>i\<bar>) @ rest) = rest"
    using takeWhile_digits show_nat_digits assms by blast
  have ne: "show_nat (nat \<bar>i\<bar>) \<noteq> []" using show_nat_digits by blast
  have v: "nat_of_digits (show_nat (nat \<bar>i\<bar>)) = nat \<bar>i\<bar>" by (rule nat_of_digits_show_nat)
  show ?thesis
  proof (cases "i < 0")
    case True
    then show ?thesis using d ne v by (simp add: scan_int_def show_int_def)
  next
    case False
    obtain c cs where "show_nat (nat i) = c # cs" using ne False by (cases "show_nat (nat i)") auto
    with False d ne v show ?thesis using show_nat_hd [of "nat i"]
      by (simp add: scan_int_def show_int_def)
  qed
qed

text \<open>\<open>operator>>(int&)\<close> on a printed integer of any size: the value is clamped to
  \<open>[INT_MIN, INT_MAX]\<close>, and \<open>failbit\<close> is set exactly when it is clamped.\<close>

lemma extract_int_clamp:
  assumes "\<not> sfail s" "\<not> seof s" "sbuf s = ws @ show_int i @ rest" "\<forall>c \<in> set ws. is_space c"
    "rest = [] \<or> is_space (hd rest)"
  shows "extract_int s =
    (\<lparr>sbuf = rest, sfail = (i < int_min \<or> int_max < i), seof = (rest = [])\<rparr>,
     Some (if i < int_min then int_min else if int_max < i then int_max else i))"
proof -
  have "sentry s = s\<lparr>sbuf := show_int i @ rest\<rparr>"
    using assms(1-4) show_int_hd [of i] by (intro sentry_spaces) simp_all
  moreover have "scan_int (show_int i @ rest) = (Some i, rest)"
    using assms(5) space_not_digit by (intro scan_int_show_int) blast
  ultimately show ?thesis using assms(1) by (simp add: extract_int_def)
qed

lemma extract_int_show_int:
  assumes "\<not> sfail s" "\<not> seof s" "sbuf s = ws @ show_int i @ rest" "\<forall>c \<in> set ws. is_space c"
    "rest = [] \<or> is_space (hd rest)" "int_min \<le> i" "i \<le> int_max"
  shows "extract_int s = (\<lparr>sbuf = rest, sfail = False, seof = (rest = [])\<rparr>, Some i)"
  using extract_int_clamp [OF assms(1-5)] assms(6,7) by simp

lemma extract_int_failed: "sfail s \<Longrightarrow> extract_int s = (s, None)"
  by (cases s) (simp add: extract_int_def sentry_def)

subsection \<open>Decimals: print, then extract\<close>

lemma scan_float_body_digits:
  "\<forall>c \<in> set ds. is_digit c \<Longrightarrow>
     scan_float_body fd fs fm (ds @ r) = apfst ((@) ds) (scan_float_body fd fs (fm \<or> ds \<noteq> []) r)"
proof (induction ds arbitrary: fm)
  case Nil
  then show ?case by (cases "scan_float_body fd fs fm r") simp
next
  case (Cons c ds)
  have "c \<noteq> CHR ''.''" using Cons.prems by (auto simp: is_digit_def)
  with Cons show ?case by (simp add: apfst_def map_prod_def split: prod.split)
qed

lemma scan_float_body_stop:
  "rest = [] \<or> \<not> is_digit (hd rest) \<Longrightarrow> scan_float_body fd True fm rest = ([], rest)"
  by (cases rest) auto

lemma scan_float_exponent:
  assumes "rest = [] \<or> \<not> is_digit (hd rest)"
  shows "scan_float_body False False True (CHR ''e'' # show_int e @ rest) = (CHR ''e'' # show_int e, rest)"
proof -
  have digits: "scan_float_body False True True (show_nat (nat \<bar>e\<bar>) @ rest) = (show_nat (nat \<bar>e\<bar>), rest)"
    using scan_float_body_digits [of "show_nat (nat \<bar>e\<bar>)" False True True rest] show_nat_digits
      scan_float_body_stop [OF assms] by simp
  show ?thesis
  proof (cases "e < 0")
    case True
    then show ?thesis using digits by (simp add: show_int_def is_digit_def)
  next
    case False
    obtain c cs where c: "show_nat (nat e) = c # cs" using show_nat_digits [of "nat e"]
      by (cases "show_nat (nat e)") auto
    have "c \<noteq> CHR ''+'' \<and> c \<noteq> CHR ''-''" using show_nat_hd [of "nat e"] c by simp
    then have "scan_float_body False False True (CHR ''e'' # show_nat (nat e) @ rest) =
        apfst (Cons (CHR ''e'')) (scan_float_body False True True (show_nat (nat e) @ rest))"
      by (subst scan_float_body.simps(2)) (simp add: c is_digit_def del: scan_float_body.simps)
    with False digits show ?thesis by (simp add: show_int_def)
  qed
qed

lemma scan_float_show_decimal:
  assumes "rest = [] \<or> \<not> is_digit (hd rest)"
  shows "scan_float (show_decimal d @ rest) = (show_decimal d, rest)"
proof -
  let ?M = "show_nat (nat \<bar>fst d\<bar>)"
  have "scan_float_body False False False (?M @ CHR ''e'' # show_int (snd d) @ rest) =
        (?M @ CHR ''e'' # show_int (snd d), rest)"
    using scan_float_body_digits [of ?M False False False] show_nat_digits [of "nat \<bar>fst d\<bar>"]
      scan_float_exponent [OF assms, of "snd d"] by simp
  moreover obtain c cs where c: "?M = c # cs" using show_nat_digits [of "nat \<bar>fst d\<bar>"]
    by (cases ?M) auto
  moreover have "c \<noteq> CHR ''+'' \<and> c \<noteq> CHR ''-''" using show_nat_hd [of "nat \<bar>fst d\<bar>"] c by simp
  ultimately show ?thesis
    by (cases "fst d < 0") (simp_all add: scan_float_def show_decimal_def show_int_def)
qed

lemma strtod_full_show_decimal: "strtod_full (show_decimal d) = Some (dec_val d)"
proof -
  let ?M = "show_nat (nat \<bar>fst d\<bar>)" and ?E = "show_nat (nat \<bar>snd d\<bar>)"
  have m: "takeWhile is_digit (?M @ CHR ''e'' # show_int (snd d)) = ?M \<and>
           dropWhile is_digit (?M @ CHR ''e'' # show_int (snd d)) = CHR ''e'' # show_int (snd d)"
    using takeWhile_digits [of ?M "CHR ''e'' # show_int (snd d)"] show_nat_digits
    by (simp add: is_digit_def)
  have e: "takeWhile is_digit (show_nat n) = show_nat n \<and> dropWhile is_digit (show_nat n) = []"
    for n using takeWhile_digits [of "show_nat n" "[]"] show_nat_digits by simp
  have ne: "?M \<noteq> []" using show_nat_digits by blast
  have se: "sign_of (show_int (snd d)) = ((if snd d < 0 then -1 else 1), ?E)"
    using sign_of_show_int [of "snd d" "[]"] by simp
  have val: "of_int (if fst d < 0 then -1 else 1) * of_nat (nat \<bar>fst d\<bar>) = (of_int (fst d) :: float)"
    by simp
  have ev: "(if snd d < 0 then -1 else 1) * int (nat \<bar>snd d\<bar>) = snd d" by simp
  show ?thesis
    by (simp add: strtod_full_def show_decimal_def sign_of_show_int m e ne se show_nat_digits
        nat_of_digits_show_nat dec_val_def Let_def)
qed

lemma extract_float_show_decimal:
  assumes "\<not> sfail s" "\<not> seof s" "sbuf s = ws @ show_decimal d @ rest" "\<forall>c \<in> set ws. is_space c"
    "rest = [] \<or> is_space (hd rest)"
  shows "extract_float s = (\<lparr>sbuf = rest, sfail = False, seof = (rest = [])\<rparr>, Some (dec_val d))"
proof -
  have "show_decimal d @ rest = show_int (fst d) @ (CHR ''e'' # show_int (snd d) @ rest)"
    by (simp add: show_decimal_def)
  then have "sentry s = s\<lparr>sbuf := show_decimal d @ rest\<rparr>"
    using assms(1-4) show_int_hd [of "fst d"] by (intro sentry_spaces) simp_all
  moreover have "scan_float (show_decimal d @ rest) = (show_decimal d, rest)"
    using assms(5) space_not_digit by (intro scan_float_show_decimal) blast
  ultimately show ?thesis using assms(1) by (simp add: extract_float_def strtod_full_show_decimal)
qed

end
