(* ===== verification/Mesh.thy ===== *)
theory Mesh
  imports Matrix Stream
begin

text \<open>
  Triangles and meshes of \<open>src/VectorMatrix.h\<close> (lines 109--148): the \<open>triangle\<close>
  struct with its \<open>sf::Color\<close>, the \<open>mesh\<close> struct, and
  \<open>mesh::LoadFromObjectFile\<close>. The colour channels \<open>r, g, b, a\<close> of SFML are the
  fields \<open>cr, cg, cb, ca\<close>. The file is a list of lines (\<open>None\<close> when it cannot be
  opened). The classification of a line by its first character is modelled as the code
  writes it, and the extractions from the \<open>std::strstream\<close> holding the line use the
  stream model of theory Stream: a vertex coordinate whose extraction fails or is
  skipped keeps or gets the value 0, and a face index that no extraction stored is
  an uninitialised \<open>int\<close>.

  The read loop \<open>while (!f.eof()) { f.getline(line, 128); ... }\<close> is a
  \<^theory_text>\<open>partial_function (option)\<close>: \<open>getline\<close> stores at most 127 characters,
  and a longer line sets the stream's failbit, after which \<open>eof()\<close> is never true and
  the loop never ends; that is the value \<open>None\<close>. Two undefined behaviours of the
  source are errors of the model: an out-of-range face index (\<open>IndexError\<close>; this
  includes \<open>INT_MIN\<close>, where \<open>(int)f[i] - 1\<close> overflows first) and the read of a face
  index that was never stored (\<open>UninitialisedIndex\<close>, numbered from 0).
\<close>

record color =
  cr :: u8
  cg :: u8
  cb :: u8
  ca :: u8

text \<open>\<open>sf::Color()\<close> is opaque black.\<close>

definition color_default :: color where
  "color_default = \<lparr>cr = 0, cg = 0, cb = 0, ca = 255\<rparr>"

record triangle =
  p0 :: vector3D
  p1 :: vector3D
  p2 :: vector3D
  clr :: color

definition tri_verts :: "triangle \<Rightarrow> vector3D list" where
  "tri_verts t = [p0 t, p1 t, p2 t]"

record mesh =
  tris :: "triangle list"

datatype load_error = IndexError int nat | UninitialisedIndex nat

text \<open>\<open>verts[(int)f[i] - 1]\<close>: a 1-based index into the vertices read so far.\<close>

definition vertex_at :: "vector3D list \<Rightarrow> int \<Rightarrow> load_error + vector3D" where
  "vertex_at vs i =
     (if 1 \<le> i \<and> i \<le> int (length vs) then Inr (vs ! nat (i - 1))
      else Inl (IndexError i (length vs)))"

text \<open>Lines 134--138: \<open>vector3D v; s >> identifier >> v.x >> v.y >> v.z\<close> on the
  stream holding the line; a coordinate that no extraction stored keeps its default 0.\<close>

definition read_vertex :: "string \<Rightarrow> vector3D" where
  "read_vertex line =
     (let s = stream_of line;
          (s, identifier) = extract_char s;
          (s, vx) = extract_float s;
          (s, vy) = extract_float s;
          (s, vz) = extract_float s
      in vec3 (case vx of None \<Rightarrow> 0 | Some a \<Rightarrow> a) (case vy of None \<Rightarrow> 0 | Some a \<Rightarrow> a)
              (case vz of None \<Rightarrow> 0 | Some a \<Rightarrow> a))"

text \<open>Lines 140--142: \<open>int f[3]; s >> identifier >> f[0] >> f[1] >> f[2]\<close>; an index
  that no extraction stored is \<open>None\<close> (the array is not initialised).\<close>

definition read_face :: "string \<Rightarrow> int option \<times> int option \<times> int option" where
  "read_face line =
     (let s = stream_of line;
          (s, identifier) = extract_char s;
          (s, f0) = extract_int s;
          (s, f1) = extract_int s;
          (s, f2) = extract_int s
      in (f0, f1, f2))"

text \<open>Line 143: \<open>verts[(int)f[k] - 1]\<close> for the index number \<open>k\<close>.\<close>

definition face_vertex :: "vector3D list \<Rightarrow> nat \<Rightarrow> int option \<Rightarrow> load_error + vector3D" where
  "face_vertex vs k fk = (case fk of None \<Rightarrow> Inl (UninitialisedIndex k) | Some i \<Rightarrow> vertex_at vs i)"

text \<open>The body of the read loop on one line (lines 129--144): the state is the vertex
  list \<open>verts\<close> and the triangle list \<open>tris\<close>. The three vertices of a face are
  looked up in the order of the braced initialiser.\<close>

definition process_line ::
  "vector3D list \<times> triangle list \<Rightarrow> string \<Rightarrow> load_error + vector3D list \<times> triangle list" where
  "process_line st line =
     (let (vs, ts) = st in
      if line \<noteq> [] \<and> hd line = CHR ''v'' then Inr (vs @ [read_vertex line], ts)
      else if line \<noteq> [] \<and> hd line = CHR ''f'' then
        (let (f0, f1, f2) = read_face line in
         case face_vertex vs 0 f0 of
           Inl e \<Rightarrow> Inl e
         | Inr v0 \<Rightarrow> (case face_vertex vs 1 f1 of
             Inl e \<Rightarrow> Inl e
           | Inr v1 \<Rightarrow> (case face_vertex vs 2 f2 of
               Inl e \<Rightarrow> Inl e
             | Inr v2 \<Rightarrow> Inr (vs, ts @ [\<lparr>p0 = v0, p1 = v1, p2 = v2, clr = color_default\<rparr>]))))
      else Inr st)"

partial_function (option) read_lines ::
  "bool \<Rightarrow>
   vector3D list \<times> triangle list \<Rightarrow> string list \<Rightarrow>
   (load_error + vector3D list \<times> triangle list) option" where
  "read_lines failed st ls =
     (if failed then read_lines True st ls
      else (case ls of
        [] \<Rightarrow> Some (Inr st)
      | l # rest \<Rightarrow>
          (case process_line st (take 127 l) of
            Inl e \<Rightarrow> Some (Inl e)
          | Inr st' \<Rightarrow> read_lines (128 \<le> length l) st' rest)))"

definition LoadFromObjectFile ::
  "mesh \<Rightarrow> string list option \<Rightarrow>
   (load_error + bool \<times> mesh) option" where
  "LoadFromObjectFile m file =
     (case file of
       None \<Rightarrow> Some (Inr (False, m))
     | Some ls \<Rightarrow>
         (case read_lines False ([], tris m) ls of
           None \<Rightarrow> None
         | Some (Inl e) \<Rightarrow> Some (Inl e)
         | Some (Inr (vs, ts)) \<Rightarrow> Some (Inr (True, m\<lparr>tris := ts\<rparr>))))"

text \<open>The lines the loop treats as vertex lines and as face lines: the first character
  decides, so \<open>vn\<close> and \<open>vt\<close> lines are vertex lines too.\<close>

definition is_vertex_line :: "string \<Rightarrow> bool" where
  "is_vertex_line l \<longleftrightarrow> l \<noteq> [] \<and> hd l = CHR ''v''"

definition is_face_line :: "string \<Rightarrow> bool" where
  "is_face_line l \<longleftrightarrow> l \<noteq> [] \<and> hd l = CHR ''f''"

lemmas line_eval = process_line_def read_vertex_def read_face_def face_vertex_def vertex_at_def
  stream_eval

subsection \<open>The read loop\<close>

lemma read_lines_failed_never_returns:
  assumes "read_lines failed st ls = Some r"
  shows "\<not> failed"
proof (rule read_lines.raw_induct [where P = "\<lambda>failed st ls r. \<not> failed", OF _ assms])
  fix g failed st ls r
  assume IH: "\<And>failed st ls r. g failed st ls = Some r \<Longrightarrow> \<not> failed"
    and eq: "(if failed then g True st ls
       else (case ls of [] \<Rightarrow> Some (Inr st)
         | l # rest \<Rightarrow> (case process_line st (take 127 l) of
             Inl e \<Rightarrow> Some (Inl e)
           | Inr st' \<Rightarrow> g (128 \<le> length l) st' rest))) = Some r"
  show "\<not> failed"
  proof
    assume failed
    with eq have "g True st ls = Some r" by simp
    then show False using IH by blast
  qed
qed

lemma read_lines_failed: "read_lines True st ls = None"
proof (rule ccontr)
  assume "read_lines True st ls \<noteq> None"
  then obtain r where "read_lines True st ls = Some r" by blast
  from read_lines_failed_never_returns [OF this] show False by simp
qed

lemma read_lines_Nil: "read_lines False st [] = Some (Inr st)"
  by (simp add: read_lines.simps)

lemma read_lines_Cons: "read_lines False st (l # rest) =
   (case process_line st (take 127 l) of
      Inl e \<Rightarrow> Some (Inl e)
    | Inr st' \<Rightarrow> read_lines (128 \<le> length l) st' rest)"
  by (simp add: read_lines.simps)

lemma read_lines_terminates:
  "\<forall>l \<in> set ls. length l < 128 \<Longrightarrow> \<exists>r. read_lines False st ls = Some r"
proof (induction ls arbitrary: st)
  case Nil
  then show ?case by (simp add: read_lines_Nil)
next
  case (Cons l ls)
  then show ?case
    by (cases "process_line st (take 127 l)") (simp_all add: read_lines_Cons)
qed

lemma read_lines_long_line:
  "read_lines False st ls = Some (Inr st') \<Longrightarrow> \<forall>l \<in> set ls. length l < 128"
proof (induction ls arbitrary: st)
  case Nil
  then show ?case by simp
next
  case (Cons l ls)
  show ?case
  proof (cases "process_line st (take 127 l)")
    case (Inl e)
    with Cons.prems show ?thesis by (simp add: read_lines_Cons)
  next
    case (Inr st1)
    with Cons.prems have r: "read_lines (128 \<le> length l) st1 ls = Some (Inr st')"
      by (simp add: read_lines_Cons)
    then have "\<not> 128 \<le> length l" by (rule read_lines_failed_never_returns)
    with r Cons.IH show ?thesis by simp
  qed
qed

lemma hd_take_127: "(take 127 l \<noteq> [] \<and> hd (take 127 l) = c) \<longleftrightarrow> (l \<noteq> [] \<and> hd l = c)"
  by (cases l) simp_all

lemma process_line_counts:
  assumes "process_line (vs, ts) (take 127 l) = Inr (vs', ts')"
  shows "length vs' = length vs + (if is_vertex_line l then 1 else 0)
       \<and> length ts' = length ts + (if is_face_line l then 1 else 0)"
  using assms
  by (cases l) (auto simp: process_line_def is_vertex_line_def is_face_line_def Let_def
      split: if_splits sum.splits prod.splits)

lemma read_lines_counts:
  "read_lines False (vs, ts) ls = Some (Inr (vs', ts')) \<Longrightarrow>
     length vs' = length vs + length (filter is_vertex_line ls) \<and>
     length ts' = length ts + length (filter is_face_line ls)"
proof (induction ls arbitrary: vs ts)
  case Nil
  then show ?case by (simp add: read_lines_Nil)
next
  case (Cons l ls)
  obtain vs1 ts1 where st1: "process_line (vs, ts) (take 127 l) = Inr (vs1, ts1)"
    using Cons.prems by (cases "process_line (vs, ts) (take 127 l)")
      (auto simp: read_lines_Cons)
  with Cons.prems have r: "read_lines (128 \<le> length l) (vs1, ts1) ls = Some (Inr (vs', ts'))"
    by (simp add: read_lines_Cons)
  then have "\<not> 128 \<le> length l" by (rule read_lines_failed_never_returns)
  with r Cons.IH have "length vs' = length vs1 + length (filter is_vertex_line ls) \<and>
     length ts' = length ts1 + length (filter is_face_line ls)" by simp
  with process_line_counts [OF st1] show ?case by auto
qed

subsection \<open>Errors, termination and results of the loader\<close>

lemma vertex_at_error:
  "vertex_at vs i = Inl (IndexError j n) \<Longrightarrow> j = i \<and> n = length vs \<and> \<not> (1 \<le> i \<and> i \<le> int (length vs))"
  by (simp add: vertex_at_def split: if_splits)

lemma face_vertex_error:
  "face_vertex vs k f = Inl (IndexError i n) \<Longrightarrow> n = length vs \<and> \<not> (1 \<le> i \<and> i \<le> int n)"
  by (cases f) (auto simp: face_vertex_def dest: vertex_at_error)

lemma process_line_error:
  assumes "process_line st l = Inl (IndexError i n)"
  shows "\<not> (1 \<le> i \<and> i \<le> int n)"
  using assms
  by (auto simp: process_line_def Let_def split: prod.splits if_splits sum.splits
      dest!: face_vertex_error)

lemma process_line_non_face:
  assumes "\<not> (line \<noteq> [] \<and> hd line = CHR ''f'')"
  shows "\<exists>st'. process_line st line = Inr st'"
  using assms by (auto simp: process_line_def Let_def split: prod.splits)

lemma read_lines_error:
  "read_lines False st ls = Some (Inl (IndexError i n)) \<Longrightarrow> \<not> (1 \<le> i \<and> i \<le> int n)"
proof (induction ls arbitrary: st)
  case Nil
  then show ?case by (simp add: read_lines_Nil)
next
  case (Cons l ls)
  show ?case
  proof (cases "process_line st (take 127 l)")
    case (Inl e)
    with Cons.prems process_line_error [of st "take 127 l" i n] show ?thesis
      by (simp add: read_lines_Cons)
  next
    case (Inr st1)
    with Cons.prems have r: "read_lines (128 \<le> length l) st1 ls = Some (Inl (IndexError i n))"
      by (simp add: read_lines_Cons)
    then have "\<not> 128 \<le> length l" by (rule read_lines_failed_never_returns)
    with r Cons.IH show ?thesis by simp
  qed
qed

text \<open>C26: when every line of the file is shorter than 128 characters, the loader
  returns: a mesh or an index error.\<close>

theorem load_terminates:
  assumes "\<forall>l \<in> set ls. length l < 128"
  shows "\<exists>r. LoadFromObjectFile m (Some ls) = Some r"
proof -
  obtain r where "read_lines False ([], tris m) ls = Some r"
    using read_lines_terminates [OF assms] by blast
  then show ?thesis by (cases r) (auto simp: LoadFromObjectFile_def)
qed

text \<open>C27: a first line of 128 characters or more that is not a face line makes the read
  loop run forever: \<open>getline\<close> sets the failbit, \<open>eof()\<close> stays false.\<close>

theorem load_long_line_hangs:
  assumes "128 \<le> length l" "hd l \<noteq> CHR ''f''"
  shows "LoadFromObjectFile m (Some (l # ls)) = None"
proof -
  have "l \<noteq> []" using assms(1) by auto
  with assms(2) have "\<not> (take 127 l \<noteq> [] \<and> hd (take 127 l) = CHR ''f'')"
    using hd_take_127 [of l "CHR ''f''"] by simp
  then obtain st' where "process_line ([], tris m) (take 127 l) = Inr st'"
    using process_line_non_face by blast
  with assms(1) show ?thesis
    by (simp add: LoadFromObjectFile_def read_lines_Cons read_lines_failed)
qed

lemma process_line_prefix:
  "process_line (vs, ts) l = Inr (vs', ts') \<Longrightarrow> \<exists>new. ts' = ts @ new"
  by (auto simp: process_line_def Let_def split: if_splits sum.splits prod.splits)

lemma read_lines_prefix:
  "read_lines False (vs, ts) ls = Some (Inr (vs', ts')) \<Longrightarrow> \<exists>new. ts' = ts @ new"
proof (induction ls arbitrary: vs ts)
  case Nil
  then show ?case by (simp add: read_lines_Nil)
next
  case (Cons l ls)
  obtain vs1 ts1 where st1: "process_line (vs, ts) (take 127 l) = Inr (vs1, ts1)"
    using Cons.prems by (cases "process_line (vs, ts) (take 127 l)")
      (auto simp: read_lines_Cons)
  with Cons.prems have r: "read_lines (128 \<le> length l) (vs1, ts1) ls = Some (Inr (vs', ts'))"
    by (simp add: read_lines_Cons)
  then have "\<not> 128 \<le> length l" by (rule read_lines_failed_never_returns)
  with r Cons.IH obtain new where "ts' = ts1 @ new" by auto
  moreover obtain new1 where "ts1 = ts @ new1" using process_line_prefix [OF st1] by blast
  ultimately show ?case by auto
qed

text \<open>C28: a successful load returns \<open>true\<close> and appends to the mesh's triangles exactly
  one triangle per line that starts with \<open>f\<close>.\<close>

theorem load_counts:
  assumes "LoadFromObjectFile m (Some ls) = Some (Inr (b, m'))"
  shows "b \<and> (\<exists>new. tris m' = tris m @ new \<and> length new = length (filter is_face_line ls))"
proof -
  obtain vs ts where r: "read_lines False ([], tris m) ls = Some (Inr (vs, ts))"
    and b: "b" and m': "m' = m\<lparr>tris := ts\<rparr>"
    using assms by (auto simp: LoadFromObjectFile_def split: option.splits sum.splits)
  obtain new where "ts = tris m @ new" using read_lines_prefix [OF r] by blast
  moreover have "length ts = length (tris m) + length (filter is_face_line ls)"
    using read_lines_counts [OF r] by simp
  ultimately show ?thesis using b m' by simp
qed

text \<open>C29: the loader reports an index error only for an index outside \<open>1..n\<close>, where
  \<open>n\<close> is the number of vertex lines read before the face.\<close>

theorem load_index_error:
  assumes "LoadFromObjectFile m (Some ls) = Some (Inl (IndexError i n))"
  shows "\<not> (1 \<le> i \<and> i \<le> int n)"
  using assms read_lines_error [of "([], tris m)" ls i n]
  by (auto simp: LoadFromObjectFile_def split: option.splits sum.splits)

lemma read_vertex_vn_vt:
  "read_vertex (CHR ''v'' # CHR ''n'' # r) = vec3 0 0 0 \<and> read_vertex (CHR ''v'' # CHR ''t'' # r) = vec3 0 0 0"
  by (simp add: read_vertex_def stream_eval scan_float_body.simps)

lemma process_line_other:
  "\<not> is_vertex_line l \<Longrightarrow> \<not> is_face_line l \<Longrightarrow> process_line st l = Inr st"
  by (cases st) (auto simp: process_line_def is_vertex_line_def is_face_line_def)

lemma read_lines_filter_lines:
  "\<forall>l \<in> set ls. length l < 128 \<Longrightarrow>
     read_lines False st ls = read_lines False st (filter (\<lambda>l. is_vertex_line l \<or> is_face_line l) ls)"
proof (induction ls arbitrary: st)
  case Nil
  then show ?case by simp
next
  case (Cons l ls)
  then have short: "length l < 128" "\<forall>l \<in> set ls. length l < 128" by simp_all
  then have tk: "take 127 l = l" by simp
  show ?case
  proof (cases "is_vertex_line l \<or> is_face_line l")
    case True
    with Cons.IH [OF short(2)] short(1) show ?thesis
      by (simp add: read_lines_Cons tk split: sum.split)
  next
    case False
    with Cons.IH [OF short(2)] short(1) show ?thesis
      by (simp add: read_lines_Cons tk process_line_other)
  qed
qed

text \<open>C30: every line that starts with \<open>vn\<close> or \<open>vt\<close> (vertex normals and texture
  coordinates of the OBJ format) is read as a vertex: the identifier is \<open>v\<close>, the
  extraction of \<open>v.x\<close> meets \<open>n\<close> or \<open>t\<close>, stores 0 and fails, and \<open>v.y\<close>, \<open>v.z\<close>
  keep 0. The zero vector is appended to the vertex pool, so the 1-based indices of all
  later vertices are shifted by one.\<close>

theorem vn_line_read_as_vertex:
  "process_line (vs, ts) (CHR ''v'' # CHR ''n'' # r) = Inr (vs @ [vec3 0 0 0], ts) \<and>
   process_line (vs, ts) (CHR ''v'' # CHR ''t'' # r) = Inr (vs @ [vec3 0 0 0], ts)"
  using read_vertex_vn_vt [of r] by (simp add: process_line_def)

text \<open>C31: on a file of lines shorter than 128 characters, the loader gives the same result
  as on the file with every line removed that starts with neither \<open>v\<close> nor \<open>f\<close>
  (comments, empty lines, groups, materials): such lines are ignored, as the format
  requires.\<close>

theorem load_ignores_other_lines:
  assumes "\<forall>l \<in> set ls. length l < 128"
  shows "LoadFromObjectFile m (Some ls) =
    LoadFromObjectFile m (Some (filter (\<lambda>l. is_vertex_line l \<or> is_face_line l) ls))"
  using read_lines_filter_lines [OF assms] by (simp add: LoadFromObjectFile_def)

subsection \<open>Witnesses\<close>

theorem load_terminates_witness:
  "(\<exists>r. LoadFromObjectFile \<lparr>tris = []\<rparr>
          (Some [''v 1 2 3'', ''f 1 1 1'']) = Some r)"
proof -
  have h: "\<forall>l \<in> set [''v 1 2 3'', ''f 1 1 1'']. length l < 128" by simp
  show ?thesis using h load_terminates [OF h] by blast
qed

theorem load_long_line_hangs_witness:
  "128 \<le> length (replicate 128 CHR ''v'') \<and> hd (replicate 128 CHR ''v'') \<noteq> CHR ''f'' \<and>
   LoadFromObjectFile \<lparr>tris = []\<rparr>
     (Some [replicate 128 CHR ''v'', ''f 1 1 1'']) = None"
proof -
  have h: "128 \<le> length (replicate 128 CHR ''v'')" "hd (replicate 128 CHR ''v'') \<noteq> CHR ''f''"
    by simp_all
  show ?thesis using h load_long_line_hangs [OF h] by blast
qed

theorem load_counts_witness:
  "LoadFromObjectFile \<lparr>tris = []\<rparr>
     (Some [''v 1 2 3'', ''f 1 1 1'']) =
     Some (Inr (True, \<lparr>tris = [\<lparr>p0 = vec3 1 2 3, p1 = vec3 1 2 3, p2 = vec3 1 2 3,
                                 clr = color_default\<rparr>]\<rparr>)) \<and>
   (\<exists>new. [\<lparr>p0 = vec3 1 2 3, p1 = vec3 1 2 3, p2 = vec3 1 2 3, clr = color_default\<rparr>] = [] @ new \<and>
      length new = length (filter is_face_line [''v 1 2 3'', ''f 1 1 1'']))"
proof -
  have h: "LoadFromObjectFile \<lparr>tris = []\<rparr>
     (Some [''v 1 2 3'', ''f 1 1 1'']) =
     Some (Inr (True, \<lparr>tris = [\<lparr>p0 = vec3 1 2 3, p1 = vec3 1 2 3, p2 = vec3 1 2 3,
                                 clr = color_default\<rparr>]\<rparr>))"
    by (simp add: LoadFromObjectFile_def read_lines_Cons read_lines_Nil process_line_def
        line_eval)
  show ?thesis using h load_counts [OF h] by simp
qed

theorem load_index_error_witness:
  "LoadFromObjectFile \<lparr>tris = []\<rparr>
     (Some [''v 1 2 3'', ''f 2 1 1'']) = Some (Inl (IndexError 2 1)) \<and>
   \<not> (1 \<le> (2::int) \<and> 2 \<le> int 1)"
proof -
  have h: "LoadFromObjectFile \<lparr>tris = []\<rparr>
     (Some [''v 1 2 3'', ''f 2 1 1'']) = Some (Inl (IndexError 2 1))"
    by (simp add: LoadFromObjectFile_def read_lines_Cons read_lines_Nil process_line_def
        line_eval)
  show ?thesis using h load_index_error [OF h] by blast
qed

theorem load_ignores_other_lines_witness:
  "LoadFromObjectFile \<lparr>tris = []\<rparr> (Some [''# teapot'', ''v 1 2 3'', [], ''g lid'', ''f 1 1 1''])
   = LoadFromObjectFile \<lparr>tris = []\<rparr> (Some [''v 1 2 3'', ''f 1 1 1''])"
proof -
  have h: "\<forall>l \<in> set [''# teapot'', ''v 1 2 3'', [], ''g lid'', ''f 1 1 1'']. length l < 128"
    by simp
  from load_ignores_other_lines [OF h, of "\<lparr>tris = []\<rparr>"] show ?thesis
    by (simp add: is_vertex_line_def is_face_line_def)
qed

end
