(* ===== verification/ObjFile.thy ===== *)
theory ObjFile
  imports Mesh
begin

text \<open>
  The input/output contract of \<open>mesh::LoadFromObjectFile\<close> (\<open>src/VectorMatrix.h\<close>,
  lines 119--147) on well-formed files. A reference writer produces the OBJ text of a
  list of vertices, given as decimals \<open>m \<cdot> 10^e\<close>, and of faces, given as 0-based
  vertex numbers; loading that text gives back the triangles the faces name (a round
  trip through the stream model of theory Stream). The loader keeps the well-formedness
  of a mesh (all vertices have \<open>w = 1\<close> and all triangles the default colour), and a face
  line with fewer than three indices reads an uninitialised index.
\<close>

type_synonym obj_vertex = "decimal \<times> decimal \<times> decimal"

definition dec_vec :: "obj_vertex \<Rightarrow> vector3D" where
  "dec_vec v = (case v of (a, b, c) \<Rightarrow> vec3 (dec_val a) (dec_val b) (dec_val c))"

definition obj_vertex_line :: "obj_vertex \<Rightarrow> string" where
  "obj_vertex_line v = (case v of (a, b, c) \<Rightarrow>
     ''v '' @ show_decimal a @ '' '' @ show_decimal b @ '' '' @ show_decimal c)"

definition obj_face_line :: "nat \<times> nat \<times> nat \<Rightarrow> string" where
  "obj_face_line f = (case f of (i, j, k) \<Rightarrow>
     ''f '' @ show_int (int i + 1) @ '' '' @ show_int (int j + 1) @ '' '' @ show_int (int k + 1))"

definition obj_file :: "obj_vertex list \<Rightarrow> (nat \<times> nat \<times> nat) list \<Rightarrow> string list" where
  "obj_file vs fs = map obj_vertex_line vs @ map obj_face_line fs"

definition face_tri :: "vector3D list \<Rightarrow> nat \<times> nat \<times> nat \<Rightarrow> triangle" where
  "face_tri V f = (case f of (i, j, k) \<Rightarrow>
     \<lparr>p0 = V ! i, p1 = V ! j, p2 = V ! k, clr = color_default\<rparr>)"

definition mesh_wf :: "mesh \<Rightarrow> bool" where
  "mesh_wf m \<longleftrightarrow>
     (\<forall>t \<in> set (tris m). clr t = color_default \<and> (\<forall>v \<in> set (tri_verts t). w v = 1))"

subsection \<open>One line of the writer, read back\<close>

lemma extract_char_first:
  "\<not> is_space c \<Longrightarrow> extract_char (stream_of (c # r)) = (stream_of r, Some c)"
  by (simp add: extract_char_def sentry_def stream_of_def)

lemma good_stream_of: "\<not> sfail (stream_of r) \<and> \<not> seof (stream_of r) \<and> sbuf (stream_of r) = r"
  by (simp add: stream_of_def)

lemma space_char: "is_space CHR '' ''"
  by (simp add: is_space_def)

lemma read_vertex_obj: "read_vertex (obj_vertex_line v) = dec_vec v"
proof -
  obtain a b c where v: "v = (a, b, c)" by (cases v) auto
  let ?r = "'' '' @ show_decimal a @ '' '' @ show_decimal b @ '' '' @ show_decimal c"
  have s0: "extract_char (stream_of (CHR ''v'' # ?r)) = (stream_of ?r, Some (CHR ''v''))"
    by (rule extract_char_first) (simp add: is_space_def)
  have s1: "extract_float (stream_of ?r) =
      (\<lparr>sbuf = '' '' @ show_decimal b @ '' '' @ show_decimal c, sfail = False, seof = False\<rparr>,
       Some (dec_val a))"
    using extract_float_show_decimal [of "stream_of ?r" "'' ''" a
        "'' '' @ show_decimal b @ '' '' @ show_decimal c"] good_stream_of space_char by simp
  have s2: "extract_float \<lparr>sbuf = '' '' @ show_decimal b @ '' '' @ show_decimal c,
        sfail = False, seof = False\<rparr> =
      (\<lparr>sbuf = '' '' @ show_decimal c, sfail = False, seof = False\<rparr>, Some (dec_val b))"
    using extract_float_show_decimal [of _ "'' ''" b "'' '' @ show_decimal c"] space_char by simp
  have s3: "extract_float \<lparr>sbuf = '' '' @ show_decimal c, sfail = False, seof = False\<rparr> =
      (\<lparr>sbuf = [], sfail = False, seof = True\<rparr>, Some (dec_val c))"
    using extract_float_show_decimal [of _ "'' ''" c "[]"] space_char by simp
  have eq: "obj_vertex_line v = CHR ''v'' # ?r" by (simp add: v obj_vertex_line_def)
  show ?thesis
    unfolding read_vertex_def eq Let_def s0 prod.case s1 s2 s3 by (simp add: v dec_vec_def)
qed

lemma read_face_obj:
  assumes "int i + 1 \<le> int_max" "int j + 1 \<le> int_max" "int k + 1 \<le> int_max"
  shows "read_face (obj_face_line (i, j, k)) = (Some (int i + 1), Some (int j + 1), Some (int k + 1))"
proof -
  have lo: "int_min \<le> int n + 1" for n by (simp add: int_min_def)
  let ?r = "'' '' @ show_int (int i + 1) @ '' '' @ show_int (int j + 1) @ '' '' @ show_int (int k + 1)"
  have s0: "extract_char (stream_of (CHR ''f'' # ?r)) = (stream_of ?r, Some (CHR ''f''))"
    by (rule extract_char_first) (simp add: is_space_def)
  have s1: "extract_int (stream_of ?r) =
      (\<lparr>sbuf = '' '' @ show_int (int j + 1) @ '' '' @ show_int (int k + 1), sfail = False,
        seof = False\<rparr>, Some (int i + 1))"
    using extract_int_show_int [of "stream_of ?r" "'' ''" "int i + 1"
        "'' '' @ show_int (int j + 1) @ '' '' @ show_int (int k + 1)"]
      good_stream_of space_char assms(1) lo by simp
  have s2: "extract_int \<lparr>sbuf = '' '' @ show_int (int j + 1) @ '' '' @ show_int (int k + 1),
        sfail = False, seof = False\<rparr> =
      (\<lparr>sbuf = '' '' @ show_int (int k + 1), sfail = False, seof = False\<rparr>, Some (int j + 1))"
    using extract_int_show_int [of _ "'' ''" "int j + 1" "'' '' @ show_int (int k + 1)"]
      space_char assms(2) lo by simp
  have s3: "extract_int \<lparr>sbuf = '' '' @ show_int (int k + 1), sfail = False, seof = False\<rparr> =
      (\<lparr>sbuf = [], sfail = False, seof = True\<rparr>, Some (int k + 1))"
    using extract_int_show_int [of _ "'' ''" "int k + 1" "[]"] space_char assms(3) lo by simp
  have eq: "obj_face_line (i, j, k) = CHR ''f'' # ?r" by (simp add: obj_face_line_def)
  show ?thesis unfolding read_face_def eq Let_def s0 prod.case s1 s2 s3 by simp
qed

lemma read_face_two:
  assumes "int_min \<le> a" "a \<le> int_max" "int_min \<le> b" "b \<le> int_max"
  shows "read_face (''f '' @ show_int a @ '' '' @ show_int b) = (Some a, Some b, None)"
proof -
  let ?r = "'' '' @ show_int a @ '' '' @ show_int b"
  have s0: "extract_char (stream_of (CHR ''f'' # ?r)) = (stream_of ?r, Some (CHR ''f''))"
    by (rule extract_char_first) (simp add: is_space_def)
  have s1: "extract_int (stream_of ?r) =
      (\<lparr>sbuf = '' '' @ show_int b, sfail = False, seof = False\<rparr>, Some a)"
    using extract_int_show_int [of "stream_of ?r" "'' ''" a "'' '' @ show_int b"]
      good_stream_of space_char assms(1,2) by simp
  have s2: "extract_int \<lparr>sbuf = '' '' @ show_int b, sfail = False, seof = False\<rparr> =
      (\<lparr>sbuf = [], sfail = False, seof = True\<rparr>, Some b)"
    using extract_int_show_int [of _ "'' ''" b "[]"] space_char assms(3,4) by simp
  have s3: "extract_int \<lparr>sbuf = [], sfail = False, seof = True\<rparr> =
      (\<lparr>sbuf = [], sfail = True, seof = True\<rparr>, None)"
    by (simp add: extract_int_def sentry_def)
  have eq: "''f '' @ show_int a @ '' '' @ show_int b = CHR ''f'' # ?r" by simp
  show ?thesis unfolding read_face_def eq Let_def s0 prod.case s1 s2 s3 by simp
qed

lemma read_face_overflow:
  assumes "int_max < a"
  shows "read_face (''f '' @ show_int a @ '' '' @ show_int b @ '' '' @ show_int c) = (Some int_max, None, None)"
proof -
  let ?rest = "'' '' @ show_int b @ '' '' @ show_int c"
  let ?r = "'' '' @ show_int a @ ?rest"
  have s0: "extract_char (stream_of (CHR ''f'' # ?r)) = (stream_of ?r, Some (CHR ''f''))"
    by (rule extract_char_first) (simp add: is_space_def)
  have lo: "\<not> a < int_min" using assms by (simp add: int_min_def int_max_def)
  have s1: "extract_int (stream_of ?r) = (\<lparr>sbuf = ?rest, sfail = True, seof = False\<rparr>, Some int_max)"
    using extract_int_clamp [of "stream_of ?r" "'' ''" a ?rest] good_stream_of space_char assms lo
    by simp
  have s2: "extract_int \<lparr>sbuf = ?rest, sfail = True, seof = False\<rparr> =
      (\<lparr>sbuf = ?rest, sfail = True, seof = False\<rparr>, None)"
    by (rule extract_int_failed) simp
  have eq: "''f '' @ show_int a @ '' '' @ show_int b @ '' '' @ show_int c = CHR ''f'' # ?r" by simp
  show ?thesis unfolding read_face_def eq Let_def s0 prod.case s1 s2 by simp
qed

lemma obj_vertex_line_shape: "obj_vertex_line v \<noteq> [] \<and> hd (obj_vertex_line v) = CHR ''v''"
  by (cases v) (simp add: obj_vertex_line_def)

lemma obj_face_line_shape: "obj_face_line f \<noteq> [] \<and> hd (obj_face_line f) = CHR ''f''"
  by (cases f) (simp add: obj_face_line_def)

lemma process_vertex_obj: "process_line (vs, ts) (obj_vertex_line v) = Inr (vs @ [dec_vec v], ts)"
  using obj_vertex_line_shape [of v] by (simp add: process_line_def read_vertex_obj)

lemma vertex_at_nth: "i < length vs \<Longrightarrow> vertex_at vs (int i + 1) = Inr (vs ! i)"
  by (simp add: vertex_at_def)

lemma process_face_obj:
  assumes "i < length vs" "j < length vs" "k < length vs" "length vs < 2147483647"
  shows "process_line (vs, ts) (obj_face_line (i, j, k)) = Inr (vs, ts @ [face_tri vs (i, j, k)])"
proof -
  have "int i + 1 \<le> int_max" "int j + 1 \<le> int_max" "int k + 1 \<le> int_max"
    using assms by (simp_all add: int_max_def)
  from read_face_obj [OF this] show ?thesis
    using obj_face_line_shape [of "(i, j, k)"] assms(1-3)
    by (simp add: process_line_def face_vertex_def vertex_at_nth face_tri_def)
qed

lemma take_short: "length l < 128 \<Longrightarrow> take 127 l = l"
  by simp

lemma read_lines_obj_vertices:
  "\<forall>v \<in> set xs. length (obj_vertex_line v) < 128 \<Longrightarrow>
     read_lines False (vs, ts) (map obj_vertex_line xs @ rest) =
     read_lines False (vs @ map dec_vec xs, ts) rest"
proof (induction xs arbitrary: vs)
  case Nil
  then show ?case by simp
next
  case (Cons v xs)
  then show ?case by (simp add: read_lines_Cons take_short process_vertex_obj)
qed

lemma read_lines_obj_faces:
  assumes "\<forall>(i, j, k) \<in> set fs. i < length vs \<and> j < length vs \<and> k < length vs"
    "\<forall>f \<in> set fs. length (obj_face_line f) < 128" "length vs < 2147483647"
  shows "read_lines False (vs, ts) (map obj_face_line fs) = Some (Inr (vs, ts @ map (face_tri vs) fs))"
  using assms
proof (induction fs arbitrary: ts)
  case Nil
  then show ?case by (simp add: read_lines_Nil)
next
  case (Cons f fs)
  obtain i j k where f: "f = (i, j, k)" by (cases f) auto
  with Cons.prems have "process_line (vs, ts) (obj_face_line f) = Inr (vs, ts @ [face_tri vs f])"
    by (simp add: process_face_obj)
  with Cons show ?case by (simp add: read_lines_Cons take_short)
qed

subsection \<open>Well-formed meshes\<close>

lemma face_vertex_in: "face_vertex vs k f = Inr v \<Longrightarrow> v \<in> set vs"
  by (cases f) (auto simp: face_vertex_def vertex_at_def split: if_splits)

lemma read_vertex_w: "w (read_vertex l) = 1"
  by (simp add: read_vertex_def Let_def vec3_def split: prod.split)

lemma process_line_wf:
  assumes "process_line (vs, ts) l = Inr (vs', ts')" "\<forall>v \<in> set vs. w v = 1"
    "mesh_wf \<lparr>tris = ts\<rparr>"
  shows "(\<forall>v \<in> set vs'. w v = 1) \<and> mesh_wf \<lparr>tris = ts'\<rparr>"
  using assms
  by (auto simp: process_line_def Let_def mesh_wf_def tri_verts_def read_vertex_w
      split: if_splits prod.splits sum.splits dest!: face_vertex_in)

lemma read_lines_wf:
  "read_lines False (vs, ts) ls = Some (Inr (vs', ts')) \<Longrightarrow> \<forall>v \<in> set vs. w v = 1 \<Longrightarrow>
     mesh_wf \<lparr>tris = ts\<rparr> \<Longrightarrow> mesh_wf \<lparr>tris = ts'\<rparr>"
proof (induction ls arbitrary: vs ts)
  case Nil
  then show ?case by (simp add: read_lines_Nil)
next
  case (Cons l ls)
  obtain vs1 ts1 where st1: "process_line (vs, ts) (take 127 l) = Inr (vs1, ts1)"
    using Cons.prems(1) by (cases "process_line (vs, ts) (take 127 l)") (auto simp: read_lines_Cons)
  with Cons.prems(1) have r: "read_lines (128 \<le> length l) (vs1, ts1) ls = Some (Inr (vs', ts'))"
    by (simp add: read_lines_Cons)
  then have "\<not> 128 \<le> length l" by (rule read_lines_failed_never_returns)
  with r Cons.IH process_line_wf [OF st1 Cons.prems(2,3)] show ?case by simp
qed

subsection \<open>Properties of the loader on written files\<close>

text \<open>C37: Loading the text the reference writer produces for a list of vertices and a list
  of faces (each line shorter than 128 characters, every face index naming a vertex) appends
  to the mesh exactly the triangles the faces name, with the vertices the writer printed.\<close>

theorem obj_roundtrip:
  assumes "\<forall>l \<in> set (obj_file vs fs). length l < 128"
    and "\<forall>(i, j, k) \<in> set fs. i < length vs \<and> j < length vs \<and> k < length vs"
    and "length vs < 2147483647"
  shows "LoadFromObjectFile m (Some (obj_file vs fs)) =
    Some (Inr (True, m\<lparr>tris := tris m @ map (face_tri (map dec_vec vs)) fs\<rparr>))"
proof -
  have v: "\<forall>v \<in> set vs. length (obj_vertex_line v) < 128"
    and f: "\<forall>f \<in> set fs. length (obj_face_line f) < 128"
    using assms(1) by (auto simp: obj_file_def)
  have "read_lines False ([], tris m) (obj_file vs fs) =
      read_lines False (map dec_vec vs, tris m) (map obj_face_line fs)"
    using read_lines_obj_vertices [OF v] by (simp add: obj_file_def)
  also have "\<dots> = Some (Inr (map dec_vec vs, tris m @ map (face_tri (map dec_vec vs)) fs))"
    using read_lines_obj_faces [of fs "map dec_vec vs"] assms(2,3) f by simp
  finally show ?thesis by (simp add: LoadFromObjectFile_def)
qed

text \<open>C38: The loader keeps the well-formedness of a mesh: when it returns a mesh, every
  triangle of it has the default colour and all its vertices have \<open>w = 1\<close>, provided the
  triangles it started with had.\<close>

theorem load_preserves_wf:
  assumes "mesh_wf m" and "LoadFromObjectFile m inp = Some (Inr (b, m'))"
  shows "mesh_wf m'"
proof (cases inp)
  case None
  with assms show ?thesis by (simp add: LoadFromObjectFile_def)
next
  case (Some ls)
  from assms(1) have wf0: "mesh_wf \<lparr>tris = tris m\<rparr>" by (simp add: mesh_wf_def)
  from assms(2) Some obtain vs ts where
      r: "read_lines False ([], tris m) ls = Some (Inr (vs, ts))" and m': "m' = m\<lparr>tris := ts\<rparr>"
    by (auto simp: LoadFromObjectFile_def split: option.splits sum.splits)
  from read_lines_wf [OF r _ wf0] m' show ?thesis by (simp add: mesh_wf_def)
qed

text \<open>C39: A face line with only two indices, both naming vertices, makes the loader read
  the third index \<open>f[2]\<close>, which the extraction never stored: the model reports the read of
  the uninitialised variable as the error \<open>UninitialisedIndex 2\<close>.\<close>

theorem load_missing_index:
  assumes "\<forall>v \<in> set vs. length (obj_vertex_line v) < 128"
    and "length (''f '' @ show_int (int i + 1) @ '' '' @ show_int (int j + 1)) < 128"
    and "i < length vs" "j < length vs" "length vs < 2147483647"
  shows "LoadFromObjectFile m
      (Some (map obj_vertex_line vs @ (''f '' @ show_int (int i + 1) @ '' '' @ show_int (int j + 1)) # rest))
    = Some (Inl (UninitialisedIndex 2))"
proof -
  let ?l = "''f '' @ show_int (int i + 1) @ '' '' @ show_int (int j + 1)"
  let ?V = "map dec_vec vs"
  have "read_face ?l = (Some (int i + 1), Some (int j + 1), None)"
    using assms(3-5) by (intro read_face_two) (simp_all add: int_min_def int_max_def)
  then have "process_line (?V, tris m) ?l = Inl (UninitialisedIndex 2)"
    using assms(3,4) by (simp add: process_line_def face_vertex_def vertex_at_nth)
  then have "read_lines False (?V, tris m) (?l # rest) = Some (Inl (UninitialisedIndex 2))"
    using assms(2) by (simp add: read_lines_Cons take_short)
  then show ?thesis
    using read_lines_obj_vertices [OF assms(1)] by (simp add: LoadFromObjectFile_def)
qed

text \<open>C14: a face index above \<open>INT_MAX\<close> is read as \<open>INT_MAX\<close> with \<open>failbit\<close> set, so the
  two indices after it are never read: the line looks up vertex \<open>INT_MAX\<close>, which is out
  of range of every mesh of fewer vertices, whatever the other two indices say.\<close>

theorem face_index_overflow:
  assumes "int_max < a" "int (length vs) < int_max"
  shows "read_face (''f '' @ show_int a @ '' '' @ show_int b @ '' '' @ show_int c) = (Some int_max, None, None) \<and>
    process_line (vs, ts) (''f '' @ show_int a @ '' '' @ show_int b @ '' '' @ show_int c) =
      Inl (IndexError int_max (length vs))"
proof -
  have r: "read_face (''f '' @ show_int a @ '' '' @ show_int b @ '' '' @ show_int c) = (Some int_max, None, None)"
    using assms(1) by (rule read_face_overflow)
  moreover have "process_line (vs, ts) (''f '' @ show_int a @ '' '' @ show_int b @ '' '' @ show_int c) =
      Inl (IndexError int_max (length vs))"
    using assms(2) unfolding process_line_def r by (simp add: face_vertex_def vertex_at_def)
  ultimately show ?thesis ..
qed

subsection \<open>Witnesses\<close>

theorem obj_roundtrip_witness:
  "LoadFromObjectFile \<lparr>tris = []\<rparr> (Some (obj_file [((1, 0), (2, 0), (3, 0)), ((4, 0), (5, 0), (6, 0)), ((7, -1), (8, 1), (9, 2))] [(0, 1, 2), (2, 2, 0)]))
   = Some (Inr (True, \<lparr>tris = [\<lparr>p0 = vec3 1 2 3, p1 = vec3 4 5 6, p2 = vec3 0.7 80 900, clr = color_default\<rparr>,
                                \<lparr>p0 = vec3 0.7 80 900, p1 = vec3 0.7 80 900, p2 = vec3 1 2 3, clr = color_default\<rparr>]\<rparr>))"
proof -
  have "\<forall>l \<in> set (obj_file [((1, 0), (2, 0), (3, 0)), ((4, 0), (5, 0), (6, 0)), ((7, -1), (8, 1), (9, 2))] [(0, 1, 2), (2, 2, 0)]). length l < 128"
    by code_simp
  from obj_roundtrip [OF this] show ?thesis
    by (simp add: face_tri_def dec_vec_def dec_val_def)
qed

theorem load_missing_index_witness:
  "LoadFromObjectFile \<lparr>tris = []\<rparr> (Some [''v 1e0 2e0 3e0'', ''v 4e0 5e0 6e0'', ''f 1 2''])
   = Some (Inl (UninitialisedIndex 2))"
proof -
  have l: "''f '' @ show_int (int 0 + 1) @ '' '' @ show_int (int 1 + 1) = ''f 1 2''" by code_simp
  have s12: "show_int 1 = ''1''" "show_int 2 = ''2''" by code_simp+
  have e1: "obj_vertex_line ((1, 0), (2, 0), (3, 0)) = ''v 1e0 2e0 3e0''" by code_simp
  have e2: "obj_vertex_line ((4, 0), (5, 0), (6, 0)) = ''v 4e0 5e0 6e0''" by code_simp
  have "LoadFromObjectFile \<lparr>tris = []\<rparr>
      (Some (map obj_vertex_line [((1, 0), (2, 0), (3, 0)), ((4, 0), (5, 0), (6, 0))] @
        (''f '' @ show_int (int 0 + 1) @ '' '' @ show_int (int 1 + 1)) # []))
    = Some (Inl (UninitialisedIndex 2))"
    by (rule load_missing_index) (simp_all add: e1 e2 s12)
  then show ?thesis unfolding l list.map e1 e2 by simp
qed

theorem load_preserves_wf_witness:
  "LoadFromObjectFile \<lparr>tris = []\<rparr> (Some [''v 1 2 3'', ''f 1 1 1''])
     = Some (Inr (True, \<lparr>tris = [\<lparr>p0 = vec3 1 2 3, p1 = vec3 1 2 3, p2 = vec3 1 2 3, clr = color_default\<rparr>]\<rparr>))
   \<and> mesh_wf \<lparr>tris = [\<lparr>p0 = vec3 1 2 3, p1 = vec3 1 2 3, p2 = vec3 1 2 3, clr = color_default\<rparr>]\<rparr>"
proof -
  have h: "LoadFromObjectFile \<lparr>tris = []\<rparr> (Some [''v 1 2 3'', ''f 1 1 1''])
     = Some (Inr (True, \<lparr>tris = [\<lparr>p0 = vec3 1 2 3, p1 = vec3 1 2 3, p2 = vec3 1 2 3, clr = color_default\<rparr>]\<rparr>))"
    by (simp add: LoadFromObjectFile_def read_lines_Cons read_lines_Nil line_eval)
  have "mesh_wf \<lparr>tris = []\<rparr>" by (simp add: mesh_wf_def)
  from load_preserves_wf [OF this h] h show ?thesis by simp
qed

theorem face_index_overflow_witness:
  "read_face ''f 2147483648 1 1'' = (Some 2147483647, None, None) \<and>
   process_line ([], []) ''f 2147483648 1 1'' = Inl (IndexError 2147483647 0)"
proof -
  have l: "''f '' @ show_int 2147483648 @ '' '' @ show_int 1 @ '' '' @ show_int 1 = ''f 2147483648 1 1''"
    by (simp add: show_int_def show_nat.simps digit_char_def; code_simp)
  have h: "int_max < 2147483648" "int (length ([] :: vector3D list)) < int_max"
    by (simp_all add: int_max_def)
  from face_index_overflow [OF h, of 1 1 "[]"] show ?thesis
    unfolding l by (simp add: int_max_def)
qed

end
