(* ===== verification/Clipper.thy ===== *)
theory Clipper
  imports Mesh
begin

text \<open>
  The plane clipper of \<open>src/VectorMatrix.h\<close>: \<open>vectorIntersectsPlane\<close>
  (lines 288--299) and \<open>Triangle_ClipAgainstPlane\<close> (lines 301--406). The C++ returns
  the number of valid output triangles and writes them to the reference parameters
  \<open>out_tri1\<close>, \<open>out_tri2\<close>; the model returns the list of valid triangles, whose
  length is that number. The arrays \<open>inside_points\<close> and \<open>outside_points\<close> of
  pointers into \<open>in_tri\<close> are the lists built by \<open>classify\<close>, in the order of the
  three tests of the source. \<open>vectorIntersectsPlane\<close> takes \<open>plane_n\<close> by reference
  and writes back its normalisation; the caller passes the already normalised normal, and
  normalisation is idempotent (\<open>vNormalise_idem\<close>), so the write-back changes nothing
  and the model returns only the intersection point. The C++ function has no return
  for an inside count outside the four handled cases; \<open>classify_partition\<close> shows
  the case is unreachable, and the model returns no triangle there.
\<close>

text \<open>The signed distance of the lambda \<open>dist\<close> (lines 308--311), for the already
  normalised \<open>plane_n\<close>.\<close>

definition plane_dist :: "vector3D \<Rightarrow> vector3D \<Rightarrow> vector3D \<Rightarrow> float" where
  "plane_dist plane_n plane_p p =
     x plane_n * x p + y plane_n * y p + z plane_n * z p - vDotProduct plane_n plane_p"

definition vectorIntersectsPlane ::
  "vector3D \<Rightarrow> vector3D \<Rightarrow> vector3D \<Rightarrow> vector3D \<Rightarrow> vector3D" where
  "vectorIntersectsPlane plane_p plane_n lineStart lineEnd =
     (let plane_n = vNormalise plane_n;
          plane_d = - vDotProduct plane_n plane_p;
          ad = vDotProduct lineStart plane_n;
          bd = vDotProduct lineEnd plane_n;
          t = (- plane_d - ad) / (bd - ad);
          lineStartToEnd = vSub lineEnd lineStart;
          lineToIntersect = vMul lineStartToEnd t
      in vAdd lineStart lineToIntersect)"

text \<open>Lines 313--338: each vertex, in order, goes to the inside points when its signed
  distance is non-negative and to the outside points otherwise.\<close>

definition classify ::
  "(vector3D \<Rightarrow> float) \<Rightarrow> vector3D list \<Rightarrow> vector3D list \<times> vector3D list" where
  "classify signed_dist ps =
     foldl (\<lambda>(inside, outside) p.
              if 0 \<le> signed_dist p then (inside @ [p], outside) else (inside, outside @ [p]))
       ([], []) ps"

definition Triangle_ClipAgainstPlane :: "vector3D \<Rightarrow> vector3D \<Rightarrow> triangle \<Rightarrow> triangle list" where
  "Triangle_ClipAgainstPlane plane_p plane_n in_tri =
     (let plane_n = vNormalise plane_n;
          (inside_points, outside_points) =
            classify (plane_dist plane_n plane_p) [p0 in_tri, p1 in_tri, p2 in_tri];
          nInsidePointCount = length inside_points;
          nOutsidePointCount = length outside_points
      in if nInsidePointCount = 0 then []
         else if nInsidePointCount = 3 then [in_tri]
         else if nInsidePointCount = 1 \<and> nOutsidePointCount = 2 then
           [\<lparr>p0 = inside_points ! 0,
             p1 = vectorIntersectsPlane plane_p plane_n (inside_points ! 0) (outside_points ! 0),
             p2 = vectorIntersectsPlane plane_p plane_n (inside_points ! 0) (outside_points ! 1),
             clr = clr in_tri\<rparr>]
         else if nInsidePointCount = 2 \<and> nOutsidePointCount = 1 then
           (let out_tri1 =
              \<lparr>p0 = inside_points ! 0,
               p1 = inside_points ! 1,
               p2 = vectorIntersectsPlane plane_p plane_n (inside_points ! 0) (outside_points ! 0),
               clr = clr in_tri\<rparr>;
                out_tri2 =
              \<lparr>p0 = inside_points ! 1,
               p1 = p2 out_tri1,
               p2 = vectorIntersectsPlane plane_p plane_n (inside_points ! 1) (outside_points ! 0),
               clr = clr in_tri\<rparr>
            in [out_tri1, out_tri2])
         else [])"

text \<open>The closed half-space \<open>{v. c \<le> k \<cdot> v}\<close>, to state what clipping keeps.\<close>

definition in_halfspace :: "vector3D \<Rightarrow> float \<Rightarrow> vector3D \<Rightarrow> bool" where
  "in_halfspace k c v \<longleftrightarrow> c \<le> vDotProduct k v"

text \<open>The parameter along the edge from \<open>a\<close> to \<open>b\<close> at which the plane is met.\<close>

definition intersect_param :: "vector3D \<Rightarrow> vector3D \<Rightarrow> vector3D \<Rightarrow> vector3D \<Rightarrow> float" where
  "intersect_param n pp a b = plane_dist n pp a / (plane_dist n pp a - plane_dist n pp b)"

text \<open>The normal and the area of a triangle, to state what the two-inside case covers.\<close>

definition tri_normal :: "triangle \<Rightarrow> vector3D" where
  "tri_normal t = vCrossProduct (vSub (p1 t) (p0 t)) (vSub (p2 t) (p0 t))"

definition tri_area :: "triangle \<Rightarrow> float" where
  "tri_area t = vLength (tri_normal t) / 2"

subsection \<open>Classification and intersection\<close>

lemma classify_foldl:
  "foldl (\<lambda>(inside, outside) p.
            if 0 \<le> d p then (inside @ [p], outside) else (inside, outside @ [p])) (ins0, outs0) ps
   = (ins0 @ filter (\<lambda>p. 0 \<le> d p) ps, outs0 @ filter (\<lambda>p. \<not> 0 \<le> d p) ps)"
  by (induction ps arbitrary: ins0 outs0) auto

lemma classify_eq:
  "classify d ps = (filter (\<lambda>p. 0 \<le> d p) ps, filter (\<lambda>p. \<not> 0 \<le> d p) ps)"
  by (simp add: classify_def classify_foldl)

lemma classify_partition:
  "classify d ps = (ins, outs) \<Longrightarrow> length ins + length outs = length ps"
  by (auto simp: classify_eq sum_length_filter_compl)

lemma plane_dist_eq: "plane_dist n pp v = vDotProduct n v - vDotProduct n pp"
  by (simp add: plane_dist_def vDotProduct_def)

lemma vectorIntersectsPlane_param:
  assumes "vNormalise n = n"
  shows "vectorIntersectsPlane pp n a b = vAdd a (vMul (vSub b a) (intersect_param n pp a b))"
proof -
  have "(- (- vDotProduct n pp) - vDotProduct a n) / (vDotProduct b n - vDotProduct a n)
        = intersect_param n pp a b"
  proof (cases "vDotProduct b n = vDotProduct a n")
    case True
    then show ?thesis by (simp add: intersect_param_def plane_dist_eq vDotProduct_commute)
  next
    case False
    then have "vDotProduct n a - vDotProduct n b \<noteq> 0" by (simp add: vDotProduct_commute)
    with False show ?thesis
      by (simp add: intersect_param_def plane_dist_eq vDotProduct_commute field_simps)
  qed
  then show ?thesis
    using assms by (simp add: vectorIntersectsPlane_def Let_def)
qed

lemma intersect_param_bounds:
  assumes "0 \<le> plane_dist n pp a" "plane_dist n pp b < 0"
  shows "0 \<le> intersect_param n pp a b \<and> intersect_param n pp a b \<le> 1"
  using assms by (simp add: intersect_param_def divide_le_eq_1)

lemma halfspace_segment:
  assumes "in_halfspace k c a" "in_halfspace k c b" "0 \<le> t" "t \<le> 1"
  shows "in_halfspace k c (vAdd a (vMul (vSub b a) t))"
proof -
  have eq: "vDotProduct k (vAdd a (vMul (vSub b a) t)) - c
        = (1 - t) * (vDotProduct k a - c) + t * (vDotProduct k b - c)"
    by (simp add: geom_simps algebra_simps)
  have "0 \<le> (1 - t) * (vDotProduct k a - c)" "0 \<le> t * (vDotProduct k b - c)"
    using assms by (simp_all add: in_halfspace_def)
  then show ?thesis using eq by (simp add: in_halfspace_def)
qed

lemma intersect_on_plane:
  assumes "vNormalise n = n" "plane_dist n pp a \<noteq> plane_dist n pp b"
  shows "plane_dist n pp (vectorIntersectsPlane pp n a b) = 0"
proof -
  let ?t = "intersect_param n pp a b"
  have "plane_dist n pp (vAdd a (vMul (vSub b a) ?t))
        = plane_dist n pp a + ?t * (plane_dist n pp b - plane_dist n pp a)"
    by (simp add: plane_dist_def geom_simps algebra_simps)
  also have "\<dots> = 0"
    using assms(2) by (simp add: intersect_param_def field_simps)
  finally show ?thesis by (simp add: vectorIntersectsPlane_param [OF assms(1)])
qed


lemma intersect_dist_zero:
  assumes "0 \<le> plane_dist (vNormalise n) pp a" "plane_dist (vNormalise n) pp b < 0"
  shows "plane_dist (vNormalise n) pp (vectorIntersectsPlane pp (vNormalise n) a b) = 0"
  using assms by (intro intersect_on_plane) (simp_all add: vNormalise_idem)

lemma intersect_halfspace:
  assumes "0 \<le> plane_dist (vNormalise n) pp a" "plane_dist (vNormalise n) pp b < 0"
    "in_halfspace k c a" "in_halfspace k c b"
  shows "in_halfspace k c (vectorIntersectsPlane pp (vNormalise n) a b)"
  unfolding vectorIntersectsPlane_param [OF vNormalise_idem]
  using assms intersect_param_bounds [OF assms(1,2)] by (simp add: halfspace_segment)

text \<open>Every vertex of an output triangle is an inside vertex of the input or the
  intersection of the plane with an edge from an inside to an outside vertex of the input;
  so a property that holds of both kinds of point holds of every output vertex.\<close>

lemma clip_preserves:
  assumes inside: "\<And>u. u \<in> set (tri_verts tri) \<Longrightarrow> 0 \<le> plane_dist (vNormalise n) pp u \<Longrightarrow> P u"
    and step: "\<And>a b. a \<in> set (tri_verts tri) \<Longrightarrow> b \<in> set (tri_verts tri) \<Longrightarrow>
       0 \<le> plane_dist (vNormalise n) pp a \<Longrightarrow> plane_dist (vNormalise n) pp b < 0 \<Longrightarrow>
       P (vectorIntersectsPlane pp (vNormalise n) a b)"
    and "T \<in> set (Triangle_ClipAgainstPlane pp n tri)" "v \<in> set (tri_verts T)"
  shows "P v"
  using assms(3,4) inside [of "p0 tri"] inside [of "p1 tri"] inside [of "p2 tri"]
    step [of "p0 tri" "p1 tri"] step [of "p0 tri" "p2 tri"] step [of "p1 tri" "p0 tri"]
    step [of "p1 tri" "p2 tri"] step [of "p2 tri" "p0 tri"] step [of "p2 tri" "p1 tri"]
  by (cases "0 \<le> plane_dist (vNormalise n) pp (p0 tri)";
      cases "0 \<le> plane_dist (vNormalise n) pp (p1 tri)";
      cases "0 \<le> plane_dist (vNormalise n) pp (p2 tri)";
      auto simp add: Triangle_ClipAgainstPlane_def classify_eq Let_def tri_verts_def)

lemma clip_vertex_inside:
  assumes "T \<in> set (Triangle_ClipAgainstPlane pp n tri)" "v \<in> set (tri_verts T)"
  shows "0 \<le> plane_dist (vNormalise n) pp v"
  using _ _ assms by (rule clip_preserves) (simp_all add: intersect_dist_zero)

lemma clip_halfspace:
  assumes "\<forall>u \<in> set (tri_verts tri). in_halfspace k c u"
    "T \<in> set (Triangle_ClipAgainstPlane pp n tri)" "v \<in> set (tri_verts T)"
  shows "in_halfspace k c v"
  using _ _ assms(2,3) by (rule clip_preserves) (simp_all add: assms(1) intersect_halfspace)

lemma clip_color:
  "T \<in> set (Triangle_ClipAgainstPlane pp n tri) \<Longrightarrow> clr T = clr tri"
  by (cases "0 \<le> plane_dist (vNormalise n) pp (p0 tri)";
      cases "0 \<le> plane_dist (vNormalise n) pp (p1 tri)";
      cases "0 \<le> plane_dist (vNormalise n) pp (p2 tri)";
      auto simp add: Triangle_ClipAgainstPlane_def classify_eq tri_verts_def Let_def)

lemma near_normal: "vNormalise (vec3 0 0 1) = vec3 0 0 1"
  by (rule vNormalise_unit) (simp add: geom_simps)

lemma clip_all_inside:
  "\<forall>v \<in> set (tri_verts tri). 0 \<le> plane_dist (vNormalise n) pp v \<Longrightarrow>
     Triangle_ClipAgainstPlane pp n tri = [tri]"
  by (simp add: Triangle_ClipAgainstPlane_def classify_eq tri_verts_def Let_def)

lemma clip_all_outside:
  "\<forall>v \<in> set (tri_verts tri). plane_dist (vNormalise n) pp v < 0 \<Longrightarrow>
     Triangle_ClipAgainstPlane pp n tri = []"
  by (simp add: Triangle_ClipAgainstPlane_def classify_eq tri_verts_def Let_def)

lemma clip_length_le_2: "length (Triangle_ClipAgainstPlane pp n tri) \<le> 2"
  by (cases "0 \<le> plane_dist (vNormalise n) pp (p0 tri)";
      cases "0 \<le> plane_dist (vNormalise n) pp (p1 tri)";
      cases "0 \<le> plane_dist (vNormalise n) pp (p2 tri)";
      simp add: Triangle_ClipAgainstPlane_def classify_eq tri_verts_def Let_def)

subsection \<open>Areas of the clipped pieces\<close>

lemma tri_normal_scaled:
  "vLength (tri_normal \<lparr>p0 = a, p1 = b, p2 = vAdd a (vMul (vSub c a) s), clr = k\<rparr>) =
     \<bar>s\<bar> * vLength (tri_normal \<lparr>p0 = a, p1 = b, p2 = c, clr = k\<rparr>)"
proof -
  have "vLength (tri_normal \<lparr>p0 = a, p1 = b, p2 = vAdd a (vMul (vSub c a) s), clr = k\<rparr>) =
        vLength (vMul (tri_normal \<lparr>p0 = a, p1 = b, p2 = c, clr = k\<rparr>) s)"
    by (rule vLength_xyz_cong) (simp_all add: tri_normal_def geom_simps algebra_simps)
  then show ?thesis by (simp add: vLength_vMul)
qed

lemma tri_normal_second:
  "vLength (tri_normal \<lparr>p0 = b, p1 = vAdd a (vMul (vSub c a) s), p2 = vAdd b (vMul (vSub c b) t),
      clr = k\<rparr>) = \<bar>t * (1 - s)\<bar> * vLength (tri_normal \<lparr>p0 = a, p1 = b, p2 = c, clr = k\<rparr>)"
proof -
  have "vLength (tri_normal \<lparr>p0 = b, p1 = vAdd a (vMul (vSub c a) s),
          p2 = vAdd b (vMul (vSub c b) t), clr = k\<rparr>) =
        vLength (vMul (tri_normal \<lparr>p0 = a, p1 = b, p2 = c, clr = k\<rparr>) (- (t * (1 - s))))"
    by (rule vLength_xyz_cong) (simp_all add: tri_normal_def geom_simps algebra_simps)
  then show ?thesis by (simp add: vLength_vMul)
qed

lemma tri_normal_cut:
  "vLength (tri_normal \<lparr>p0 = vAdd a (vMul (vSub c a) s), p1 = vAdd b (vMul (vSub c b) t), p2 = c,
      clr = k\<rparr>) = \<bar>(1 - s) * (1 - t)\<bar> * vLength (tri_normal \<lparr>p0 = a, p1 = b, p2 = c, clr = k\<rparr>)"
proof -
  have "vLength (tri_normal \<lparr>p0 = vAdd a (vMul (vSub c a) s), p1 = vAdd b (vMul (vSub c b) t),
          p2 = c, clr = k\<rparr>) =
        vLength (vMul (tri_normal \<lparr>p0 = a, p1 = b, p2 = c, clr = k\<rparr>) ((1 - s) * (1 - t)))"
    by (rule vLength_xyz_cong) (simp_all add: tri_normal_def geom_simps algebra_simps)
  then show ?thesis by (simp add: vLength_vMul)
qed

lemma tri_area_rotate:
  "tri_area \<lparr>p0 = b, p1 = c, p2 = a, clr = k\<rparr> = tri_area \<lparr>p0 = a, p1 = b, p2 = c, clr = k'\<rparr>"
  unfolding tri_area_def
  by (subst vLength_xyz_cong [of _ "tri_normal \<lparr>p0 = a, p1 = b, p2 = c, clr = k'\<rparr>"])
     (simp_all add: tri_normal_def geom_simps algebra_simps)

lemma tri_area_swap:
  "tri_area \<lparr>p0 = a, p1 = c, p2 = b, clr = k\<rparr> = tri_area \<lparr>p0 = a, p1 = b, p2 = c, clr = k'\<rparr>"
proof -
  have "vLength (tri_normal \<lparr>p0 = a, p1 = c, p2 = b, clr = k\<rparr>) =
        vLength (vMul (tri_normal \<lparr>p0 = a, p1 = b, p2 = c, clr = k'\<rparr>) (-1))"
    by (rule vLength_xyz_cong) (simp_all add: tri_normal_def geom_simps algebra_simps)
  then show ?thesis by (simp add: tri_area_def vLength_vMul)
qed

lemma two_inside_area_core:
  assumes "0 \<le> plane_dist (vNormalise n) pp a" "0 \<le> plane_dist (vNormalise n) pp b"
    "plane_dist (vNormalise n) pp c < 0"
  defines "A \<equiv> vectorIntersectsPlane pp (vNormalise n) a c"
    and "B \<equiv> vectorIntersectsPlane pp (vNormalise n) b c"
  shows "tri_area \<lparr>p0 = a, p1 = b, p2 = A, clr = k\<rparr> + tri_area \<lparr>p0 = b, p1 = A, p2 = B, clr = k\<rparr> =
         tri_area \<lparr>p0 = a, p1 = b, p2 = c, clr = k\<rparr> - tri_area \<lparr>p0 = A, p1 = B, p2 = c, clr = k\<rparr>"
proof -
  let ?s = "intersect_param (vNormalise n) pp a c" and ?t = "intersect_param (vNormalise n) pp b c"
  let ?L = "vLength (tri_normal \<lparr>p0 = a, p1 = b, p2 = c, clr = k\<rparr>)"
  have A: "A = vAdd a (vMul (vSub c a) ?s)" and B: "B = vAdd b (vMul (vSub c b) ?t)"
    unfolding A_def B_def by (simp_all add: vectorIntersectsPlane_param vNormalise_idem)
  have s: "0 \<le> ?s" "?s \<le> 1" using intersect_param_bounds [OF assms(1,3)] by simp_all
  have t: "0 \<le> ?t" "?t \<le> 1" using intersect_param_bounds [OF assms(2,3)] by simp_all
  have e1: "vLength (tri_normal \<lparr>p0 = a, p1 = b, p2 = vAdd a (vMul (vSub c a) ?s), clr = k\<rparr>)
      = ?s * ?L"
    using tri_normal_scaled [of a b c ?s k] s by simp
  have e2: "vLength (tri_normal \<lparr>p0 = b, p1 = vAdd a (vMul (vSub c a) ?s),
      p2 = vAdd b (vMul (vSub c b) ?t), clr = k\<rparr>) = ?t * (1 - ?s) * ?L"
    using tri_normal_second [of b a c ?s ?t k] s t by simp
  have e3: "vLength (tri_normal \<lparr>p0 = vAdd a (vMul (vSub c a) ?s),
      p1 = vAdd b (vMul (vSub c b) ?t), p2 = c, clr = k\<rparr>) = (1 - ?s) * (1 - ?t) * ?L"
    using tri_normal_cut [of a c ?s b ?t k] s t by simp
  show ?thesis unfolding A B tri_area_def e1 e2 e3 by (simp add: field_simps)
qed

lemma two_inside_area_exists:
  assumes "0 \<le> plane_dist (vNormalise n) pp a" "0 \<le> plane_dist (vNormalise n) pp b"
    "plane_dist (vNormalise n) pp c < 0"
    "Triangle_ClipAgainstPlane pp n tri =
       [\<lparr>p0 = a, p1 = b, p2 = vectorIntersectsPlane pp (vNormalise n) a c, clr = clr tri\<rparr>,
        \<lparr>p0 = b, p1 = vectorIntersectsPlane pp (vNormalise n) a c,
         p2 = vectorIntersectsPlane pp (vNormalise n) b c, clr = clr tri\<rparr>]"
    "c \<in> set (tri_verts tri)" "tri_area tri = tri_area \<lparr>p0 = a, p1 = b, p2 = c, clr = clr tri\<rparr>"
  shows "\<exists>T1 T2 ov. Triangle_ClipAgainstPlane pp n tri = [T1, T2] \<and> ov \<in> set (tri_verts tri) \<and>
           plane_dist (vNormalise n) pp ov < 0 \<and>
           tri_area T1 + tri_area T2 =
             tri_area tri - tri_area \<lparr>p0 = p2 T1, p1 = p2 T2, p2 = ov, clr = clr tri\<rparr>"
  using assms two_inside_area_core [OF assms(1-3), of "clr tri"] by auto

subsection \<open>Winding of the one-inside case\<close>

lemma tri_normal_fan:
  "vDotProduct (tri_normal \<lparr>p0 = a, p1 = vAdd a (vMul (vSub b a) s), p2 = vAdd a (vMul (vSub c a) t),
      clr = k\<rparr>) u =
   s * t * vDotProduct (tri_normal \<lparr>p0 = a, p1 = b, p2 = c, clr = k'\<rparr>) u"
  by (simp add: tri_normal_def geom_simps algebra_simps)

lemma tri_normal_swap01:
  "vDotProduct (tri_normal \<lparr>p0 = b, p1 = a, p2 = c, clr = k\<rparr>) u =
   - vDotProduct (tri_normal \<lparr>p0 = a, p1 = b, p2 = c, clr = k'\<rparr>) u"
  by (simp add: tri_normal_def geom_simps algebra_simps)

lemma tri_normal_rotate:
  "vDotProduct (tri_normal \<lparr>p0 = c, p1 = a, p2 = b, clr = k\<rparr>) u =
   vDotProduct (tri_normal \<lparr>p0 = a, p1 = b, p2 = c, clr = k'\<rparr>) u"
  by (simp add: tri_normal_def geom_simps algebra_simps)

lemma intersect_param_pos:
  "0 < plane_dist n pp a \<Longrightarrow> plane_dist n pp b < 0 \<Longrightarrow> 0 < intersect_param n pp a b"
  by (simp add: intersect_param_def)

lemma clip_one_inside_fan:
  assumes "0 < plane_dist (vNormalise n) pp a" "plane_dist (vNormalise n) pp b < 0"
    "plane_dist (vNormalise n) pp c < 0"
  shows "\<exists>k. 0 < k \<and> (\<forall>u. vDotProduct (tri_normal
      \<lparr>p0 = a, p1 = vectorIntersectsPlane pp (vNormalise n) a b,
       p2 = vectorIntersectsPlane pp (vNormalise n) a c, clr = q\<rparr>) u =
     k * vDotProduct (tri_normal \<lparr>p0 = a, p1 = b, p2 = c, clr = q\<rparr>) u)"
proof -
  let ?s = "intersect_param (vNormalise n) pp a b" and ?t = "intersect_param (vNormalise n) pp a c"
  have "0 < ?s * ?t" using assms by (simp add: intersect_param_pos)
  then show ?thesis
    by (intro exI [of _ "?s * ?t"])
      (simp add: vectorIntersectsPlane_param vNormalise_idem tri_normal_fan [where k' = q])
qed

subsection \<open>Properties\<close>

text \<open>C1: every vertex of every triangle the clipper returns lies in the closed half-space
  of the plane (signed distance at least 0), and in every closed half-space that contains
  the three vertices of the input triangle: the output lies in the part of the input on
  the inner side of the plane.\<close>

theorem clip_output_contained:
  assumes "T \<in> set (Triangle_ClipAgainstPlane pp n tri)" "v \<in> set (tri_verts T)"
  shows "0 \<le> plane_dist (vNormalise n) pp v \<and>
         (\<forall>k c. (\<forall>u \<in> set (tri_verts tri). in_halfspace k c u) \<longrightarrow> in_halfspace k c v)"
  using clip_vertex_inside [OF assms] clip_halfspace [OF _ assms] by blast

text \<open>C2: the number of triangles the clipper returns is 0 when no vertex is inside, 2 when
  two are inside, and 1 when one or three are inside.\<close>

theorem clip_count:
  "length (Triangle_ClipAgainstPlane pp n tri) =
     (let k = length (filter (\<lambda>v. 0 \<le> plane_dist (vNormalise n) pp v) (tri_verts tri))
      in if k = 0 then 0 else if k = 2 then 2 else 1)"
  by (cases "0 \<le> plane_dist (vNormalise n) pp (p0 tri)";
      cases "0 \<le> plane_dist (vNormalise n) pp (p1 tri)";
      cases "0 \<le> plane_dist (vNormalise n) pp (p2 tri)";
      simp add: Triangle_ClipAgainstPlane_def classify_eq tri_verts_def Let_def)

text \<open>C3: a triangle with all three vertices inside is returned unchanged as the only
  output, and a triangle with all three vertices outside yields no triangle.\<close>

theorem clip_fully_inside_outside:
  "((\<forall>v \<in> set (tri_verts tri). 0 \<le> plane_dist (vNormalise n) pp v) \<longrightarrow>
      Triangle_ClipAgainstPlane pp n tri = [tri]) \<and>
   ((\<forall>v \<in> set (tri_verts tri). plane_dist (vNormalise n) pp v < 0) \<longrightarrow>
      Triangle_ClipAgainstPlane pp n tri = [])"
  by (simp add: clip_all_inside clip_all_outside)

text \<open>C4: a triangle with exactly one vertex inside yields one triangle of the input's
  colour, made of that vertex and two new vertices at signed distance 0 from the plane.\<close>

theorem clip_one_inside:
  assumes "length (filter (\<lambda>v. 0 \<le> plane_dist (vNormalise n) pp v) (tri_verts tri)) = 1"
  shows "\<exists>T. Triangle_ClipAgainstPlane pp n tri = [T] \<and> clr T = clr tri \<and>
           p0 T \<in> set (tri_verts tri) \<and> 0 \<le> plane_dist (vNormalise n) pp (p0 T) \<and>
           plane_dist (vNormalise n) pp (p1 T) = 0 \<and> plane_dist (vNormalise n) pp (p2 T) = 0"
  using assms
  by (cases "0 \<le> plane_dist (vNormalise n) pp (p0 tri)";
      cases "0 \<le> plane_dist (vNormalise n) pp (p1 tri)";
      cases "0 \<le> plane_dist (vNormalise n) pp (p2 tri)";
      simp add: Triangle_ClipAgainstPlane_def classify_eq tri_verts_def Let_def
        intersect_dist_zero)

text \<open>C5: a triangle with exactly two vertices inside yields two triangles of the input's
  colour: the first keeps both inside vertices and adds a new vertex on the plane; the
  second shares the second inside vertex and that new vertex and adds another new vertex
  on the plane.\<close>

theorem clip_two_inside:
  assumes "length (filter (\<lambda>v. 0 \<le> plane_dist (vNormalise n) pp v) (tri_verts tri)) = 2"
  shows "\<exists>T1 T2. Triangle_ClipAgainstPlane pp n tri = [T1, T2] \<and>
           clr T1 = clr tri \<and> clr T2 = clr tri \<and>
           p0 T1 \<in> set (tri_verts tri) \<and> p1 T1 \<in> set (tri_verts tri) \<and> p0 T2 = p1 T1 \<and>
           p1 T2 = p2 T1 \<and>
           plane_dist (vNormalise n) pp (p2 T1) = 0 \<and> plane_dist (vNormalise n) pp (p2 T2) = 0"
  using assms
  by (cases "0 \<le> plane_dist (vNormalise n) pp (p0 tri)";
      cases "0 \<le> plane_dist (vNormalise n) pp (p1 tri)";
      cases "0 \<le> plane_dist (vNormalise n) pp (p2 tri)";
      simp add: Triangle_ClipAgainstPlane_def classify_eq tri_verts_def Let_def
        intersect_dist_zero)

text \<open>C6: with exactly one vertex strictly inside and the other two strictly outside, the
  clipper returns one triangle whose normal is a positive multiple of the input's normal,
  except when the inside vertex is the second one: then it is a negative multiple, and the
  winding of the clipped triangle is reversed.\<close>

theorem clip_one_inside_winding:
  assumes "length (filter (\<lambda>v. 0 \<le> plane_dist (vNormalise n) pp v) (tri_verts tri)) = 1"
    and "\<forall>v \<in> set (tri_verts tri). plane_dist (vNormalise n) pp v \<noteq> 0"
  shows "\<exists>T k. Triangle_ClipAgainstPlane pp n tri = [T] \<and> 0 < k \<and>
    (\<forall>u. vDotProduct (tri_normal T) u =
          (if 0 \<le> plane_dist (vNormalise n) pp (p1 tri) then - k else k) *
          vDotProduct (tri_normal tri) u)"
proof -
  let ?d = "plane_dist (vNormalise n) pp"
  have nz: "?d (p0 tri) \<noteq> 0" "?d (p1 tri) \<noteq> 0" "?d (p2 tri) \<noteq> 0"
    using assms(2) by (simp_all add: tri_verts_def)
  have eq: "\<lparr>p0 = p0 tri, p1 = p1 tri, p2 = p2 tri, clr = clr tri\<rparr> = tri" by simp
  consider "0 < ?d (p0 tri)" "?d (p1 tri) < 0" "?d (p2 tri) < 0"
    | "?d (p0 tri) < 0" "0 < ?d (p1 tri)" "?d (p2 tri) < 0"
    | "?d (p0 tri) < 0" "?d (p1 tri) < 0" "0 < ?d (p2 tri)"
    using assms(1) nz by (cases "0 \<le> ?d (p0 tri)"; cases "0 \<le> ?d (p1 tri)";
        cases "0 \<le> ?d (p2 tri)"; simp add: tri_verts_def)
  then show ?thesis
  proof cases
    case 1
    let ?T = "\<lparr>p0 = p0 tri, p1 = vectorIntersectsPlane pp (vNormalise n) (p0 tri) (p1 tri),
               p2 = vectorIntersectsPlane pp (vNormalise n) (p0 tri) (p2 tri), clr = clr tri\<rparr>"
    have c: "Triangle_ClipAgainstPlane pp n tri = [?T]"
      using 1 by (simp add: Triangle_ClipAgainstPlane_def classify_eq Let_def)
    obtain k where k: "0 < k" "\<forall>u. vDotProduct (tri_normal ?T) u = k * vDotProduct (tri_normal tri) u"
      using clip_one_inside_fan [of n pp "p0 tri" "p1 tri" "p2 tri" "clr tri"] 1 eq by auto
    show ?thesis
      using 1 c k by (intro exI [of _ ?T] exI [of _ k]) simp
  next
    case 2
    let ?T = "\<lparr>p0 = p1 tri, p1 = vectorIntersectsPlane pp (vNormalise n) (p1 tri) (p0 tri),
               p2 = vectorIntersectsPlane pp (vNormalise n) (p1 tri) (p2 tri), clr = clr tri\<rparr>"
    have c: "Triangle_ClipAgainstPlane pp n tri = [?T]"
      using 2 by (simp add: Triangle_ClipAgainstPlane_def classify_eq Let_def)
    obtain k where k: "0 < k" "\<forall>u. vDotProduct (tri_normal ?T) u =
        k * vDotProduct (tri_normal \<lparr>p0 = p1 tri, p1 = p0 tri, p2 = p2 tri, clr = clr tri\<rparr>) u"
      using clip_one_inside_fan [of n pp "p1 tri" "p0 tri" "p2 tri" "clr tri"] 2 by auto
    have "\<forall>u. vDotProduct (tri_normal ?T) u = - k * vDotProduct (tri_normal tri) u"
      using k(2) tri_normal_swap01 [of "p1 tri" "p0 tri" "p2 tri" "clr tri" _ "clr tri"] eq by simp
    with 2 c k(1) show ?thesis
      by (intro exI [of _ ?T] exI [of _ k]) simp
  next
    case 3
    let ?T = "\<lparr>p0 = p2 tri, p1 = vectorIntersectsPlane pp (vNormalise n) (p2 tri) (p0 tri),
               p2 = vectorIntersectsPlane pp (vNormalise n) (p2 tri) (p1 tri), clr = clr tri\<rparr>"
    have c: "Triangle_ClipAgainstPlane pp n tri = [?T]"
      using 3 by (simp add: Triangle_ClipAgainstPlane_def classify_eq Let_def)
    obtain k where k: "0 < k" "\<forall>u. vDotProduct (tri_normal ?T) u =
        k * vDotProduct (tri_normal \<lparr>p0 = p2 tri, p1 = p0 tri, p2 = p1 tri, clr = clr tri\<rparr>) u"
      using clip_one_inside_fan [of n pp "p2 tri" "p0 tri" "p1 tri" "clr tri"] 3 by auto
    have "\<forall>u. vDotProduct (tri_normal ?T) u = k * vDotProduct (tri_normal tri) u"
      using k(2) tri_normal_rotate [of "p2 tri" "p0 tri" "p1 tri" "clr tri" _ "clr tri"] eq by simp
    with 3 c k(1) show ?thesis
      by (intro exI [of _ ?T] exI [of _ k]) simp
  qed
qed

text \<open>C36: in the two-inside case the two emitted triangles cover exactly the part of the
  input on the inner side of the plane: their areas add up to the area of the input minus
  the area of the cut-off triangle formed by the two new vertices and the outside vertex.\<close>

theorem clip_two_inside_area:
  assumes "length (filter (\<lambda>v. 0 \<le> plane_dist (vNormalise n) pp v) (tri_verts tri)) = 2"
  shows "\<exists>T1 T2 ov. Triangle_ClipAgainstPlane pp n tri = [T1, T2] \<and> ov \<in> set (tri_verts tri) \<and>
           plane_dist (vNormalise n) pp ov < 0 \<and>
           tri_area T1 + tri_area T2 =
             tri_area tri - tri_area \<lparr>p0 = p2 T1, p1 = p2 T2, p2 = ov, clr = clr tri\<rparr>"
proof -
  let ?d = "plane_dist (vNormalise n) pp"
  have eq: "\<lparr>p0 = p0 tri, p1 = p1 tri, p2 = p2 tri, clr = clr tri\<rparr> = tri" by simp
  consider "0 \<le> ?d (p0 tri)" "0 \<le> ?d (p1 tri)" "?d (p2 tri) < 0"
    | "0 \<le> ?d (p0 tri)" "?d (p1 tri) < 0" "0 \<le> ?d (p2 tri)"
    | "?d (p0 tri) < 0" "0 \<le> ?d (p1 tri)" "0 \<le> ?d (p2 tri)"
    using assms by (cases "0 \<le> ?d (p0 tri)"; cases "0 \<le> ?d (p1 tri)";
        cases "0 \<le> ?d (p2 tri)"; simp add: tri_verts_def)
  then show ?thesis
  proof cases
    case 1
    from 1 show ?thesis
      by (intro two_inside_area_exists [where a = "p0 tri" and b = "p1 tri" and c = "p2 tri"])
         (simp_all add: Triangle_ClipAgainstPlane_def classify_eq tri_verts_def Let_def eq)
  next
    case 2
    then show ?thesis
      by (intro two_inside_area_exists [where a = "p0 tri" and b = "p2 tri" and c = "p1 tri"])
         (simp_all add: Triangle_ClipAgainstPlane_def classify_eq tri_verts_def Let_def
           tri_area_swap [where a = "p0 tri" and b = "p1 tri" and c = "p2 tri" and k = "clr tri"
             and k' = "clr tri"] eq)
  next
    case 3
    then show ?thesis
      by (intro two_inside_area_exists [where a = "p1 tri" and b = "p2 tri" and c = "p0 tri"])
         (simp_all add: Triangle_ClipAgainstPlane_def classify_eq tri_verts_def Let_def
           tri_area_rotate [where a = "p0 tri" and b = "p1 tri" and c = "p2 tri" and k = "clr tri"
             and k' = "clr tri"] eq)
  qed
qed

subsection \<open>Witnesses\<close>

text \<open>The plane \<open>z = 0\<close> with normal \<open>+z\<close>, and triangles with three, one and two
  vertices above it.\<close>

theorem clip_output_contained_witness:
  "0 \<le> plane_dist (vNormalise (vec3 0 0 1)) (vec3 0 0 0) (vec3 0 0 1) \<and>
   in_halfspace (vec3 0 0 1) 1 (vec3 0 0 1)"
proof -
  have h: "\<lparr>p0 = vec3 0 0 1, p1 = vec3 1 0 1, p2 = vec3 0 1 1, clr = color_default\<rparr> \<in> set (Triangle_ClipAgainstPlane (vec3 0 0 0) (vec3 0 0 1) \<lparr>p0 = vec3 0 0 1, p1 = vec3 1 0 1, p2 = vec3 0 1 1, clr = color_default\<rparr>)"
      "vec3 0 0 1 \<in> set (tri_verts \<lparr>p0 = vec3 0 0 1, p1 = vec3 1 0 1, p2 = vec3 0 1 1, clr = color_default\<rparr>)"
    unfolding Triangle_ClipAgainstPlane_def classify_eq near_normal
    by (simp_all add: plane_dist_def tri_verts_def geom_simps Let_def)
  have "\<forall>u \<in> set (tri_verts \<lparr>p0 = vec3 0 0 1, p1 = vec3 1 0 1, p2 = vec3 0 1 1, clr = color_default\<rparr>). in_halfspace (vec3 0 0 1) 1 u"
    by (simp add: tri_verts_def in_halfspace_def geom_simps)
  then show ?thesis using clip_output_contained [OF h] by blast
qed

theorem clip_fully_inside_outside_witness:
  "Triangle_ClipAgainstPlane (vec3 0 0 0) (vec3 0 0 1) \<lparr>p0 = vec3 0 0 1, p1 = vec3 1 0 1, p2 = vec3 0 1 1, clr = color_default\<rparr> = [\<lparr>p0 = vec3 0 0 1, p1 = vec3 1 0 1, p2 = vec3 0 1 1, clr = color_default\<rparr>]"
proof -
  have h: "\<forall>v \<in> set (tri_verts \<lparr>p0 = vec3 0 0 1, p1 = vec3 1 0 1, p2 = vec3 0 1 1, clr = color_default\<rparr>). 0 \<le> plane_dist (vNormalise (vec3 0 0 1)) (vec3 0 0 0) v"
    unfolding near_normal by (simp add: tri_verts_def plane_dist_def geom_simps)
  show ?thesis
    using h clip_fully_inside_outside [where tri = "\<lparr>p0 = vec3 0 0 1, p1 = vec3 1 0 1, p2 = vec3 0 1 1, clr = color_default\<rparr>" and n = "vec3 0 0 1" and pp = "vec3 0 0 0"]
    by blast
qed

theorem clip_one_inside_witness:
  "length (filter (\<lambda>v. 0 \<le> plane_dist (vNormalise (vec3 0 0 1)) (vec3 0 0 0) v) (tri_verts \<lparr>p0 = vec3 0 0 (-1), p1 = vec3 1 0 1, p2 = vec3 0 1 (-1), clr = color_default\<rparr>)) = 1 \<and>
   (\<exists>T. Triangle_ClipAgainstPlane (vec3 0 0 0) (vec3 0 0 1) \<lparr>p0 = vec3 0 0 (-1), p1 = vec3 1 0 1, p2 = vec3 0 1 (-1), clr = color_default\<rparr> = [T] \<and> clr T = clr \<lparr>p0 = vec3 0 0 (-1), p1 = vec3 1 0 1, p2 = vec3 0 1 (-1), clr = color_default\<rparr> \<and>
      p0 T \<in> set (tri_verts \<lparr>p0 = vec3 0 0 (-1), p1 = vec3 1 0 1, p2 = vec3 0 1 (-1), clr = color_default\<rparr>) \<and> 0 \<le> plane_dist (vNormalise (vec3 0 0 1)) (vec3 0 0 0) (p0 T) \<and>
      plane_dist (vNormalise (vec3 0 0 1)) (vec3 0 0 0) (p1 T) = 0 \<and>
      plane_dist (vNormalise (vec3 0 0 1)) (vec3 0 0 0) (p2 T) = 0)"
proof -
  have h: "length (filter (\<lambda>v. 0 \<le> plane_dist (vNormalise (vec3 0 0 1)) (vec3 0 0 0) v)
      (tri_verts \<lparr>p0 = vec3 0 0 (-1), p1 = vec3 1 0 1, p2 = vec3 0 1 (-1), clr = color_default\<rparr>)) = 1"
    unfolding near_normal by (simp add: tri_verts_def plane_dist_def geom_simps)
  show ?thesis using h clip_one_inside [OF h] by blast
qed

theorem clip_two_inside_witness:
  "length (filter (\<lambda>v. 0 \<le> plane_dist (vNormalise (vec3 0 0 1)) (vec3 0 0 0) v) (tri_verts \<lparr>p0 = vec3 0 0 1, p1 = vec3 1 0 1, p2 = vec3 0 1 (-1), clr = color_default\<rparr>)) = 2 \<and>
   (\<exists>T1 T2. Triangle_ClipAgainstPlane (vec3 0 0 0) (vec3 0 0 1) \<lparr>p0 = vec3 0 0 1, p1 = vec3 1 0 1, p2 = vec3 0 1 (-1), clr = color_default\<rparr> = [T1, T2] \<and>
      clr T1 = clr \<lparr>p0 = vec3 0 0 1, p1 = vec3 1 0 1, p2 = vec3 0 1 (-1), clr = color_default\<rparr> \<and> clr T2 = clr \<lparr>p0 = vec3 0 0 1, p1 = vec3 1 0 1, p2 = vec3 0 1 (-1), clr = color_default\<rparr> \<and>
      p0 T1 \<in> set (tri_verts \<lparr>p0 = vec3 0 0 1, p1 = vec3 1 0 1, p2 = vec3 0 1 (-1), clr = color_default\<rparr>) \<and> p1 T1 \<in> set (tri_verts \<lparr>p0 = vec3 0 0 1, p1 = vec3 1 0 1, p2 = vec3 0 1 (-1), clr = color_default\<rparr>) \<and> p0 T2 = p1 T1 \<and>
      p1 T2 = p2 T1 \<and>
      plane_dist (vNormalise (vec3 0 0 1)) (vec3 0 0 0) (p2 T1) = 0 \<and>
      plane_dist (vNormalise (vec3 0 0 1)) (vec3 0 0 0) (p2 T2) = 0)"
proof -
  have h: "length (filter (\<lambda>v. 0 \<le> plane_dist (vNormalise (vec3 0 0 1)) (vec3 0 0 0) v)
      (tri_verts \<lparr>p0 = vec3 0 0 1, p1 = vec3 1 0 1, p2 = vec3 0 1 (-1), clr = color_default\<rparr>)) = 2"
    unfolding near_normal by (simp add: tri_verts_def plane_dist_def geom_simps)
  show ?thesis using h clip_two_inside [OF h] by blast
qed

theorem clip_two_inside_area_witness:
  "\<exists>T1 T2 ov. Triangle_ClipAgainstPlane (vec3 0 0 0) (vec3 0 0 1) \<lparr>p0 = vec3 0 0 1, p1 = vec3 1 0 1, p2 = vec3 0 1 (-1), clr = color_default\<rparr> = [T1, T2] \<and>
     ov \<in> set (tri_verts \<lparr>p0 = vec3 0 0 1, p1 = vec3 1 0 1, p2 = vec3 0 1 (-1), clr = color_default\<rparr>) \<and> plane_dist (vNormalise (vec3 0 0 1)) (vec3 0 0 0) ov < 0 \<and>
     tri_area T1 + tri_area T2 =
       tri_area \<lparr>p0 = vec3 0 0 1, p1 = vec3 1 0 1, p2 = vec3 0 1 (-1), clr = color_default\<rparr> - tri_area \<lparr>p0 = p2 T1, p1 = p2 T2, p2 = ov, clr = clr \<lparr>p0 = vec3 0 0 1, p1 = vec3 1 0 1, p2 = vec3 0 1 (-1), clr = color_default\<rparr>\<rparr>"
proof -
  have h: "length (filter (\<lambda>v. 0 \<le> plane_dist (vNormalise (vec3 0 0 1)) (vec3 0 0 0) v)
      (tri_verts \<lparr>p0 = vec3 0 0 1, p1 = vec3 1 0 1, p2 = vec3 0 1 (-1), clr = color_default\<rparr>)) = 2"
    unfolding near_normal by (simp add: tri_verts_def plane_dist_def geom_simps)
  show ?thesis using clip_two_inside_area [OF h] .
qed

theorem clip_one_inside_winding_witness:
  "\<exists>T k. Triangle_ClipAgainstPlane (vec3 0 0 0.1) (vec3 0 0 1)
      \<lparr>p0 = vec3 0 0 (-1), p1 = vec3 1 0 1, p2 = vec3 0 1 (-1), clr = color_default\<rparr> = [T] \<and>
    0 < k \<and> (\<forall>u. vDotProduct (tri_normal T) u = - k * vDotProduct (tri_normal
      \<lparr>p0 = vec3 0 0 (-1), p1 = vec3 1 0 1, p2 = vec3 0 1 (-1), clr = color_default\<rparr>) u)"
proof -
  let ?t = "\<lparr>p0 = vec3 0 0 (-1), p1 = vec3 1 0 1, p2 = vec3 0 1 (-1), clr = color_default\<rparr>"
  have h: "length (filter (\<lambda>v. 0 \<le> plane_dist (vNormalise (vec3 0 0 1)) (vec3 0 0 0.1) v)
        (tri_verts ?t)) = 1"
    "\<forall>v \<in> set (tri_verts ?t). plane_dist (vNormalise (vec3 0 0 1)) (vec3 0 0 0.1) v \<noteq> 0"
    unfolding near_normal by (simp_all add: tri_verts_def plane_dist_def geom_simps)
  have p: "0 \<le> plane_dist (vNormalise (vec3 0 0 1)) (vec3 0 0 0.1) (p1 ?t)"
    unfolding near_normal by (simp add: plane_dist_def geom_simps)
  from clip_one_inside_winding [OF h] p show ?thesis by simp
qed

end
