(* ===== verification/Pipeline.thy ===== *)
theory Pipeline
  imports Clipper
begin

text \<open>
  The per-triangle stage of the frame loop of \<open>src/main.cpp\<close> (lines 145--230): the
  body of \<open>for (auto tri : meshObj.tris)\<close>. The matrices, the camera position and
  the viewport size that the loop reads are the record \<open>frame\<close>; the core reads them
  only. The body is split where the source's data flow splits: \<open>world_transform\<close>
  (lines 149--155), \<open>surface_normal\<close> (lines 157--165), the lighting \<open>shade\<close>
  (lines 170--191), \<open>view_and_clip\<close> (the backface test, lighting, view transform and
  near-plane clip, lines 167--201) and \<open>project_to_screen\<close> (lines 205--226);
  \<open>transform_triangle\<close> composes them and \<open>transform_mesh\<close> is the loop, which
  appends to \<open>vecTrianglesToRaster\<close>.
\<close>

record frame =
  matWorld :: mat4x4
  matView :: mat4x4
  matProj :: mat4x4
  vCamera :: vector3D
  fScreenWidth :: float
  fScreenHeight :: float

text \<open>\<open>triTransformed\<close> is a fresh triangle: only its vertices are assigned, its colour
  keeps the default.\<close>

definition world_transform :: "frame \<Rightarrow> triangle \<Rightarrow> triangle" where
  "world_transform F tri =
     \<lparr>p0 = vectorMatrixProduct (p0 tri) (matWorld F),
      p1 = vectorMatrixProduct (p1 tri) (matWorld F),
      p2 = vectorMatrixProduct (p2 tri) (matWorld F),
      clr = color_default\<rparr>"

definition surface_normal :: "triangle \<Rightarrow> vector3D" where
  "surface_normal t =
     (let line1 = vSub (p1 t) (p0 t);
          line2 = vSub (p2 t) (p0 t);
          normal = vCrossProduct line1 line2
      in vNormalise normal)"

definition light_direction :: vector3D where
  "light_direction = vNormalise (vec3 0 0.5 (-1))"

text \<open>The colour of \<open>triViewed\<close>: each channel is \<open>comp * dp\<close> converted to
  \<open>sf::Uint8\<close>, then set to 255 when \<open>comp * dp > 255\<close>; alpha is copied from the
  source triangle.\<close>

definition shade :: "float \<Rightarrow> color \<Rightarrow> color" where
  "shade dp src =
     (let iRcomp = (150 :: int); iGcomp = (0 :: int); iBcomp = (150 :: int);
          r = u8_of_float (of_int iRcomp * dp);
          g = u8_of_float (of_int iGcomp * dp);
          b = u8_of_float (of_int iBcomp * dp);
          r = (if of_int iRcomp * dp > 255 then 255 else r);
          g = (if of_int iGcomp * dp > 255 then 255 else g);
          b = (if of_int iBcomp * dp > 255 then 255 else b)
      in \<lparr>cr = r, cg = g, cb = b, ca = ca src\<rparr>)"

definition view_and_clip :: "frame \<Rightarrow> triangle \<Rightarrow> triangle list" where
  "view_and_clip F tri =
     (let triTransformed = world_transform F tri;
          normal = surface_normal triTransformed;
          vCameraRay = vSub (p0 triTransformed) (vCamera F)
      in if vDotProduct normal vCameraRay < 0 then
           (let dp = max 0.1 (vDotProduct light_direction normal);
                triViewed =
                  \<lparr>p0 = vectorMatrixProduct (p0 triTransformed) (matView F),
                   p1 = vectorMatrixProduct (p1 triTransformed) (matView F),
                   p2 = vectorMatrixProduct (p2 triTransformed) (matView F),
                   clr = shade dp (clr tri)\<rparr>
            in Triangle_ClipAgainstPlane (vec3 0 0 0.1) (vec3 0 0 1) triViewed)
         else [])"

text \<open>Projection, perspective divide (\<open>vector3D::operator/\<close> keeps \<open>w\<close>), offset
  into \<open>[0, 2]\<close> and scaling to the viewport.\<close>

definition to_viewport :: "frame \<Rightarrow> vector3D \<Rightarrow> vector3D" where
  "to_viewport F v =
     (let q = vectorMatrixProduct v (matProj F);
          q = vDiv q (w q);
          vOffsetView = vec3 1 1 0;
          q = vAdd q vOffsetView
      in q\<lparr>x := x q * (0.5 * fScreenWidth F), y := y q * (0.5 * fScreenHeight F)\<rparr>)"

definition project_to_screen :: "frame \<Rightarrow> triangle \<Rightarrow> triangle" where
  "project_to_screen F c =
     \<lparr>p0 = to_viewport F (p0 c), p1 = to_viewport F (p1 c), p2 = to_viewport F (p2 c),
      clr = clr c\<rparr>"

definition transform_triangle :: "frame \<Rightarrow> triangle \<Rightarrow> triangle list" where
  "transform_triangle F tri = map (project_to_screen F) (view_and_clip F tri)"

definition transform_mesh :: "frame \<Rightarrow> triangle list \<Rightarrow> triangle list" where
  "transform_mesh F ts = concat (map (transform_triangle F) ts)"

subsection \<open>Near clipping, lighting and culling\<close>

lemma near_plane_dist: "plane_dist (vNormalise (vec3 0 0 1)) (vec3 0 0 0.1) v = z v - 0.1"
  unfolding near_normal by (simp add: plane_dist_def geom_simps)

lemma view_and_clip_near:
  assumes "c \<in> set (view_and_clip F tri)" "v \<in> set (tri_verts c)"
  shows "0.1 \<le> z v"
proof -
  from assms(1) have "c \<in> set (Triangle_ClipAgainstPlane (vec3 0 0 0.1) (vec3 0 0 1)
      \<lparr>p0 = vectorMatrixProduct (p0 (world_transform F tri)) (matView F),
       p1 = vectorMatrixProduct (p1 (world_transform F tri)) (matView F),
       p2 = vectorMatrixProduct (p2 (world_transform F tri)) (matView F),
       clr = shade (max 0.1 (vDotProduct light_direction (surface_normal (world_transform F tri))))
               (clr tri)\<rparr>)"
    by (simp add: view_and_clip_def Let_def split: if_splits)
  from clip_vertex_inside [OF this assms(2)] show ?thesis
    by (simp add: near_plane_dist)
qed

text \<open>C12: when the projection matrix is built by \<open>mProject\<close>, every vertex that survives the near-plane clip has a homogeneous weight of at least 0.1 after projection, so the perspective divide never divides by zero.\<close>

theorem perspective_divide_safe:
  assumes "matProj F = mProject fov asp fnear ffar"
    and "c \<in> set (view_and_clip F tri)" "v \<in> set (tri_verts c)"
  shows "0.1 \<le> w (vectorMatrixProduct v (matProj F))"
  using view_and_clip_near [OF assms(2,3)] by (simp add: assms(1) mProject_w)

lemma dp_bounds:
  "0.1 \<le> max 0.1 (vDotProduct light_direction (surface_normal t)) \<and>
   max 0.1 (vDotProduct light_direction (surface_normal t)) \<le> 1"
proof -
  have "\<bar>vDotProduct light_direction (surface_normal t)\<bar> \<le> 1"
    by (rule dot_unit_bound)
       (simp_all add: light_direction_def surface_normal_def Let_def vNormalise_dot_self_le_1)
  then show ?thesis by simp
qed

lemma shade_bounds:
  assumes "0.1 \<le> dp" "dp \<le> 1"
  shows "15 \<le> unat (cr (shade dp src)) \<and> unat (cr (shade dp src)) \<le> 150 \<and>
         cg (shade dp src) = 0 \<and>
         15 \<le> unat (cb (shade dp src)) \<and> unat (cb (shade dp src)) \<le> 150 \<and>
         ca (shade dp src) = ca src"
proof -
  have lo: "15 \<le> 150 * dp" and hi: "150 * dp \<le> 150" using assms by simp_all
  then have u: "unat (u8_of_float (150 * dp)) = nat \<lfloor>150 * dp\<rfloor>"
    by (intro unat_u8_of_float) simp_all
  have "15 \<le> \<lfloor>150 * dp\<rfloor>" using lo by (simp add: le_floor_iff)
  moreover have "\<lfloor>150 * dp\<rfloor> \<le> 150" using hi by (simp add: floor_le_iff)
  ultimately have "15 \<le> nat \<lfloor>150 * dp\<rfloor> \<and> nat \<lfloor>150 * dp\<rfloor> \<le> 150" by linarith
  moreover have "u8_of_float 0 = 0" by (simp add: u8_of_float_def)
  ultimately show ?thesis using hi u by (simp add: shade_def Let_def)
qed


lemma view_and_clip_color:
  assumes "c \<in> set (view_and_clip F tri)"
  shows "clr c = shade (max 0.1 (vDotProduct light_direction (surface_normal (world_transform F tri))))
                   (clr tri)"
proof -
  from assms have "c \<in> set (Triangle_ClipAgainstPlane (vec3 0 0 0.1) (vec3 0 0 1)
      \<lparr>p0 = vectorMatrixProduct (p0 (world_transform F tri)) (matView F),
       p1 = vectorMatrixProduct (p1 (world_transform F tri)) (matView F),
       p2 = vectorMatrixProduct (p2 (world_transform F tri)) (matView F),
       clr = shade (max 0.1 (vDotProduct light_direction (surface_normal (world_transform F tri))))
               (clr tri)\<rparr>)"
    by (simp add: view_and_clip_def Let_def split: if_splits)
  from clip_color [OF this] show ?thesis by simp
qed

text \<open>C15: every emitted triangle has red and blue channels between 15 and 150, a green channel of 0, and the alpha of its source triangle; the clamps to 255 never fire.\<close>

theorem lighting_color_bounds:
  assumes "T \<in> set (transform_triangle F tri)"
  shows "15 \<le> unat (cr (clr T)) \<and> unat (cr (clr T)) \<le> 150 \<and> cg (clr T) = 0 \<and>
         15 \<le> unat (cb (clr T)) \<and> unat (cb (clr T)) \<le> 150 \<and> ca (clr T) = ca (clr tri)"
proof -
  from assms obtain c where c: "c \<in> set (view_and_clip F tri)" and T: "T = project_to_screen F c"
    by (auto simp: transform_triangle_def)
  have "clr T = clr c" by (simp add: T project_to_screen_def)
  with view_and_clip_color [OF c] dp_bounds shade_bounds show ?thesis by metis
qed

lemma view_and_clip_length: "length (view_and_clip F tri) \<le> 2"
  by (simp add: view_and_clip_def Let_def clip_length_le_2)

text \<open>The pipeline emits at most two screen triangles for each triangle of the mesh.\<close>

lemma transform_triangle_at_most_two: "length (transform_triangle F tri) \<le> 2"
  by (simp add: transform_triangle_def view_and_clip_length)

text \<open>C13: a triangle whose world-space normal does not point against the ray from the camera to its first vertex is culled: no screen triangle is emitted for it.\<close>

theorem backface_culled:
  assumes "0 \<le> vDotProduct (surface_normal (world_transform F tri))
                 (vSub (p0 (world_transform F tri)) (vCamera F))"
  shows "transform_triangle F tri = []"
  using assms by (simp add: transform_triangle_def view_and_clip_def Let_def)

lemma dot_normalise_cross_swap:
  "vDotProduct (vNormalise (vCrossProduct b a)) r = - vDotProduct (vNormalise (vCrossProduct a b)) r"
proof -
  have len: "vLength (vCrossProduct b a) = vLength (vCrossProduct a b)"
    by (simp add: vLength_def geom_simps algebra_simps)
  have "vDotProduct (vCrossProduct b a) r = - vDotProduct (vCrossProduct a b) r"
    by (simp add: geom_simps algebra_simps)
  then show ?thesis by (simp add: vNormalise_eq vDotProduct_vDiv_left len)
qed

lemma surface_normal_swap:
  "vDotProduct (surface_normal (t\<lparr>p1 := p2 t, p2 := p1 t\<rparr>)) r = - vDotProduct (surface_normal t) r"
  using dot_normalise_cross_swap [of "vSub (p1 t) (p0 t)" "vSub (p2 t) (p0 t)" r]
  by (simp add: surface_normal_def Let_def)

lemma world_transform_swap:
  "world_transform F (tri\<lparr>p1 := p2 tri, p2 := p1 tri\<rparr>) =
     (world_transform F tri)\<lparr>p1 := p2 (world_transform F tri), p2 := p1 (world_transform F tri)\<rparr>"
  by (simp add: world_transform_def)

text \<open>Of a triangle and the same triangle with its winding reversed, at most one produces screen triangles.\<close>

lemma winding_reversal_culled:
  "transform_triangle F tri = [] \<or> transform_triangle F (tri\<lparr>p1 := p2 tri, p2 := p1 tri\<rparr>) = []"
proof (cases "vDotProduct (surface_normal (world_transform F tri))
                 (vSub (p0 (world_transform F tri)) (vCamera F)) < 0")
  case True
  then have "0 \<le> vDotProduct (surface_normal (world_transform F (tri\<lparr>p1 := p2 tri, p2 := p1 tri\<rparr>)))
             (vSub (p0 (world_transform F (tri\<lparr>p1 := p2 tri, p2 := p1 tri\<rparr>))) (vCamera F))"
    by (simp add: world_transform_swap surface_normal_swap)
  then show ?thesis by (simp add: transform_triangle_def view_and_clip_def Let_def)
next
  case False
  then show ?thesis by (simp add: transform_triangle_def view_and_clip_def Let_def)
qed

end
