(* ===== verification/Camera.thy ===== *)
theory Camera
  imports Pipeline
begin

text \<open>
  The per-frame camera and window logic of \<open>src/main.cpp\<close> (lines 45--139): the
  look and strafe directions from yaw and pitch (lines 70--82), the keyboard movement
  (lines 84--113), the mouse look (lines 117--122), the view matrix (lines 124--127)
  and the window events (lines 127--138). The variables that live across iterations of
  \<open>while (window.isOpen())\<close> are the record \<open>app_state\<close>; what SFML reports
  during one iteration (pressed keys, mouse position, elapsed time, queued events) is
  the record \<open>frame_input\<close>. \<open>frame_setup\<close> is the part of one iteration that
  computes the \<open>frame\<close> the per-triangle stage reads.
\<close>

datatype key = KeyUp | KeyDown | KeyLeft | KeyRight | KeyW | KeyS | KeyA | KeyD

datatype sf_event = Closed | Resized nat nat | OtherEvent

record app_state =
  vCam :: vector3D
  fYaw :: float
  fPitch :: float
  win_open :: bool
  scrW :: float
  scrH :: float
  projM :: mat4x4

record frame_input =
  key_pressed :: "key \<Rightarrow> bool"
  mouse_x :: int
  mouse_y :: int
  elapsed :: float
  events :: "sf_event list"

text \<open>The state before the first iteration (lines 24--47): an 800 by 600 window, the
  camera at the origin looking down \<open>+z\<close>.\<close>

definition init_state :: app_state where
  "init_state =
     \<lparr>vCam = vec3 0 0 0, fYaw = 0, fPitch = 0, win_open = True, scrW = 800, scrH = 600,
      projM = mProject 90 (600 / 800) 0.1 1000\<rparr>"

text \<open>Lines 70--80: \<open>vLookDir\<close> and \<open>vOrthDir\<close> are \<open>(0, 0, 1)\<close> and
  \<open>(1, 0, 0)\<close> rotated by \<open>matCameraRotYaw * matCameraRotPitch\<close>.\<close>

definition look_vectors :: "float \<Rightarrow> float \<Rightarrow> vector3D \<times> vector3D" where
  "look_vectors yaw pitch =
     (let matCameraRot = mat_mul (mRotateY yaw) (mRotateX pitch)
      in (vectorMatrixProduct (vec3 0 0 1) matCameraRot,
          vectorMatrixProduct (vec3 1 0 0) matCameraRot))"

text \<open>Lines 84--113, in the order of the source: the arrow keys change one coordinate
  each, then W, S, A and D add or subtract \<open>vLookDir\<close> or \<open>vOrthDir\<close> scaled by
  \<open>8 * elapsed\<close>.\<close>

definition move_camera ::
  "(key \<Rightarrow> bool) \<Rightarrow> float \<Rightarrow> vector3D \<Rightarrow> vector3D \<Rightarrow> vector3D \<Rightarrow> vector3D" where
  "move_camera pressed el vLookDir vOrthDir c =
     (let c = (if pressed KeyUp then c\<lparr>y := y c + 8 * el\<rparr> else c);
          c = (if pressed KeyDown then c\<lparr>y := y c - 8 * el\<rparr> else c);
          c = (if pressed KeyLeft then c\<lparr>x := x c + 8 * el\<rparr> else c);
          c = (if pressed KeyRight then c\<lparr>x := x c - 8 * el\<rparr> else c);
          vForward = vMul vLookDir (8 * el);
          vRight = vMul vOrthDir (8 * el);
          c = (if pressed KeyW then vAdd c vForward else c);
          c = (if pressed KeyS then vSub c vForward else c);
          c = (if pressed KeyA then vAdd c vRight else c);
          c = (if pressed KeyD then vSub c vRight else c)
      in c)"

text \<open>Lines 117--122: yaw and pitch follow the mouse while it is strictly inside the
  window, and keep their values otherwise.\<close>

definition mouse_look ::
  "float \<Rightarrow> float \<Rightarrow> int \<Rightarrow> int \<Rightarrow> float \<Rightarrow> float \<Rightarrow> float \<times> float" where
  "mouse_look W H mx my yaw pitch =
     (if 0 < mx \<and> of_int mx < W \<and> 0 < my \<and> of_int my < H
      then (2 * arcsin ((of_int mx - W / 2) / (W / 2)),
            2 * arcsin ((of_int my - H / 2) / (H / 2)))
      else (yaw, pitch))"

text \<open>Lines 70--125: the target is \<open>vCamera + vLookDir\<close> with the camera position
  of the previous frame; the camera is then moved, and the view matrix is the quick
  inverse of the point-at matrix from the moved camera to that target.\<close>

definition camera_step :: "app_state \<Rightarrow> frame_input \<Rightarrow> app_state \<times> mat4x4" where
  "camera_step st inp =
     (let (vLookDir, vOrthDir) = look_vectors (fYaw st) (fPitch st);
          vTarget = vAdd (vCam st) vLookDir;
          c = move_camera (key_pressed inp) (elapsed inp) vLookDir vOrthDir (vCam st);
          (yaw, pitch) = mouse_look (scrW st) (scrH st) (mouse_x inp) (mouse_y inp)
                           (fYaw st) (fPitch st);
          matCamera = mPointAt c vTarget (vec3 0 1 0);
          matView = mQuickInverse matCamera
      in (st\<lparr>vCam := c, fYaw := yaw, fPitch := pitch\<rparr>, matView))"

text \<open>Lines 130--138: a close request closes the window; a resize stores the new size
  and rebuilds the projection for the new aspect ratio.\<close>

fun handle_event :: "app_state \<Rightarrow> sf_event \<Rightarrow> app_state" where
  "handle_event st Closed = st\<lparr>win_open := False\<rparr>"
| "handle_event st (Resized wd ht) =
     st\<lparr>scrH := of_nat ht, scrW := of_nat wd,
        projM := mProject 90 (of_nat ht / of_nat wd) 0.1 1000\<rparr>"
| "handle_event st OtherEvent = st"

text \<open>\<open>while (window.pollEvent(event))\<close> (lines 129--139): the events of the frame in
  order; once \<open>window.close()\<close> has run, \<open>pollEvent\<close> returns false and the events
  left in the queue are not handled.\<close>

fun poll_events :: "app_state \<Rightarrow> sf_event list \<Rightarrow> app_state" where
  "poll_events st [] = st"
| "poll_events st (e # evs) =
     (let st' = handle_event st e in if win_open st' then poll_events st' evs else st')"

text \<open>Lines 58--138 of one iteration: the world matrix, the camera step, the events,
  and the \<open>frame\<close> the triangle loop of lines 148--230 reads.\<close>

definition world_matrix :: mat4x4 where
  "world_matrix = mat_mul mIdentity (mTranslate 0 0 8)"

definition frame_setup :: "app_state \<Rightarrow> frame_input \<Rightarrow> app_state \<times> frame" where
  "frame_setup st inp =
     (let (st1, matV) = camera_step st inp;
          st2 = poll_events st1 (events inp)
      in (st2, \<lparr>matWorld = world_matrix, matView = matV, matProj = projM st2,
                vCamera = vCam st2, fScreenWidth = scrW st2, fScreenHeight = scrH st2\<rparr>))"

subsection \<open>The camera step\<close>

lemma look_vectors_unit: "vLength (fst (look_vectors yaw pitch)) = 1"
proof -
  have "vLength (fst (look_vectors yaw pitch)) = vLength (vec3 0 0 1)"
    by (simp add: look_vectors_def vectorMatrixProduct_mat_mul [symmetric] mRotateX_length
        mRotateY_length)
  then show ?thesis by (simp add: vLength_def geom_simps)
qed

lemma move_camera_W: "move_camera (\<lambda>k. k = KeyW) el L R c = vAdd c (vMul L (8 * el))"
  by (simp add: move_camera_def Let_def)

lemma camera_step_vCam:
  "vCam (fst (camera_step st inp)) =
     move_camera (key_pressed inp) (elapsed inp) (fst (look_vectors (fYaw st) (fPitch st)))
       (snd (look_vectors (fYaw st) (fPitch st))) (vCam st)"
  by (simp add: camera_step_def Let_def split: prod.split)

lemma camera_step_view:
  "snd (camera_step st inp) =
     mQuickInverse (mPointAt (vCam (fst (camera_step st inp)))
       (vAdd (vCam st) (fst (look_vectors (fYaw st) (fPitch st)))) (vec3 0 1 0))"
  by (simp add: camera_step_def Let_def split: prod.split)

lemma frame_setup_view: "matView (snd (frame_setup st inp)) = snd (camera_step st inp)"
  by (simp add: frame_setup_def Let_def split: prod.split)

text \<open>When the camera stands on its target, \<open>mPointAt\<close> normalises the zero vector
  and the view matrix flattens every point onto the plane \<open>z = 0\<close>.\<close>

lemma pointAt_on_target_flat:
  assumes "x p = x q" "y p = y q" "z p = z q"
  shows "z (vectorMatrixProduct v (mQuickInverse (mPointAt p q up))) = 0"
  using assms by (simp add: mPointAt_def mQuickInverse_def vectorMatrixProduct_def Let_def
      vNormalise_eq vLength_def geom_simps)

lemma flat_view_blank:
  assumes "\<And>v. z (vectorMatrixProduct v (matView F)) = 0"
  shows "view_and_clip F tri = []"
proof -
  have "\<forall>v \<in> set (tri_verts \<lparr>p0 = vectorMatrixProduct a (matView F),
            p1 = vectorMatrixProduct b (matView F), p2 = vectorMatrixProduct c (matView F),
            clr = k\<rparr>). plane_dist (vNormalise (vec3 0 0 1)) (vec3 0 0 0.1) v < 0" for a b c k
    by (simp add: tri_verts_def near_plane_dist assms)
  then show ?thesis by (simp add: view_and_clip_def Let_def clip_all_outside)
qed

subsection \<open>Properties\<close>

text \<open>C32: the target of the view is computed from the camera position before the keys
  move the camera. When W is the only key pressed and one frame takes \<open>1/8\<close> s, the
  camera moves exactly onto that target, the view matrix degenerates, and the frame
  shows nothing, whatever the mesh, the yaw and the pitch.\<close>

theorem stale_target_blank:
  assumes "key_pressed inp = (\<lambda>k. k = KeyW)" "elapsed inp = 1 / 8"
  shows "transform_mesh (snd (frame_setup st inp)) ts = []"
proof -
  let ?L = "fst (look_vectors (fYaw st) (fPitch st))"
  have "8 * elapsed inp = 1" using assms(2) by simp
  then have cam: "vCam (fst (camera_step st inp)) = vAdd (vCam st) (vMul ?L 1)"
    using assms(1) by (simp add: camera_step_vCam move_camera_W)
  have "z (vectorMatrixProduct v (matView (snd (frame_setup st inp)))) = 0" for v
    unfolding frame_setup_view camera_step_view cam
    by (rule pointAt_on_target_flat) (simp_all add: geom_simps)
  then show ?thesis by (simp add: transform_mesh_def transform_triangle_def flat_view_blank)
qed

text \<open>With W the only key pressed, the camera moves forward by exactly
  \<open>8 * elapsed\<close>: the look direction is a rotation of a unit vector.\<close>

lemma forward_move_distance:
  assumes "key_pressed inp = (\<lambda>k. k = KeyW)" "0 \<le> elapsed inp"
  shows "vLength (vSub (vCam (fst (camera_step st inp))) (vCam st)) = 8 * elapsed inp"
  using assms by (simp add: camera_step_vCam move_camera_W vLength_vSub_vAdd vLength_vMul
      look_vectors_unit)

subsection \<open>Witnesses\<close>

theorem stale_target_blank_witness:
  "key_pressed \<lparr>key_pressed = (\<lambda>k. k = KeyW), mouse_x = 0, mouse_y = 0, elapsed = 1 / 8, events = []\<rparr> = (\<lambda>k. k = KeyW) \<and> elapsed \<lparr>key_pressed = (\<lambda>k. k = KeyW), mouse_x = 0, mouse_y = 0, elapsed = 1 / 8, events = []\<rparr> = 1 / 8 \<and>
   transform_mesh (snd (frame_setup init_state \<lparr>key_pressed = (\<lambda>k. k = KeyW), mouse_x = 0, mouse_y = 0, elapsed = 1 / 8, events = []\<rparr>))
     [\<lparr>p0 = vec3 (-1) (-1) 0, p1 = vec3 0 2 0, p2 = vec3 1 (-1) 0, clr = color_default\<rparr>] = []"
proof -
  have h: "key_pressed \<lparr>key_pressed = (\<lambda>k. k = KeyW), mouse_x = 0, mouse_y = 0, elapsed = 1 / 8, events = []\<rparr> = (\<lambda>k. k = KeyW)" "elapsed \<lparr>key_pressed = (\<lambda>k. k = KeyW), mouse_x = 0, mouse_y = 0, elapsed = 1 / 8, events = []\<rparr> = 1 / 8" by simp_all
  show ?thesis using h stale_target_blank [OF h] by blast
qed

end
