(* ===== verification/Assembler.thy ===== *)
theory Assembler
  imports Pipeline "HOL-Library.Multiset"
begin

text \<open>
  The end of the frame loop of \<open>src/main.cpp\<close> (lines 232--288): the depth sort of
  \<open>vecTrianglesToRaster\<close> and the clipping of each sorted triangle against the four
  screen edges through the queue \<open>listTriangles\<close>. The drawing itself (lines
  273--286) is the external rasteriser; the model returns the triangles drawn, in the
  order drawn.

  \<open>std::sort\<close> with the comparator \<open>z1 > z2\<close> promises a permutation sorted by
  descending average depth and leaves the order of equal keys open; \<open>depth_sort\<close> is
  an insertion sort with that comparator, one of the orders \<open>std::sort\<close> may produce,
  and \<open>depth_sorted\<close> states the contract.

  The queue loop is modelled as written: \<open>drain\<close> is the inner \<open>while\<close>, which pops
  \<open>nNewTriangles\<close> triangles from the front and pushes their clipped children to the
  back, and \<open>edge_passes\<close> is the \<open>for\<close> loop over the four edges, which resets
  \<open>nNewTriangles\<close> to the queue's size after each edge. \<open>front()\<close> of an empty
  list is undefined behaviour, the value \<open>None\<close>.
\<close>

definition avg_z :: "triangle \<Rightarrow> float" where
  "avg_z t = (z (p0 t) + z (p1 t) + z (p2 t)) / 3"

text \<open>The comparator of lines 233--237.\<close>

definition depth_before :: "triangle \<Rightarrow> triangle \<Rightarrow> bool" where
  "depth_before t1 t2 \<longleftrightarrow> avg_z t1 > avg_z t2"

fun insort_depth :: "triangle \<Rightarrow> triangle list \<Rightarrow> triangle list" where
  "insort_depth t [] = [t]"
| "insort_depth t (u # us) = (if depth_before t u then t # u # us else u # insort_depth t us)"

fun depth_sort :: "triangle list \<Rightarrow> triangle list" where
  "depth_sort [] = []"
| "depth_sort (t # ts) = insort_depth t (depth_sort ts)"

text \<open>The screen edges of the \<open>switch (p)\<close> (lines 258--264) for the viewport
  \<open>W \<times> H\<close> (\<open>fScreenWidth\<close>, \<open>fScreenHeight\<close>): a point on the edge and the
  inward normal. The loop runs \<open>p\<close> from 0 to 3 only.\<close>

definition edge_plane :: "float \<Rightarrow> float \<Rightarrow> nat \<Rightarrow> vector3D \<times> vector3D" where
  "edge_plane W H p =
     (if p = 0 then (vec3 0 0 0, vec3 0 1 0)
      else if p = 1 then (vec3 0 (H - 1) 0, vec3 0 (-1) 0)
      else if p = 2 then (vec3 0 0 0, vec3 1 0 0)
      else (vec3 (W - 1) 0 0, vec3 (-1) 0 0))"

definition clip_edge :: "float \<Rightarrow> float \<Rightarrow> nat \<Rightarrow> triangle \<Rightarrow> triangle list" where
  "clip_edge W H p test =
     (let (plane_p, plane_n) = edge_plane W H p
      in Triangle_ClipAgainstPlane plane_p plane_n test)"

fun drain :: "float \<Rightarrow> float \<Rightarrow> nat \<Rightarrow> nat \<Rightarrow> triangle list \<Rightarrow> triangle list option" where
  "drain W H p 0 listTriangles = Some listTriangles"
| "drain W H p (Suc nNewTriangles) [] = None"
| "drain W H p (Suc nNewTriangles) (test # listTriangles) =
     drain W H p nNewTriangles (listTriangles @ clip_edge W H p test)"

fun edge_passes ::
  "float \<Rightarrow> float \<Rightarrow> nat list \<Rightarrow> nat \<Rightarrow> triangle list \<Rightarrow> triangle list option" where
  "edge_passes W H [] nNewTriangles listTriangles = Some listTriangles"
| "edge_passes W H (p # ps) nNewTriangles listTriangles =
     (case drain W H p nNewTriangles listTriangles of
        None \<Rightarrow> None
      | Some listTriangles' \<Rightarrow> edge_passes W H ps (length listTriangles') listTriangles')"

definition clip_to_screen :: "float \<Rightarrow> float \<Rightarrow> triangle \<Rightarrow> triangle list option" where
  "clip_to_screen W H triToRaster = edge_passes W H [0, 1, 2, 3] 1 [triToRaster]"

fun raster_all :: "float \<Rightarrow> float \<Rightarrow> triangle list \<Rightarrow> triangle list option" where
  "raster_all W H [] = Some []"
| "raster_all W H (t # ts) =
     (case clip_to_screen W H t of
        None \<Rightarrow> None
      | Some ds \<Rightarrow> (case raster_all W H ts of None \<Rightarrow> None | Some rest \<Rightarrow> Some (ds @ rest)))"

definition FrameAssembler :: "float \<Rightarrow> float \<Rightarrow> triangle list \<Rightarrow> triangle list option" where
  "FrameAssembler W H vecTrianglesToRaster = raster_all W H (depth_sort vecTrianglesToRaster)"

subsection \<open>Specifications\<close>

text \<open>The contract of the depth sort, and the reference for the queue loop: clip the
  whole current list against one edge after the other.\<close>

definition depth_sorted :: "triangle list \<Rightarrow> triangle list \<Rightarrow> bool" where
  "depth_sorted ts ss \<longleftrightarrow> mset ss = mset ts \<and> sorted_wrt (\<lambda>a b. avg_z b \<le> avg_z a) ss"

definition clip_all_edges :: "float \<Rightarrow> float \<Rightarrow> triangle \<Rightarrow> triangle list" where
  "clip_all_edges W H t =
     foldl (\<lambda>ts p. concat (map (clip_edge W H p) ts)) [t] [0, 1, 2, 3]"

definition in_viewport :: "float \<Rightarrow> float \<Rightarrow> vector3D \<Rightarrow> bool" where
  "in_viewport W H v \<longleftrightarrow> 0 \<le> x v \<and> x v \<le> W - 1 \<and> 0 \<le> y v \<and> y v \<le> H - 1"

text \<open>The half-space that edge \<open>p\<close> keeps, as normal and offset.\<close>

definition edge_halfspace :: "float \<Rightarrow> float \<Rightarrow> nat \<Rightarrow> vector3D \<times> float" where
  "edge_halfspace W H p = (let (pp, n) = edge_plane W H p in (n, vDotProduct n pp))"

subsection \<open>Depth sort, queue loop and screen clipping\<close>

lemma drain_eq:
  "n \<le> length q \<Longrightarrow>
     drain W H p n q = Some (drop n q @ concat (map (clip_edge W H p) (take n q)))"
proof (induction n arbitrary: q)
  case 0
  then show ?case by simp
next
  case (Suc n)
  then obtain t q' where q: "q = t # q'" by (cases q) auto
  with Suc.prems have "n \<le> length (q' @ clip_edge W H p t)" by simp
  with Suc.IH have "drain W H p n (q' @ clip_edge W H p t)
      = Some (drop n (q' @ clip_edge W H p t) @ concat (map (clip_edge W H p) (take n (q' @ clip_edge W H p t))))" .
  moreover from Suc.prems q have "n \<le> length q'" by simp
  ultimately show ?case by (simp add: q)
qed

lemma edge_passes_eq:
  "edge_passes W H ps (length q) q = Some (foldl (\<lambda>ts p. concat (map (clip_edge W H p) ts)) q ps)"
proof (induction ps arbitrary: q)
  case Nil
  then show ?case by simp
next
  case (Cons p ps)
  have "drain W H p (length q) q = Some (concat (map (clip_edge W H p) q))"
    by (simp add: drain_eq)
  with Cons.IH show ?case by simp
qed

lemma clip_to_screen_eq: "clip_to_screen W H t = Some (clip_all_edges W H t)"
  using edge_passes_eq [of W H "[0, 1, 2, 3]" "[t]"]
  by (simp add: clip_to_screen_def clip_all_edges_def)

lemma mset_insort_depth: "mset (insort_depth t us) = add_mset t (mset us)"
  by (induction us) auto

lemma set_insort_depth: "set (insort_depth t us) = insert t (set us)"
  by (induction us) auto

lemma sorted_insort_depth:
  "sorted_wrt (\<lambda>a b. avg_z b \<le> avg_z a) us \<Longrightarrow>
     sorted_wrt (\<lambda>a b. avg_z b \<le> avg_z a) (insort_depth t us)"
proof (induction us)
  case Nil
  then show ?case by simp
next
  case (Cons u us)
  show ?case
  proof (cases "depth_before t u")
    case True
    with Cons.prems show ?thesis by (auto simp: depth_before_def)
  next
    case False
    with Cons.prems Cons.IH show ?thesis
      by (auto simp: depth_before_def set_insort_depth)
  qed
qed

lemma depth_sort_mset: "mset (depth_sort ts) = mset ts"
  by (induction ts) (simp_all add: mset_insort_depth)

lemma depth_sort_sorted: "sorted_wrt (\<lambda>a b. avg_z b \<le> avg_z a) (depth_sort ts)"
  by (induction ts) (simp_all add: sorted_insort_depth)

text \<open>C9: the depth sort returns a permutation of the candidate triangles ordered by non-increasing average depth (painter's order, back to front).\<close>

theorem depth_sort_spec: "depth_sorted ts (depth_sort ts)"
  by (simp add: depth_sorted_def depth_sort_mset depth_sort_sorted)


lemma raster_all_eq: "raster_all W H ts = Some (concat (map (clip_all_edges W H) ts))"
  by (induction ts) (simp_all add: clip_to_screen_eq)

text \<open>C7: the frame assembler never pops an empty queue, and its queue-based screen clipping gives exactly the triangles of the reference that clips the whole current list against the top, bottom, left and right edges in turn, for the depth-sorted candidates in order.\<close>

theorem frame_assembler_reference:
  "FrameAssembler W H ts = Some (concat (map (clip_all_edges W H) (depth_sort ts)))"
  by (simp add: FrameAssembler_def raster_all_eq)

lemma edge_normal_unit: "vNormalise (snd (edge_plane W H p)) = snd (edge_plane W H p)"
  by (rule vNormalise_unit) (simp add: edge_plane_def geom_simps)

lemma clip_edge_sound:
  assumes "T \<in> set (clip_edge W H p t)" "v \<in> set (tri_verts T)"
  shows "in_halfspace (fst (edge_halfspace W H p)) (snd (edge_halfspace W H p)) v"
proof -
  obtain pp n where e: "edge_plane W H p = (pp, n)" by (cases "edge_plane W H p")
  then have "vNormalise n = n" using edge_normal_unit [of W H p] by simp
  moreover have "0 \<le> plane_dist (vNormalise n) pp v"
    using assms e by (intro clip_vertex_inside [of T pp n t]) (simp_all add: clip_edge_def)
  ultimately show ?thesis
    by (simp add: edge_halfspace_def e in_halfspace_def plane_dist_eq)
qed

lemma clip_edge_halfspace:
  assumes "\<forall>u \<in> set (tri_verts t). in_halfspace k c u"
    "T \<in> set (clip_edge W H p t)" "v \<in> set (tri_verts T)"
  shows "in_halfspace k c v"
  using assms by (auto simp: clip_edge_def split: prod.splits intro: clip_halfspace)

lemma edge_passes_sound:
  assumes "\<forall>T \<in> set ts. \<forall>v \<in> set (tri_verts T). \<forall>h \<in> set hs. in_halfspace (fst h) (snd h) v"
  shows "\<forall>T \<in> set (foldl (\<lambda>ts p. concat (map (clip_edge W H p) ts)) ts ps).
           \<forall>v \<in> set (tri_verts T). \<forall>h \<in> set (hs @ map (edge_halfspace W H) ps).
             in_halfspace (fst h) (snd h) v"
  using assms
proof (induction ps arbitrary: ts hs)
  case Nil
  then show ?case by simp
next
  case (Cons p ps)
  have keep: "in_halfspace (fst h) (snd h) v"
    if "t \<in> set ts" "T \<in> set (clip_edge W H p t)" "v \<in> set (tri_verts T)" "h \<in> set hs"
    for t T v h
    using Cons.prems that by (intro clip_edge_halfspace [of t]) auto
  have "\<forall>T \<in> set (concat (map (clip_edge W H p) ts)). \<forall>v \<in> set (tri_verts T).
          \<forall>h \<in> set (hs @ [edge_halfspace W H p]). in_halfspace (fst h) (snd h) v"
    by (auto intro: keep clip_edge_sound)
  from Cons.IH [OF this] show ?case by simp
qed

lemma edge_halfspaces_viewport:
  "(\<forall>h \<in> set (map (edge_halfspace W H) [0, 1, 2, 3]). in_halfspace (fst h) (snd h) v)
     \<longleftrightarrow> in_viewport W H v"
  by (auto simp: edge_halfspace_def edge_plane_def in_halfspace_def in_viewport_def geom_simps)

lemma clip_all_edges_viewport:
  "\<forall>T \<in> set (clip_all_edges W H t). \<forall>v \<in> set (tri_verts T). in_viewport W H v"
  using edge_passes_sound [of "[t]" "[]" W H "[0, 1, 2, 3]"]
  by (simp add: clip_all_edges_def edge_halfspaces_viewport [symmetric])

text \<open>C8: every vertex of every triangle the frame assembler hands to the rasteriser lies in the viewport \<open>[0, W - 1] \<times> [0, H - 1]\<close>.\<close>

theorem frame_drawables_in_viewport:
  "\<exists>ds. FrameAssembler W H ts = Some ds \<and>
     (\<forall>T \<in> set ds. \<forall>v \<in> set (tri_verts T). in_viewport W H v)"
  using clip_all_edges_viewport by (auto simp: FrameAssembler_def raster_all_eq)


lemma halfspace_segment_open:
  assumes "c < vDotProduct k a" "c < vDotProduct k b" "0 \<le> t" "t \<le> 1"
  shows "c < vDotProduct k (vAdd a (vMul (vSub b a) t))"
proof -
  have eq: "vDotProduct k (vAdd a (vMul (vSub b a) t)) - c
        = (1 - t) * (vDotProduct k a - c) + t * (vDotProduct k b - c)"
    by (simp add: geom_simps algebra_simps)
  have "0 \<le> (1 - t) * (vDotProduct k a - c)" "0 \<le> t * (vDotProduct k b - c)"
    using assms by simp_all
  moreover have "0 < (1 - t) * (vDotProduct k a - c) \<or> 0 < t * (vDotProduct k b - c)"
    using assms by (cases "t = 1") simp_all
  ultimately show ?thesis using eq by linarith
qed

lemma clip_open_halfspace:
  assumes "\<forall>u \<in> set (tri_verts tri). c < vDotProduct k u"
    "T \<in> set (Triangle_ClipAgainstPlane pp n tri)" "v \<in> set (tri_verts T)"
  shows "c < vDotProduct k v"
proof (rule clip_preserves [OF _ _ assms(2,3)])
  fix a b
  assume "a \<in> set (tri_verts tri)" "b \<in> set (tri_verts tri)"
    and ab: "0 \<le> plane_dist (vNormalise n) pp a" "plane_dist (vNormalise n) pp b < 0"
  with assms(1) show "c < vDotProduct k (vectorIntersectsPlane pp (vNormalise n) a b)"
    unfolding vectorIntersectsPlane_param [OF vNormalise_idem]
    using intersect_param_bounds [OF ab] by (simp add: halfspace_segment_open)
qed (use assms(1) in simp)

lemma clip_edge_inside:
  assumes "\<forall>v \<in> set (tri_verts t). in_viewport W H v" "p < 4"
  shows "clip_edge W H p t = [t]"
proof -
  obtain pp n where e: "edge_plane W H p = (pp, n)" by (cases "edge_plane W H p")
  then have n: "vNormalise n = n" using edge_normal_unit [of W H p] by simp
  have "\<forall>v \<in> set (tri_verts t). 0 \<le> plane_dist (vNormalise n) pp v"
    using assms e
    by (auto simp: n plane_dist_eq in_viewport_def edge_plane_def geom_simps
        split: if_splits)
  then show ?thesis by (simp add: clip_edge_def e clip_all_inside)
qed

lemma clip_all_edges_left:
  assumes "\<forall>v \<in> set (tri_verts t). x v < 0"
  shows "clip_all_edges W H t = []"
proof -
  have keep: "\<forall>v \<in> set (tri_verts T). x v < 0"
    if "\<forall>v \<in> set (tri_verts u). x v < 0" "T \<in> set (clip_edge W H p u)" for u T p
  proof
    fix v assume "v \<in> set (tri_verts T)"
    with that show "x v < 0"
      using clip_open_halfspace [of u 0 "vec3 (-1) 0 0"]
      by (auto simp: clip_edge_def geom_simps split: prod.splits)
  qed
  have gone: "clip_edge W H 2 u = []" if "\<forall>v \<in> set (tri_verts u). x v < 0" for u
  proof -
    have "vNormalise (vec3 1 0 0) = vec3 1 0 0" by (rule vNormalise_unit) (simp add: geom_simps)
    with that have "\<forall>v \<in> set (tri_verts u). plane_dist (vNormalise (vec3 1 0 0)) (vec3 0 0 0) v < 0"
      by (simp add: plane_dist_def geom_simps)
    then show ?thesis by (simp add: clip_edge_def edge_plane_def clip_all_outside)
  qed
  have "\<forall>v \<in> set (tri_verts u). x v < 0" if "u \<in> set (clip_edge W H 1 y)" "y \<in> set (clip_edge W H 0 t)"
    for u y
    using keep [OF keep [OF assms that(2)] that(1)] .
  then have "\<forall>u \<in> set (concat (map (clip_edge W H 1) (clip_edge W H 0 t))). \<forall>v \<in> set (tri_verts u). x v < 0"
    by auto
  then show ?thesis by (simp add: clip_all_edges_def gone)
qed

text \<open>C10: screen clipping returns a triangle inside the viewport unchanged as the only drawable, and returns nothing for a triangle all of whose vertices lie left of the screen.\<close>

theorem screen_clip_inside_outside:
  "((\<forall>v \<in> set (tri_verts t). in_viewport W H v) \<longrightarrow> clip_to_screen W H t = Some [t]) \<and>
   ((\<forall>v \<in> set (tri_verts t). x v < 0) \<longrightarrow> clip_to_screen W H t = Some [])"
proof (intro conjI impI)
  assume "\<forall>v \<in> set (tri_verts t). in_viewport W H v"
  then show "clip_to_screen W H t = Some [t]"
    by (simp add: clip_to_screen_eq clip_all_edges_def clip_edge_inside)
next
  assume "\<forall>v \<in> set (tri_verts t). x v < 0"
  then show "clip_to_screen W H t = Some []"
    by (simp add: clip_to_screen_eq clip_all_edges_left)
qed

text \<open>Example: triangles with average depths 1, 5 and 3 are drawn in the order 5, 3, 1.\<close>

lemma depth_sort_example:
  "map avg_z (depth_sort (map (\<lambda>d. \<lparr>p0 = vec3 0 0 d, p1 = vec3 0 0 d, p2 = vec3 0 0 d,
      clr = color_default\<rparr>) [1, 5, 3])) = [5, 3, 1]"
  by (simp add: avg_z_def depth_before_def geom_simps)

subsection \<open>Witnesses\<close>

theorem frame_drawables_in_viewport_witness:
  "list_all (\<lambda>T. list_all (in_viewport 800 600) (tri_verts T))
     (the (FrameAssembler 800 600 [\<lparr>p0 = vec3 10 10 1, p1 = vec3 100 10 1, p2 = vec3 10 100 1, clr = color_default\<rparr>]))"
  using frame_drawables_in_viewport [of 800 600 "[\<lparr>p0 = vec3 10 10 1, p1 = vec3 100 10 1, p2 = vec3 10 100 1, clr = color_default\<rparr>]"] by (auto simp: list_all_iff)

theorem screen_clip_inside_outside_witness: "clip_to_screen 800 600 \<lparr>p0 = vec3 10 10 1, p1 = vec3 100 10 1, p2 = vec3 10 100 1, clr = color_default\<rparr> = Some [\<lparr>p0 = vec3 10 10 1, p1 = vec3 100 10 1, p2 = vec3 10 100 1, clr = color_default\<rparr>]"
proof -
  have h: "\<forall>v \<in> set (tri_verts \<lparr>p0 = vec3 10 10 1, p1 = vec3 100 10 1, p2 = vec3 10 100 1, clr = color_default\<rparr>). in_viewport 800 600 v"
    by (simp add: tri_verts_def in_viewport_def geom_simps)
  show ?thesis using h screen_clip_inside_outside [where t = "\<lparr>p0 = vec3 10 10 1, p1 = vec3 100 10 1, p2 = vec3 10 100 1, clr = color_default\<rparr>" and W = 800 and H = 600] by blast
qed

end
