(* ===== verification/MainLoop.thy ===== *)
theory MainLoop
  imports Camera Assembler
begin

text \<open>
  The render loop \<open>while (window.isOpen())\<close> of \<open>src/main.cpp\<close> (lines 55--288):
  one iteration, \<open>render_frame\<close>, sets up the frame (theory Camera), transforms the
  mesh (theory Pipeline) and hands the result to the frame assembler (theory
  Assembler); \<open>main_loop\<close> runs iterations over a finite sequence of frame inputs
  while the window is open, and lists for each frame the triangles given to
  \<open>window.draw\<close>. \<open>reachable\<close> is the set of loop states reachable from the
  initial state, and \<open>app_inv\<close> the invariant they satisfy.
\<close>

definition render_frame ::
  "triangle list \<Rightarrow> app_state \<Rightarrow> frame_input \<Rightarrow> app_state \<times> triangle list option" where
  "render_frame ts st inp =
     (let (st', F) = frame_setup st inp
      in (st', FrameAssembler (fScreenWidth F) (fScreenHeight F) (transform_mesh F ts)))"

fun main_loop ::
  "triangle list \<Rightarrow> app_state \<Rightarrow> frame_input list \<Rightarrow> triangle list option list" where
  "main_loop ts st [] = []"
| "main_loop ts st (inp # inps) =
     (if win_open st
      then (let (st', drawn) = render_frame ts st inp in drawn # main_loop ts st' inps)
      else [])"

inductive reachable :: "app_state \<Rightarrow> bool" where
  reachable_init: "reachable init_state"
| reachable_step: "reachable st \<Longrightarrow> win_open st \<Longrightarrow> reachable (fst (frame_setup st inp))"

text \<open>Yaw and pitch stay within \<open>[-\<pi>, \<pi>]\<close>, and the projection matrix always
  matches the current aspect ratio of the window.\<close>

definition app_inv :: "app_state \<Rightarrow> bool" where
  "app_inv st \<longleftrightarrow>
     \<bar>fYaw st\<bar> \<le> pi \<and> \<bar>fPitch st\<bar> \<le> pi \<and>
     projM st = mProject 90 (scrH st / scrW st) 0.1 1000"

subsection \<open>Events and the mouse\<close>

lemma handle_event_fields:
  "fYaw (handle_event st e) = fYaw st \<and> fPitch (handle_event st e) = fPitch st \<and>
   vCam (handle_event st e) = vCam st"
  by (cases e) simp_all

lemma handle_event_proj:
  "projM st = mProject 90 (scrH st / scrW st) 0.1 1000 \<Longrightarrow>
   projM (handle_event st e) = mProject 90 (scrH (handle_event st e) / scrW (handle_event st e)) 0.1 1000"
  by (cases e) simp_all

lemma poll_events_inv: "app_inv st \<Longrightarrow> app_inv (poll_events st evs)"
proof (induction evs arbitrary: st)
  case Nil
  then show ?case by (simp add: Let_def)
next
  case (Cons e evs)
  have "app_inv (handle_event st e)"
    using Cons.prems handle_event_fields [of st e] handle_event_proj [of st e]
    by (simp add: app_inv_def)
  then show ?case using Cons.IH by (simp add: Let_def)
qed

lemma poll_events_open:
  "win_open (poll_events st evs) \<longleftrightarrow> win_open st \<and> Closed \<notin> set evs"
proof (induction evs arbitrary: st)
  case Nil
  then show ?case by (simp add: Let_def)
next
  case (Cons e evs)
  then show ?case by (cases e) (simp_all add: Let_def)
qed

lemma arcsin_ratio_bound:
  fixes m W :: real
  assumes "0 < m" "m < W"
  shows "\<bar>2 * arcsin ((m - W / 2) / (W / 2))\<bar> \<le> pi"
proof -
  have "-1 \<le> (m - W / 2) / (W / 2)" "(m - W / 2) / (W / 2) \<le> 1"
    using assms by (simp_all add: field_simps)
  from arcsin_bounded [OF this] show ?thesis by linarith
qed

lemma mouse_look_bound:
  assumes "\<bar>yaw\<bar> \<le> pi" "\<bar>pitch\<bar> \<le> pi"
  shows "\<bar>fst (mouse_look W H mx my yaw pitch)\<bar> \<le> pi \<and>
         \<bar>snd (mouse_look W H mx my yaw pitch)\<bar> \<le> pi"
  using assms arcsin_ratio_bound [of "of_int mx" W] arcsin_ratio_bound [of "of_int my" H]
  by (simp add: mouse_look_def)

lemma camera_step_fields:
  "fYaw (fst (camera_step st inp)) =
     fst (mouse_look (scrW st) (scrH st) (mouse_x inp) (mouse_y inp) (fYaw st) (fPitch st)) \<and>
   fPitch (fst (camera_step st inp)) =
     snd (mouse_look (scrW st) (scrH st) (mouse_x inp) (mouse_y inp) (fYaw st) (fPitch st)) \<and>
   win_open (fst (camera_step st inp)) = win_open st \<and>
   scrW (fst (camera_step st inp)) = scrW st \<and> scrH (fst (camera_step st inp)) = scrH st \<and>
   projM (fst (camera_step st inp)) = projM st"
  by (simp add: camera_step_def Let_def split: prod.split)

lemma frame_setup_state:
  "fst (frame_setup st inp) = poll_events (fst (camera_step st inp)) (events inp)"
  by (simp add: frame_setup_def Let_def split: prod.split)

lemma camera_step_inv: "app_inv st \<Longrightarrow> app_inv (fst (camera_step st inp))"
  using mouse_look_bound [of "fYaw st" "fPitch st"] camera_step_fields [of st inp]
  by (simp add: app_inv_def)

lemma frame_setup_inv: "app_inv st \<Longrightarrow> app_inv (fst (frame_setup st inp))"
  by (simp add: frame_setup_state camera_step_inv poll_events_inv)

lemma frame_setup_open:
  "win_open (fst (frame_setup st inp)) \<longleftrightarrow> win_open st \<and> Closed \<notin> set (events inp)"
  by (simp add: frame_setup_state poll_events_open camera_step_fields)

lemma render_frame_state: "fst (render_frame ts st inp) = fst (frame_setup st inp)"
  by (simp add: render_frame_def Let_def split: prod.split)

lemma main_loop_Cons:
  "win_open st \<Longrightarrow>
   main_loop ts st (inp # inps) =
     snd (render_frame ts st inp) # main_loop ts (fst (frame_setup st inp)) inps"
proof (cases "render_frame ts st inp")
  case (Pair st' drawn)
  with render_frame_state [of ts st inp] show "win_open st \<Longrightarrow> ?thesis" by simp
qed

subsection \<open>Properties\<close>

text \<open>C34: in every state the loop reaches from the initial state, yaw and pitch lie in
  \<open>[-\<pi>, \<pi>]\<close> and the projection matrix is the one for the current aspect ratio
  of the window, across any sequence of key presses, mouse positions and resize events.\<close>

theorem reachable_invariant:
  assumes "reachable st"
  shows "app_inv st"
  using assms
proof (induction rule: reachable.induct)
  case reachable_init
  then show ?case by (simp add: app_inv_def init_state_def)
next
  case (reachable_step st inp)
  then show ?case by (simp add: frame_setup_inv)
qed

text \<open>C35: the frame in which the close request arrives is still rendered and is the
  last one: the loop then stops, whatever inputs follow.\<close>

theorem main_loop_closed:
  assumes "win_open st" "Closed \<in> set (events inp)"
  shows "main_loop ts st (inp # inps) = [snd (render_frame ts st inp)]"
proof -
  have "main_loop ts (fst (frame_setup st inp)) inps = []"
    using assms(2) by (cases inps) (simp_all add: frame_setup_open)
  then show ?thesis unfolding main_loop_Cons [OF assms(1)] by simp
qed

subsection \<open>Witnesses\<close>

theorem reachable_invariant_witness:
  "reachable (fst (frame_setup init_state \<lparr>key_pressed = (\<lambda>_. False), mouse_x = 0, mouse_y = 0, elapsed = 1 / 60, events = [Closed]\<rparr>)) \<and> app_inv (fst (frame_setup init_state \<lparr>key_pressed = (\<lambda>_. False), mouse_x = 0, mouse_y = 0, elapsed = 1 / 60, events = [Closed]\<rparr>))"
proof -
  have "win_open init_state" by (simp add: init_state_def)
  then have h: "reachable (fst (frame_setup init_state \<lparr>key_pressed = (\<lambda>_. False), mouse_x = 0, mouse_y = 0, elapsed = 1 / 60, events = [Closed]\<rparr>))"
    by (rule reachable_step [OF reachable_init])
  show ?thesis using h reachable_invariant [OF h] by blast
qed

theorem main_loop_closed_witness:
  "win_open init_state \<and> Closed \<in> set (events \<lparr>key_pressed = (\<lambda>_. False), mouse_x = 0, mouse_y = 0, elapsed = 1 / 60, events = [Closed]\<rparr>) \<and>
   main_loop [] init_state [\<lparr>key_pressed = (\<lambda>_. False), mouse_x = 0, mouse_y = 0, elapsed = 1 / 60, events = [Closed]\<rparr>, \<lparr>key_pressed = (\<lambda>_. False), mouse_x = 0, mouse_y = 0, elapsed = 1 / 60, events = [Closed]\<rparr>] = [snd (render_frame [] init_state \<lparr>key_pressed = (\<lambda>_. False), mouse_x = 0, mouse_y = 0, elapsed = 1 / 60, events = [Closed]\<rparr>)]"
proof -
  have h: "win_open init_state" "Closed \<in> set (events \<lparr>key_pressed = (\<lambda>_. False), mouse_x = 0, mouse_y = 0, elapsed = 1 / 60, events = [Closed]\<rparr>)" by (simp_all add: init_state_def)
  show ?thesis using h main_loop_closed [OF h] by blast
qed

end
