(* ===== verification/Clock.thy ===== *)
theory Clock
  imports MainLoop
begin

text \<open>
  The frame clock of \<open>src/main.cpp\<close>: \<open>sf::Clock clock\<close> (line 52) is created before
  the loop, and every iteration starts with \<open>elapsed = clock.restart().asSeconds()\<close>
  (line 58), the time since the previous restart. The clock is SFML code: its state is the
  time of the last (re)start, and the wall-clock time of each reading is an input. The
  clocked loop \<open>clocked_loop\<close> takes the time at which each iteration starts together
  with its frame input, and returns the final state, the clock and the drawn lists.
  Lemmas: the clocked loop is \<open>main_loop\<close> on the inputs stamped with the clock's
  readings, and the camera speed of the arrow keys does not depend on the frame rate.
\<close>

record sf_clock =
  clk_start :: float

text \<open>\<open>sf::Clock clock\<close>: the clock starts at its creation time.\<close>

definition clock_create :: "float \<Rightarrow> sf_clock" where
  "clock_create now = \<lparr>clk_start = now\<rparr>"

text \<open>\<open>clock.getElapsedTime()\<close> (line 53) reads without restarting;
  \<open>clock.restart()\<close> (line 58) returns the same reading and restarts the clock.\<close>

definition getElapsedTime :: "float \<Rightarrow> sf_clock \<Rightarrow> float" where
  "getElapsedTime now c = now - clk_start c"

definition clock_restart :: "float \<Rightarrow> sf_clock \<Rightarrow> sf_clock \<times> float" where
  "clock_restart now c = (\<lparr>clk_start = now\<rparr>, getElapsedTime now c)"

type_synonym timed_input = "float \<times> frame_input"

text \<open>\<open>while (window.isOpen())\<close> with the clock: each iteration first restarts the
  clock at its start time and runs the frame with the reading as \<open>elapsed\<close>.\<close>

fun clocked_loop ::
  "triangle list \<Rightarrow> app_state \<Rightarrow> sf_clock \<Rightarrow> timed_input list \<Rightarrow>
   app_state \<times> sf_clock \<times> triangle list option list" where
  "clocked_loop ts st c [] = (st, c, [])"
| "clocked_loop ts st c ((now, inp) # rest) =
     (if win_open st
      then (let (c', el) = clock_restart now c;
                (st', drawn) = render_frame ts st (inp\<lparr>elapsed := el\<rparr>);
                (st'', c'', out) = clocked_loop ts st' c' rest
            in (st'', c'', drawn # out))
      else (st, c, []))"

text \<open>The reference: the frame inputs stamped with the readings of a clock restarted at
  each given time.\<close>

fun clock_stamps :: "sf_clock \<Rightarrow> timed_input list \<Rightarrow> frame_input list" where
  "clock_stamps c [] = []"
| "clock_stamps c ((now, inp) # rest) =
     inp\<lparr>elapsed := now - clk_start c\<rparr> # clock_stamps \<lparr>clk_start = now\<rparr> rest"

subsection \<open>The clocked loop\<close>

lemma clocked_loop_Cons_open:
  assumes "win_open st" "render_frame ts st (inp\<lparr>elapsed := now - clk_start c\<rparr>) = (st', drawn)"
  shows "clocked_loop ts st c ((now, inp) # rest) =
     (case clocked_loop ts st' \<lparr>clk_start = now\<rparr> rest of
        (st'', c'', out) \<Rightarrow> (st'', c'', drawn # out))"
  using assms by (simp add: clock_restart_def getElapsedTime_def split: prod.split)

lemma clocked_loop_main_loop:
  "snd (snd (clocked_loop ts st c tinps)) = main_loop ts st (clock_stamps c tinps)"
proof (induction tinps arbitrary: st c)
  case Nil
  then show ?case by simp
next
  case (Cons ti rest)
  obtain now inp where ti: "ti = (now, inp)" by (cases ti)
  let ?inp = "inp\<lparr>elapsed := now - clk_start c\<rparr>"
  show ?case
  proof (cases "win_open st")
    case True
    obtain st' drawn where r: "render_frame ts st ?inp = (st', drawn)"
      by (cases "render_frame ts st ?inp")
    then have st': "st' = fst (frame_setup st ?inp)"
      using render_frame_state [of ts st ?inp] by simp
    obtain st'' c'' out where l: "clocked_loop ts st' \<lparr>clk_start = now\<rparr> rest = (st'', c'', out)"
      by (cases "clocked_loop ts st' \<lparr>clk_start = now\<rparr> rest")
    from Cons.IH [of st' "\<lparr>clk_start = now\<rparr>"] l
    have "out = main_loop ts st' (clock_stamps \<lparr>clk_start = now\<rparr> rest)" by simp
    with True r l st' show ?thesis
      unfolding ti clocked_loop_Cons_open [OF True r] by (simp add: main_loop_Cons [OF True])
  next
    case False
    then show ?thesis by (simp add: ti)
  qed
qed

lemma move_camera_Up:
  "move_camera (\<lambda>k. k = KeyUp) el L R c = c\<lparr>y := y c + 8 * el\<rparr>"
  by (simp add: move_camera_def Let_def)

lemma frame_setup_Up:
  assumes "key_pressed inp = (\<lambda>k. k = KeyUp)" "events inp = []"
  shows "vCam (fst (frame_setup st inp)) = (vCam st)\<lparr>y := y (vCam st) + 8 * elapsed inp\<rparr>"
    and "win_open (fst (frame_setup st inp)) = win_open st"
  using assms
  by (simp_all add: frame_setup_state Let_def camera_step_vCam move_camera_Up
      frame_setup_open camera_step_fields)

lemma clocked_loop_state:
  assumes "win_open st"
  shows "fst (clocked_loop ts st c ((now, inp) # rest)) =
    fst (clocked_loop ts (fst (frame_setup st (inp\<lparr>elapsed := now - clk_start c\<rparr>))) \<lparr>clk_start = now\<rparr> rest)"
proof -
  let ?inp = "inp\<lparr>elapsed := now - clk_start c\<rparr>"
  obtain st' drawn where r: "render_frame ts st ?inp = (st', drawn)"
    by (cases "render_frame ts st ?inp")
  then have "st' = fst (frame_setup st ?inp)"
    using render_frame_state [of ts st ?inp] by simp
  with r show ?thesis
    unfolding clocked_loop_Cons_open [OF assms r] by (simp split: prod.split)
qed

lemma clock_stamps_telescope:
  "sum_list (map elapsed (clock_stamps c tinps)) = last (clk_start c # map fst tinps) - clk_start c"
proof (induction tinps arbitrary: c)
  case Nil
  then show ?case by simp
next
  case (Cons ti rest)
  obtain now inp where ti: "ti = (now, inp)" by (cases ti)
  with Cons.IH [of "\<lparr>clk_start = now\<rparr>"] show ?case by (cases rest) simp_all
qed

subsection \<open>Properties\<close>

text \<open>C25: the clocked loop draws exactly what \<open>main_loop\<close> draws on the frame inputs
  stamped with the clock's readings, and these readings add up to the time from the clock's
  start to the start of the last frame: modelling \<open>elapsed\<close> as an input of each frame
  loses nothing, and no time is lost or counted twice between frames.\<close>

theorem clocked_loop_readings:
  "snd (snd (clocked_loop ts st c tinps)) = main_loop ts st (clock_stamps c tinps) \<and>
   sum_list (map elapsed (clock_stamps c tinps)) = last (clk_start c # map fst tinps) - clk_start c"
  by (simp add: clocked_loop_main_loop clock_stamps_telescope)

text \<open>C33: the arrow keys move the camera at 8 units per second of wall-clock time,
  whatever the frame rate: holding Up over any sequence of frames raises the camera by
  8 times the time from the clock's last restart before the first frame to the start of the
  last frame, however that time is split into frames.\<close>

theorem arrow_speed_frame_rate_independent:
  assumes "\<forall>ti \<in> set tinps. key_pressed (snd ti) = (\<lambda>k. k = KeyUp) \<and> events (snd ti) = []"
    and "win_open st" and "tinps \<noteq> []"
  shows "vCam (fst (clocked_loop ts st c tinps)) =
    (vCam st)\<lparr>y := y (vCam st) + 8 * (fst (last tinps) - clk_start c)\<rparr>"
  using assms
proof (induction tinps arbitrary: st c)
  case Nil
  then show ?case by simp
next
  case (Cons ti rest)
  obtain now inp where ti: "ti = (now, inp)" by (cases ti)
  let ?inp = "inp\<lparr>elapsed := now - clk_start c\<rparr>"
  let ?st' = "fst (frame_setup st ?inp)"
  have keys: "key_pressed ?inp = (\<lambda>k. k = KeyUp)" "events ?inp = []"
    using Cons.prems(1) by (simp_all add: ti)
  have cam: "vCam ?st' = (vCam st)\<lparr>y := y (vCam st) + 8 * (now - clk_start c)\<rparr>"
    and op: "win_open ?st'"
    using frame_setup_Up [OF keys, of st] Cons.prems(2) by simp_all
  have step: "fst (clocked_loop ts st c (ti # rest)) = fst (clocked_loop ts ?st' \<lparr>clk_start = now\<rparr> rest)"
    unfolding ti by (rule clocked_loop_state [OF Cons.prems(2)])
  show ?case
  proof (cases "rest = []")
    case True
    then show ?thesis unfolding step by (simp add: cam ti)
  next
    case False
    have "vCam (fst (clocked_loop ts ?st' \<lparr>clk_start = now\<rparr> rest)) =
        (vCam ?st')\<lparr>y := y (vCam ?st') + 8 * (fst (last rest) - now)\<rparr>"
      using Cons.IH [of ?st' "\<lparr>clk_start = now\<rparr>"] Cons.prems(1) op False by simp
    with False show ?thesis by (simp add: step cam algebra_simps)
  qed
qed

subsection \<open>Witnesses\<close>

theorem arrow_speed_frame_rate_independent_witness:
  "vCam (fst (clocked_loop [] init_state (clock_create 0)
     [(1 / 60, \<lparr>key_pressed = (\<lambda>k. k = KeyUp), mouse_x = 0, mouse_y = 0, elapsed = 0, events = []\<rparr>),
      (1 / 20, \<lparr>key_pressed = (\<lambda>k. k = KeyUp), mouse_x = 0, mouse_y = 0, elapsed = 0, events = []\<rparr>)]))
   = vec3 0 (2 / 5) 0"
proof -
  have h: "\<forall>ti \<in> set [(1 / 60, \<lparr>key_pressed = (\<lambda>k. k = KeyUp), mouse_x = 0, mouse_y = 0, elapsed = 0, events = []\<rparr>),
      (1 / 20 :: real, \<lparr>key_pressed = (\<lambda>k. k = KeyUp), mouse_x = 0, mouse_y = 0, elapsed = 0, events = []\<rparr>)].
        key_pressed (snd ti) = (\<lambda>k. k = KeyUp) \<and> events (snd ti) = []"
    "win_open init_state"
    "[(1 / 60, \<lparr>key_pressed = (\<lambda>k. k = KeyUp), mouse_x = 0, mouse_y = 0, elapsed = 0, events = []\<rparr>),
      (1 / 20 :: real, \<lparr>key_pressed = (\<lambda>k. k = KeyUp), mouse_x = 0, mouse_y = 0, elapsed = 0, events = []\<rparr>)] \<noteq> []"
    by (simp_all add: init_state_def)
  from arrow_speed_frame_rate_independent [OF h, of "[]" "clock_create 0"] show ?thesis
    by (simp add: init_state_def clock_create_def vec3_def)
qed

end
