(* ===== verification/Draw.thy ===== *)
theory Draw
  imports Clock
begin

text \<open>
  What one iteration of the render loop shows (\<open>src/main.cpp\<close>): the frame is cleared
  to white (line 141), every triangle the frame assembler hands over is drawn as an
  \<open>sf::VertexArray\<close> of three vertices with the screen \<open>x, y\<close> of its points and its
  colour (lines 274--286), and the frame is displayed (line 289). \<open>draw_frame\<close> is the
  list of window commands of one iteration. The window itself is SFML: \<open>exec_cmd\<close> is
  its contract as a painter's canvas, over a coverage test \<open>cov\<close> that says which
  pixels a polygon covers (SFML's rasterisation rule, left as a parameter): \<open>clear\<close>
  fills the back buffer, \<open>draw\<close> paints the covered pixels over what is there, and
  \<open>display\<close> shows the back buffer.
\<close>

record vertex2 =
  position :: "float \<times> float"
  vcolor :: color

text \<open>\<open>sf::Color::White\<close>.\<close>

definition color_white :: color where
  "color_white = \<lparr>cr = 255, cg = 255, cb = 255, ca = 255\<rparr>"

datatype draw_cmd = Clear color | Draw "vertex2 list" | Display

definition tri_poly :: "triangle \<Rightarrow> vertex2 list" where
  "tri_poly t =
     [\<lparr>position = (x (p0 t), y (p0 t)), vcolor = clr t\<rparr>,
      \<lparr>position = (x (p1 t), y (p1 t)), vcolor = clr t\<rparr>,
      \<lparr>position = (x (p2 t), y (p2 t)), vcolor = clr t\<rparr>]"

definition frame_commands :: "triangle list \<Rightarrow> draw_cmd list" where
  "frame_commands ds = Clear color_white # map (\<lambda>t. Draw (tri_poly t)) ds @ [Display]"

definition draw_frame ::
  "triangle list \<Rightarrow> app_state \<Rightarrow> frame_input \<Rightarrow> app_state \<times> draw_cmd list option" where
  "draw_frame ts st inp =
     (let (st', drawn) = render_frame ts st inp in (st', map_option frame_commands drawn))"

text \<open>The whole of \<open>main\<close> (lines 15--291): the mesh is loaded into the empty
  \<open>meshObj\<close>, the loader's result is ignored (a file that cannot be opened leaves the
  mesh empty), the clock is created at time \<open>t0\<close>, and the clocked loop runs on the
  timed frame inputs. \<open>None\<close> is a loader that never returns, \<open>Inl\<close> a read of an
  undefined face index; otherwise the result lists the window commands of each frame.\<close>

definition run_main ::
  "string list option \<Rightarrow> float \<Rightarrow> timed_input list \<Rightarrow>
   (load_error + draw_cmd list option list) option" where
  "run_main file t0 tinps =
     (case LoadFromObjectFile \<lparr>tris = []\<rparr> file of
        None \<Rightarrow> None
      | Some (Inl e) \<Rightarrow> Some (Inl e)
      | Some (Inr (ok, meshObj)) \<Rightarrow>
          Some (Inr (map (map_option frame_commands)
            (snd (snd (clocked_loop (tris meshObj) init_state (clock_create t0) tinps))))))"

text \<open>The window is created 800 by 600 (lines 24--28), so its default \<open>sf::View\<close> shows
  the canvas rectangle \<open>[0, 800] \<times> [0, 600]\<close>; the program never sets another view. SFML
  maps the view onto the whole window, whatever its current size.\<close>

record sf_view =
  view_w :: float
  view_h :: float

definition window_view :: sf_view where
  "window_view = \<lparr>view_w = 800, view_h = 600\<rparr>"

definition view_to_window :: "sf_view \<Rightarrow> float \<Rightarrow> float \<Rightarrow> float \<times> float \<Rightarrow> float \<times> float" where
  "view_to_window v W H q = (fst q * W / view_w v, snd q * H / view_h v)"

type_synonym canvas = "float \<times> float \<Rightarrow> color"

type_synonym coverage = "vertex2 list \<Rightarrow> float \<times> float \<Rightarrow> bool"

fun exec_cmd :: "coverage \<Rightarrow> canvas \<times> canvas list \<Rightarrow> draw_cmd \<Rightarrow> canvas \<times> canvas list" where
  "exec_cmd cov (buf, shown) (Clear c) = (\<lambda>_. c, shown)"
| "exec_cmd cov (buf, shown) (Draw vs) = (\<lambda>q. if cov vs q then vcolor (hd vs) else buf q, shown)"
| "exec_cmd cov (buf, shown) Display = (buf, shown @ [buf])"

text \<open>The painter's picture of a list of triangles over a background: each pixel has the
  colour of the last triangle that covers it.\<close>

definition picture :: "coverage \<Rightarrow> canvas \<Rightarrow> triangle list \<Rightarrow> canvas" where
  "picture cov bg ds q =
     (case find (\<lambda>t. cov (tri_poly t) q) (rev ds) of None \<Rightarrow> bg q | Some t \<Rightarrow> clr t)"

subsection \<open>The canvas\<close>

lemma tri_poly_colour: "vcolor (hd (tri_poly t)) = clr t"
  by (simp add: tri_poly_def)

lemma exec_draws:
  "foldl (exec_cmd cov) (buf, sh) (map (\<lambda>t. Draw (tri_poly t)) ds) = (picture cov buf ds, sh)"
proof (induction ds rule: rev_induct)
  case Nil
  then show ?case by (simp add: picture_def)
next
  case (snoc t ds)
  then show ?case by (simp add: picture_def tri_poly_colour fun_eq_iff)
qed

lemma exec_frame_commands:
  "foldl (exec_cmd cov) (buf, sh) (frame_commands ds) =
     (picture cov (\<lambda>_. color_white) ds, sh @ [picture cov (\<lambda>_. color_white) ds])"
  by (simp add: frame_commands_def exec_draws)

lemma render_frame_drawn:
  "snd (render_frame ts st inp) =
     Some (concat (map (clip_all_edges (scrW (fst (frame_setup st inp))) (scrH (fst (frame_setup st inp))))
       (depth_sort (transform_mesh (snd (frame_setup st inp)) ts))))"
  by (simp add: render_frame_def frame_setup_def Let_def FrameAssembler_def raster_all_eq
      split: prod.split)

lemma draw_frame_state: "fst (draw_frame ts st inp) = fst (frame_setup st inp)"
  using render_frame_state [of ts st inp] by (auto simp: draw_frame_def split: prod.split)

lemma draw_frame_drawn: "snd (draw_frame ts st inp) = map_option frame_commands (snd (render_frame ts st inp))"
  by (simp add: draw_frame_def split: prod.split)

lemma main_loop_empty_mesh: "\<forall>d \<in> set (main_loop [] st inps). d = Some []"
proof (induction inps arbitrary: st)
  case Nil
  then show ?case by simp
next
  case (Cons inp inps)
  have "snd (render_frame [] st inp) = Some []"
    by (simp add: render_frame_drawn transform_mesh_def)
  with Cons.IH show ?case
    by (cases "render_frame [] st inp") (auto simp: Let_def)
qed

lemma draw_frame_resized:
  assumes "events inp = [Resized wd ht]"
  shows "scrW (fst (draw_frame ts st inp)) = of_nat wd \<and> scrH (fst (draw_frame ts st inp)) = of_nat ht"
  using assms by (simp add: draw_frame_state frame_setup_state Let_def)

subsection \<open>Properties\<close>

text \<open>C22: after the window is resized wider than 800 pixels, the screen clipping of the
  next frame keeps points up to \<open>x = wd - 1\<close> of the new width, but the unchanged view
  stretches the canvas over the window, so such a point is shown at or beyond the window's
  right edge: the clipping no longer matches what is visible.\<close>

theorem resize_clip_off_window:
  assumes "events inp = [Resized wd ht]" "800 < wd" "0 < ht"
  shows "in_viewport (scrW (fst (draw_frame ts st inp))) (scrH (fst (draw_frame ts st inp)))
           (vec3 (of_nat wd - 1) 0 0) \<and>
         of_nat wd \<le> fst (view_to_window window_view (scrW (fst (draw_frame ts st inp)))
                       (scrH (fst (draw_frame ts st inp))) (of_nat wd - 1, 0))"
proof -
  have w: "(801 :: float) \<le> of_nat wd" using assms(2) by simp
  have "of_nat wd * 800 \<le> (of_nat wd - 1) * (of_nat wd :: float)"
    using w by (simp add: algebra_simps)
  then show ?thesis
    using draw_frame_resized [OF assms(1), of ts st] assms(3) w
    by (simp add: in_viewport_def view_to_window_def window_view_def vec3_def field_simps)
qed

text \<open>C11: when the mesh file cannot be opened, the program does not stop: it runs with
  the empty mesh, and every frame it renders clears the window to white and displays it,
  drawing nothing.\<close>

theorem missing_mesh_white_frames:
  "run_main None t0 tinps =
     Some (Inr (replicate (length (snd (snd (clocked_loop [] init_state (clock_create t0) tinps))))
       (Some [Clear color_white, Display])))"
proof -
  let ?inps = "clock_stamps (clock_create t0) tinps"
  have "map (map_option frame_commands) (main_loop [] init_state ?inps) =
      replicate (length (main_loop [] init_state ?inps)) (Some [Clear color_white, Display])"
    using main_loop_empty_mesh [of init_state ?inps]
    by (simp add: map_replicate_const [symmetric] frame_commands_def cong: map_cong)
  then show ?thesis
    by (simp add: run_main_def LoadFromObjectFile_def clocked_loop_main_loop)
qed

text \<open>C40: every iteration of the loop clears the window to white, then draws, one
  \<open>sf::VertexArray\<close> each, exactly the screen-clipped pieces of the triangles the pipeline
  produced for the mesh, taken in painter's order (a permutation of them sorted back to
  front by average depth), each triangle's pieces together, and then displays.\<close>

theorem draw_frame_display:
  "\<exists>ds. snd (draw_frame ts st inp) =
       Some (Clear color_white #
             map (\<lambda>t. Draw (tri_poly t))
               (concat (map (clip_all_edges (scrW (fst (draw_frame ts st inp)))
                                            (scrH (fst (draw_frame ts st inp)))) ds)) @
             [Display]) \<and>
     depth_sorted (transform_mesh (snd (frame_setup st inp)) ts) ds"
proof -
  let ?ds = "depth_sort (transform_mesh (snd (frame_setup st inp)) ts)"
  have "snd (draw_frame ts st inp) =
      Some (Clear color_white #
            map (\<lambda>t. Draw (tri_poly t))
              (concat (map (clip_all_edges (scrW (fst (draw_frame ts st inp)))
                                           (scrH (fst (draw_frame ts st inp)))) ?ds)) @ [Display])"
    by (simp add: draw_frame_drawn render_frame_drawn draw_frame_state frame_commands_def)
  moreover have "depth_sorted (transform_mesh (snd (frame_setup st inp)) ts) ?ds"
    by (simp add: depth_sorted_def depth_sort_mset depth_sort_sorted)
  ultimately show ?thesis by blast
qed
subsection \<open>Witnesses\<close>

theorem resize_clip_off_window_witness:
  "in_viewport 1600 600 (vec3 1599 0 0) \<and> fst (view_to_window window_view 1600 600 (1599, 0)) = 3198"
proof -
  let ?I = "\<lparr>key_pressed = (\<lambda>_. False), mouse_x = 0, mouse_y = 0, elapsed = 1 / 60,
             events = [Resized 1600 600]\<rparr>"
  have h: "events ?I = [Resized 1600 600]" "800 < (1600 :: nat)" "0 < (600 :: nat)" by simp_all
  have s: "scrW (fst (draw_frame [] init_state ?I)) = 1600 \<and> scrH (fst (draw_frame [] init_state ?I)) = 600"
    using draw_frame_resized [OF h(1), of "[]" init_state] by simp
  from resize_clip_off_window [OF h, of "[]" init_state] s show ?thesis
    by (simp add: view_to_window_def window_view_def)
qed

end
