(* ===== verification/Spec2Isabelle.thy ===== *)
theory Spec2Isabelle
  imports ObjFile Draw
begin

text \<open>
  \<^bold>\<open>A verification library for the 3D Render Engine.\<close>
  The program (\<open>src/VectorMatrix.h\<close>, \<open>src/main.cpp\<close>) loads a Wavefront OBJ mesh,
  and on every frame of its SFML window moves a camera from the keyboard and the mouse,
  transforms, culls, lights and projects each triangle, clips it against the near plane
  and then against the four screen edges, sorts the results by depth and draws them.
  Each part is a shallow embedding of the code; \<open>float\<close> is \<open>real\<close> (exact
  arithmetic, so \<open>x / 0 = 0\<close> where IEEE gives NaN or infinity), colour channels are
  \<open>8 word\<close>, and the float-to-\<open>sf::Uint8\<close> cast truncates towards zero.

  \<^bold>\<open>Theories, in import order.\<close>
  \<^item> \<open>Prelude\<close>: the types \<open>float\<close> and \<open>u8\<close>, the truncating cast
    \<open>u8_of_float\<close>, the collection \<open>geom_simps\<close> of vector definitions.
  \<^item> \<open>Vector\<close>: \<open>struct vector3D\<close> (VectorMatrix.h 3--16) as a record with
    \<open>w = 1\<close> by default, and its operators \<open>vAdd\<close>, \<open>vSub\<close>, \<open>vMul\<close>,
    \<open>vDiv\<close> (which keep the left operand's \<open>w\<close>), \<open>vDotProduct\<close>,
    \<open>vCrossProduct\<close>, \<open>vLength\<close>, \<open>vNormalise\<close> (lines 31--107). Lemmas: the
    Lagrange identity, Cauchy--Schwarz, normalisation gives a unit vector (C24), the cross
    product is orthogonal to its factors.
  \<^item> \<open>Matrix\<close>: \<open>mat4x4\<close> as a function on index pairs, the row-vector product
    \<open>vectorMatrixProduct\<close>, \<open>mat_mul\<close> (\<open>operator*\<close>), \<open>mIdentity\<close>, the
    rotations, \<open>mProject\<close>, \<open>mTranslate\<close>, \<open>mPointAt\<close> and \<open>mQuickInverse\<close>
    (lines 18--29, 86--94, 150--286). Lemmas: the product is associative with the
    identity as unit (C21), composing matrices is transforming in sequence (C20),
    rotations keep lengths, \<open>mQuickInverse\<close> inverts rigid matrices (C17) and
    so the view matrix maps the camera to the origin and its target onto \<open>+z\<close> (C18),
    the up row of \<open>mPointAt\<close> is reversed (C19), the projection keeps depth in
    \<open>[0, 1]\<close> (C23), translation adds its offset.
  \<^item> \<open>Stream\<close>: the part of \<open>std::istream\<close> the loader uses, as libstdc++ implements
    it (not under \<open>src/\<close>): the record \<open>istream\<close> of buffer, \<open>failbit\<close> and
    \<open>eofbit\<close>, the sentry that skips white space, \<open>operator>>\<close> for \<open>char\<close>,
    \<open>int\<close> (clamped to \<open>[INT_MIN, INT_MAX]\<close> with \<open>failbit\<close> on overflow) and
    \<open>float\<close> (the \<open>num_get\<close> scan, then \<open>strtod\<close> on the scanned text, 0 and
    \<open>failbit\<close> when it is not a number). An extraction returns \<open>None\<close> when it leaves
    its target untouched. Printers \<open>show_int\<close> and \<open>show_decimal\<close> and the lemmas that
    extraction reads back what they print.
  \<^item> \<open>Mesh\<close>: \<open>triangle\<close>, \<open>mesh\<close> and \<open>LoadFromObjectFile\<close> (lines 109--148):
    \<open>read_vertex\<close> and \<open>read_face\<close> are the \<open>strstream\<close> extractions of one line
    over the Stream model, \<open>process_line\<close> one iteration, the read loop a
    \<^theory_text>\<open>partial_function (option)\<close>. Reading a face index that was never stored, and
    an index outside the vertex pool, are the errors of \<open>load_error\<close>. Lemmas: the
    loader returns when every line is shorter than 128 characters (C26) and never returns
    after a longer line (C27), it reads one vertex per \<open>v\<close> line and one triangle per
    \<open>f\<close> line (C28), an out-of-range face index is an error (C29), every
    \<open>vn\<close>/\<open>vt\<close> line is read as a zero vertex and shifts the later indices (C30), and
    lines starting with neither \<open>v\<close> nor \<open>f\<close> are ignored (C31).
  \<^item> \<open>ObjFile\<close>: a reference OBJ writer (vertices as decimals, faces as 0-based
    index triples) and the loader's contract on what it writes: the round trip (C37), the
    loader keeps meshes well formed (C38), a face line of two indices reads an
    uninitialised third index (C39), and a face index above \<open>INT_MAX\<close> is clamped with
    \<open>failbit\<close> set, so the rest of the line is never read (C14).
  \<^item> \<open>Clipper\<close>: \<open>vectorIntersectsPlane\<close> and \<open>Triangle_ClipAgainstPlane\<close>
    (lines 288--406), returning the list of output triangles instead of filling two out
    parameters. Lemmas: all output lies in the kept half-space (C1), the count of outputs
    (C2) for every inside count, so the missing final \<open>return\<close> is unreachable, the
    four cases (C3--C5), the one-inside case reverses the winding exactly when the inside
    vertex is the second (C6), and the two triangles of the two-inside case cover
    exactly the kept part of the input, by area (C36).
  \<^item> \<open>Pipeline\<close>: the body of the triangle loop of main.cpp (lines 145--230):
    \<open>world_transform\<close>, \<open>surface_normal\<close>, \<open>shade\<close>, \<open>view_and_clip\<close>,
    \<open>project_to_screen\<close>, \<open>transform_mesh\<close>, over the record \<open>frame\<close> of the
    matrices, camera and viewport. Lemmas: the perspective divide never divides by zero
    (C12), culling (C13), the colour bounds (C15), and at most two triangles per
    input.
  \<^item> \<open>Assembler\<close>: the depth sort, the queue-based clipping against the four screen
    edges and the draw list (main.cpp 232--288). Lemmas: the queue loop equals a
    reference that clips the whole list edge by edge (C7), every drawn vertex is in the
    viewport (C8), the sort meets its contract (C9), screen clipping of inside and outside
    triangles (C10), and the painter's order on an example.
  \<^item> \<open>Camera\<close>: the state kept across frames (\<open>app_state\<close>), the per-frame input,
    \<open>look_vectors\<close>, \<open>move_camera\<close>, \<open>mouse_look\<close>, \<open>camera_step\<close>, the window
    events and \<open>frame_setup\<close> (main.cpp 24--139). Lemmas: W moves the camera by
    \<open>8 * elapsed\<close>, and because the target is taken before the camera moves, a
    frame of \<open>1/8\<close> s with W pressed shows nothing (C32).
  \<^item> \<open>MainLoop\<close>: one iteration \<open>render_frame\<close> and the loop \<open>main_loop\<close> over a
    finite sequence of frame inputs, the reachable states and their invariant. Lemmas:
    yaw, pitch and the projection stay consistent in every reachable state (C34), a close
    request ends the loop after the current frame (C35).
  \<^item> \<open>Clock\<close>: \<open>sf::Clock\<close> as the time of its last restart (main.cpp 52--58) and
    \<open>clocked_loop\<close>, the render loop that restarts the clock at the start of every
    iteration and runs the frame with the reading as \<open>elapsed\<close>; the time of each
    iteration is an input. Lemmas: the clocked loop is \<open>main_loop\<close> on the stamped inputs
    and the readings add up to the elapsed wall-clock time (C25); the arrow keys move the
    camera at 8 units per second however the time is split into frames (C33).
  \<^item> \<open>Draw\<close>: the window commands of one iteration (\<open>clear\<close> to white, one
    \<open>draw\<close> of a three-vertex \<open>sf::VertexArray\<close> per triangle, \<open>display\<close>;
    main.cpp 141, 274--289) and SFML's contract as a painter's canvas over a coverage
    test given as a parameter, the window's default \<open>sf::View\<close>, fixed at the creation
    size 800 by 600 (main.cpp 24--28) and stretched over the window, and
    \<open>run_main\<close>, the whole of \<open>main\<close>: the loader, the clock and the clocked loop.
    After a resize wider than 800 the screen clip keeps points the view shows past the
    window's edge (C22). Lemmas: every frame clears to white, draws exactly the
    screen-clipped pieces of the pipeline's triangles in back-to-front order and displays
    (C40), and on the canvas this shows the painter's picture; when the mesh file
    cannot be opened the program runs on with the empty mesh and shows white frames (C11).
  \<^item> This theory: the first frame of the program for a concrete triangle, end to end
    (C16).

  \<^bold>\<open>Loops, fuel and bounds.\<close> The OBJ read loop may not terminate: a line of 128
  characters or more sets \<open>failbit\<close> on the file, and the loop then spins on a failed
  stream. It is a \<^theory_text>\<open>partial_function (option)\<close> whose value \<open>None\<close> is divergence;
  C26 proves it returns (\<open>Some\<close>) on every file of short lines and C27 that it diverges
  after a long one. The screen-clipping queue loop is a structural recursion on the counter
  \<open>nNewTriangles\<close> with \<open>None\<close> for a pop of an empty queue; C7 proves it never
  happens. The render loop runs over a finite list of inputs, one per frame; any finite
  prefix of a run is such a list. The clock readings are exact differences of real times. Face indices are \<open>int\<close>: extraction clamps at
  \<open>INT_MIN\<close> and \<open>INT_MAX\<close>, and the round trip (C37) asks for fewer than
  \<open>INT_MAX\<close> vertices so every printed index is read back exactly.

  \<^bold>\<open>Not modelled.\<close> SFML's window creation options (title, style, vsync,
  antialiasing), its rasterisation rule (which pixels a triangle covers is the parameter
  \<open>cov\<close>), alpha blending (the canvas overwrites; every colour the program draws is
  opaque) and drawing on a closed window (SFML ignores it; the model still lists the
  closing frame's commands); the
  source of wall-clock time, whose values are inputs of the clocked loop; \<open>strtod\<close>'s
  rounding of a decimal to the nearest float (the model reads decimal text as the exact
  real); IEEE rounding, NaN and infinities in general; \<open>std::sort\<close> is modelled by
  an insertion sort and specified by its contract (any sort meeting it gives the same
  multiset in the same depth order).
\<close>

definition e2e_tri :: triangle where
  "e2e_tri = \<lparr>p0 = vec3 (-1) (-1) 0, p1 = vec3 0 2 0, p2 = vec3 1 (-1) 0, clr = color_default\<rparr>"

definition e2e_input :: frame_input where
  "e2e_input = \<lparr>key_pressed = (\<lambda>_. False), mouse_x = 0, mouse_y = 0, elapsed = 1 / 60,
                events = []\<rparr>"

definition view0 :: mat4x4 where
  "view0 = mQuickInverse (mPointAt (vec3 0 0 0) (vAdd (vec3 0 0 0) (fst (look_vectors 0 0))) (vec3 0 1 0))"

definition frame0 :: frame where
  "frame0 = \<lparr>matWorld = world_matrix, matView = view0,
        matProj = mProject 90 (600 / 800) 0.1 1000, vCamera = vec3 0 0 0,
        fScreenWidth = 800, fScreenHeight = 600\<rparr>"

definition fov_scale :: float where
  "fov_scale = 1 / tan (90 * 0.5 / 180 * 3.14159)"

text \<open>The triangle in view space that the first frame produces for \<open>e2e_tri\<close>.\<close>

definition e2e_viewed :: triangle where
  "e2e_viewed =
     \<lparr>p0 = vec3 1 1 8, p1 = vec3 0 (-2) 8, p2 = vec3 (-1) 1 8,
         clr = shade (max 0.1 (vDotProduct light_direction \<lparr>x = 0, y = 0, z = -1, w = 1\<rparr>))
                 color_default\<rparr>"

lemma e2e_setup:
  "frame_setup init_state e2e_input =
     (init_state, \<lparr>matWorld = world_matrix, matView = view0,
        matProj = mProject 90 (600 / 800) 0.1 1000, vCamera = vec3 0 0 0,
        fScreenWidth = 800, fScreenHeight = 600\<rparr>)"
  by (simp add: frame_setup_def camera_step_def e2e_input_def init_state_def view0_def
      mouse_look_def move_camera_def Let_def Let_def split: prod.split)

lemma view0_apply: "vectorMatrixProduct v view0 = \<lparr>x = - x v, y = - y v, z = z v, w = w v\<rparr>"
  by (simp add: view0_def look_vectors_def mQuickInverse_def mPointAt_def vectorMatrixProduct_def
      mat_mul_def mRotateX_def mRotateY_def vNormalise_eq vLength_def geom_simps Let_def)

lemma world_apply: "vectorMatrixProduct v world_matrix = \<lparr>x = x v, y = y v, z = z v + 8 * w v, w = w v\<rparr>"
  by (simp add: world_matrix_def mat_mul_def mIdentity_def mTranslate_def vectorMatrixProduct_def)

lemma e2e_normal: "surface_normal (world_transform frame0 e2e_tri) = \<lparr>x = 0, y = 0, z = -1, w = 1\<rparr>"
proof -
  have "sqrt 36 = (6::real)" by (simp add: real_sqrt_unique)
  then show ?thesis
  by (simp add: surface_normal_def world_transform_def frame0_def world_apply e2e_tri_def
      vNormalise_eq vLength_def geom_simps Let_def)
qed

lemma e2e_view_clip:
  "view_and_clip frame0 e2e_tri = [e2e_viewed]"
proof -
  have "Triangle_ClipAgainstPlane (vec3 0 0 0.1) (vec3 0 0 1)
          \<lparr>p0 = vec3 1 1 8, p1 = vec3 0 (-2) 8, p2 = vec3 (-1) 1 8, clr = c\<rparr> =
        [\<lparr>p0 = vec3 1 1 8, p1 = vec3 0 (-2) 8, p2 = vec3 (-1) 1 8, clr = c\<rparr>]" for c
    by (rule clip_all_inside) (simp add: tri_verts_def near_plane_dist, simp add: geom_simps)
  moreover have "vectorMatrixProduct (p0 (world_transform frame0 e2e_tri)) view0 = vec3 1 1 8"
      "vectorMatrixProduct (p1 (world_transform frame0 e2e_tri)) view0 = vec3 0 (-2) 8"
      "vectorMatrixProduct (p2 (world_transform frame0 e2e_tri)) view0 = vec3 (-1) 1 8"
    by (simp_all add: world_transform_def frame0_def world_apply view0_apply e2e_tri_def geom_simps)
  ultimately show ?thesis
    unfolding view_and_clip_def Let_def e2e_normal
    by (simp add: e2e_viewed_def frame0_def world_transform_def world_apply
        e2e_tri_def geom_simps color_default_def)
qed

lemma fov_scale_bounds: "0 < fov_scale \<and> fov_scale < 2"
proof -
  let ?t = "90 * 0.5 / 180 * 3.14159 :: real"
  have a: "tan (pi / 6) < tan ?t"
    by (rule tan_monotone) (use pi_ge_two pi_less_4 in simp_all)
  have b: "1 / 2 < 1 / sqrt (3::real)"
    by (simp add: real_less_lsqrt)
  have "1 / 2 < tan ?t" using a b unfolding tan_30 by linarith
  then show ?thesis by (simp add: fov_scale_def field_simps)
qed

lemma proj0_apply:
  "x (vectorMatrixProduct v (mProject 90 (3 / 4) n f)) = x v * (3 / 4) * fov_scale \<and>
   y (vectorMatrixProduct v (mProject 90 (3 / 4) n f)) = y v * fov_scale \<and>
   w (vectorMatrixProduct v (mProject 90 (3 / 4) n f)) = z v"
  by (simp add: mProject_def vectorMatrixProduct_def fov_scale_def Let_def)

lemma screen0_apply:
  "x (to_viewport frame0 (vec3 a b 8)) = (a * (3 / 32) * fov_scale + 1) * 400 \<and>
   y (to_viewport frame0 (vec3 a b 8)) = (b * fov_scale / 8 + 1) * 300"
  by (simp add: to_viewport_def frame0_def proj0_apply Let_def geom_simps)

lemma e2e_reversed_dot:
  "vDotProduct (surface_normal (world_transform frame0 (e2e_tri\<lparr>p1 := p2 e2e_tri, p2 := p1 e2e_tri\<rparr>)))
     (vSub (p0 (world_transform frame0 (e2e_tri\<lparr>p1 := p2 e2e_tri, p2 := p1 e2e_tri\<rparr>)))
        (vCamera frame0)) = 8"
  unfolding world_transform_swap
  by (simp add: surface_normal_swap e2e_normal, simp add: world_transform_def frame0_def
      world_apply e2e_tri_def geom_simps)

lemma e2e_reversed_culled:
  "view_and_clip frame0 (e2e_tri\<lparr>p1 := p2 e2e_tri, p2 := p1 e2e_tri\<rparr>) = []"
  using e2e_reversed_dot by (simp add: view_and_clip_def Let_def)

text \<open>C16: on the program's first frame (camera at the origin, no key pressed, mouse
  outside the window, no event), the triangle \<open>(-1, -1, 0), (0, 2, 0), (1, -1, 0)\<close>
  of the mesh is drawn as exactly one triangle, inside the 800 by 600 viewport, whose
  centroid is the centre \<open>(400, 300)\<close> of the screen; with its winding reversed it is
  culled and nothing is drawn.\<close>

theorem end_to_end_centre:
  "\<exists>T. main_loop [e2e_tri] init_state [e2e_input] = [Some [T]] \<and>
       (x (p0 T) + x (p1 T) + x (p2 T)) / 3 = 400 \<and>
       (y (p0 T) + y (p1 T) + y (p2 T)) / 3 = 300 \<and>
       list_all (in_viewport 800 600) (tri_verts T) \<and>
       main_loop [e2e_tri\<lparr>p1 := p2 e2e_tri, p2 := p1 e2e_tri\<rparr>] init_state [e2e_input] =
         [Some []]"
proof -
  let ?T = "project_to_screen frame0 e2e_viewed"
  have fs0: "frame_setup init_state e2e_input = (init_state, frame0)"
    by (simp add: e2e_setup frame0_def)
  have open0: "win_open init_state" by (simp add: init_state_def)
  have loop: "main_loop ts init_state [e2e_input] =
      [FrameAssembler 800 600 (transform_mesh frame0 ts)]" for ts
    by (simp add: open0 render_frame_def fs0 frame0_def)
  have tm: "transform_mesh frame0 [e2e_tri] = [?T]"
    by (simp add: transform_mesh_def transform_triangle_def e2e_view_clip)
  have vp: "list_all (in_viewport 800 600) (tri_verts ?T)"
    using fov_scale_bounds
    by (simp add: e2e_viewed_def tri_verts_def project_to_screen_def in_viewport_def screen0_apply)
  then have fa: "FrameAssembler 800 600 [?T] = Some [?T]"
    by (simp add: FrameAssembler_def raster_all_eq clip_all_edges_def clip_edge_inside
        list_all_iff)
  have fa0: "FrameAssembler 800 600 [] = Some []" by (simp add: FrameAssembler_def)
  have rev: "transform_mesh frame0 [e2e_tri\<lparr>p1 := p2 e2e_tri, p2 := p1 e2e_tri\<rparr>] = []"
    by (simp add: transform_mesh_def transform_triangle_def e2e_reversed_culled)
  have c: "(x (p0 ?T) + x (p1 ?T) + x (p2 ?T)) / 3 = 400"
      "(y (p0 ?T) + y (p1 ?T) + y (p2 ?T)) / 3 = 300"
    by (simp_all add: e2e_viewed_def project_to_screen_def screen0_apply)
  show ?thesis
    unfolding loop tm rev fa fa0 using c vp by blast
qed

subsection \<open>Witnesses on the first frame\<close>

theorem perspective_divide_safe_witness:
  "matProj frame0 = mProject 90 (600 / 800) 0.1 1000 \<and>
   e2e_viewed \<in> set (view_and_clip frame0 e2e_tri) \<and> vec3 1 1 8 \<in> set (tri_verts e2e_viewed) \<and>
   0.1 \<le> w (vectorMatrixProduct (vec3 1 1 8) (matProj frame0))"
proof -
  have h: "matProj frame0 = mProject 90 (600 / 800) 0.1 1000"
      "e2e_viewed \<in> set (view_and_clip frame0 e2e_tri)" "vec3 1 1 8 \<in> set (tri_verts e2e_viewed)"
    by (simp add: frame0_def, simp add: e2e_view_clip, simp add: e2e_viewed_def tri_verts_def)
  show ?thesis using h perspective_divide_safe [OF h] by blast
qed

theorem backface_culled_witness:
  "0 \<le> vDotProduct (surface_normal (world_transform frame0 (e2e_tri\<lparr>p1 := p2 e2e_tri, p2 := p1 e2e_tri\<rparr>)))
          (vSub (p0 (world_transform frame0 (e2e_tri\<lparr>p1 := p2 e2e_tri, p2 := p1 e2e_tri\<rparr>))) (vCamera frame0)) \<and>
   transform_triangle frame0 (e2e_tri\<lparr>p1 := p2 e2e_tri, p2 := p1 e2e_tri\<rparr>) = []"
proof -
  have h: "0 \<le> vDotProduct (surface_normal (world_transform frame0 (e2e_tri\<lparr>p1 := p2 e2e_tri, p2 := p1 e2e_tri\<rparr>)))
          (vSub (p0 (world_transform frame0 (e2e_tri\<lparr>p1 := p2 e2e_tri, p2 := p1 e2e_tri\<rparr>))) (vCamera frame0))"
    by (simp add: e2e_reversed_dot)
  show ?thesis using h backface_culled [OF h] by blast
qed

theorem lighting_color_bounds_witness:
  "project_to_screen frame0 e2e_viewed \<in> set (transform_triangle frame0 e2e_tri) \<and>
   15 \<le> unat (cr (clr (project_to_screen frame0 e2e_viewed))) \<and>
   unat (cr (clr (project_to_screen frame0 e2e_viewed))) \<le> 150 \<and>
   cg (clr (project_to_screen frame0 e2e_viewed)) = 0 \<and>
   15 \<le> unat (cb (clr (project_to_screen frame0 e2e_viewed))) \<and>
   unat (cb (clr (project_to_screen frame0 e2e_viewed))) \<le> 150 \<and>
   ca (clr (project_to_screen frame0 e2e_viewed)) = ca (clr e2e_tri)"
proof -
  have h: "project_to_screen frame0 e2e_viewed \<in> set (transform_triangle frame0 e2e_tri)"
    by (simp add: transform_triangle_def e2e_view_clip)
  show ?thesis using h lighting_color_bounds [OF h] by blast
qed

end
